theory Spec2Isabelle
  imports Complex_Main
begin

section \<open>Python values, errors and the configuration dictionary\<close>

text \<open>
  The two trainers of \<^verbatim>\<open>adversarial.py\<close> read their configuration from the dictionary
  \<^verbatim>\<open>args\<close>. Its values are dynamically typed, and the code dispatches on the type of
  \<^verbatim>\<open>args['epsilon']\<close>, so the values are a datatype. Python floats are modelled by
  the reals (rounding, infinities and nan are outside the model). A device transfer
  \<^verbatim>\<open>.to(device)\<close> does not change a value and is left out.
\<close>

datatype pyval =
    PyFloat real
  | PyInt int
  | PyStr string
  | PyNone
  | PyDict "(string \<times> pyval) list"

datatype error = KeyError string | TypeError | ValueError | IndexError | StopIteration

type_synonym args = "string \<Rightarrow> pyval option"

text \<open>Sequencing of fallible steps: an exception ends the computation.\<close>

definition ebind :: "error + 'a \<Rightarrow> ('a \<Rightarrow> error + 'b) \<Rightarrow> error + 'b" where
  "ebind r f = (case r of Inl e \<Rightarrow> Inl e | Inr x \<Rightarrow> f x)"

text \<open>\<^verbatim>\<open>args[k]\<close>: a missing key raises KeyError.\<close>

definition getitem :: "args \<Rightarrow> string \<Rightarrow> error + pyval" where
  "getitem a k = (case a k of None \<Rightarrow> Inl (KeyError k) | Some v \<Rightarrow> Inr v)"

text \<open>\<^verbatim>\<open>v[k]\<close> on a value: only a dictionary can be indexed by a string.\<close>

definition subscript :: "pyval \<Rightarrow> string \<Rightarrow> error + pyval" where
  "subscript v k =
     (case v of
        PyDict kvs \<Rightarrow> (case map_of kvs k of None \<Rightarrow> Inl (KeyError k) | Some x \<Rightarrow> Inr x)
      | _ \<Rightarrow> Inl TypeError)"

text \<open>A value used in float arithmetic: a float or an int; anything else is a TypeError.\<close>

definition as_number :: "pyval \<Rightarrow> error + real" where
  "as_number v =
     (case v of PyFloat x \<Rightarrow> Inr x | PyInt i \<Rightarrow> Inr (real_of_int i) | _ \<Rightarrow> Inl TypeError)"

text \<open>\<^verbatim>\<open>math.log(v)\<close>: a ValueError outside the domain.\<close>

definition math_log :: "pyval \<Rightarrow> error + real" where
  "math_log v = ebind (as_number v) (\<lambda>x. if 0 < x then Inr (ln x) else Inl ValueError)"

text \<open>
  \<^verbatim>\<open>range(v)\<close>, as the number of iterations of the loop over it: a float is refused,
  a negative int gives no iteration.
\<close>

definition py_range :: "pyval \<Rightarrow> error + nat" where
  "py_range v = (case v of PyInt n \<Rightarrow> Inr (nat n) | _ \<Rightarrow> Inl TypeError)"

text \<open>\<^verbatim>\<open>os.path.join(a, b)\<close> on POSIX paths, for two components.\<close>

definition os_path_join :: "string \<Rightarrow> string \<Rightarrow> string" where
  "os_path_join a b =
     (if b \<noteq> [] \<and> hd b = CHR ''/'' then b
      else if a = [] \<or> last a = CHR ''/'' then a @ b
      else a @ ''/'' @ b)"

text \<open>
  \<^verbatim>\<open>os.path.join(args['output_path'][sub], name)\<close>, the path of every file the trainers
  write.
\<close>

definition output_file :: "args \<Rightarrow> string \<Rightarrow> string \<Rightarrow> error + string" where
  "output_file a sub name =
     ebind (getitem a ''output_path'') (\<lambda>op.
     ebind (subscript op sub) (\<lambda>d.
       case d of PyStr s \<Rightarrow> Inr (os_path_join s name) | _ \<Rightarrow> Inl TypeError))"

section \<open>Scalar tensors with their gradients\<close>

text \<open>
  A loss is a scalar tensor that remembers how it was computed, so that
  \<^verbatim>\<open>backward()\<close> can add its gradient to the parameters it depends on. A tensor is
  modelled by its value and its derivative with respect to each parameter address; the
  derivative is undefined at a parameter the tensor does not depend on.
\<close>

type_synonym addr = nat

type_synonym grad = "addr \<Rightarrow> real option"

record tensor =
  tval :: real
  tgrad :: grad

definition gscale :: "real \<Rightarrow> grad \<Rightarrow> grad" where
  "gscale c g = (\<lambda>p. map_option (\<lambda>x. c * x) (g p))"

definition gadd :: "grad \<Rightarrow> grad \<Rightarrow> grad" where
  "gadd g h =
     (\<lambda>p. case g p of
             None \<Rightarrow> h p
           | Some x \<Rightarrow> (case h p of None \<Rightarrow> Some x | Some y \<Rightarrow> Some (x + y)))"

text \<open>\<^verbatim>\<open>c * t\<close> for a float \<open>c\<close>.\<close>

definition smul :: "real \<Rightarrow> tensor \<Rightarrow> tensor" where
  "smul c t = \<lparr>tval = c * tval t, tgrad = gscale c (tgrad t)\<rparr>"

text \<open>\<^verbatim>\<open>s + t\<close> and \<^verbatim>\<open>s * t\<close> for two tensors.\<close>

definition tadd :: "tensor \<Rightarrow> tensor \<Rightarrow> tensor" where
  "tadd s t = \<lparr>tval = tval s + tval t, tgrad = gadd (tgrad s) (tgrad t)\<rparr>"

definition tmul :: "tensor \<Rightarrow> tensor \<Rightarrow> tensor" where
  "tmul s t =
     \<lparr>tval = tval s * tval t,
      tgrad = gadd (gscale (tval t) (tgrad s)) (gscale (tval s) (tgrad t))\<rparr>"

text \<open>\<^verbatim>\<open>c - t\<close> for a float \<open>c\<close>.\<close>

definition rsub :: "real \<Rightarrow> tensor \<Rightarrow> tensor" where
  "rsub c t = \<lparr>tval = c - tval t, tgrad = gscale (- 1) (tgrad t)\<rparr>"

definition relu :: "tensor \<Rightarrow> tensor" where
  "relu t = \<lparr>tval = max 0 (tval t), tgrad = gscale (if 0 < tval t then 1 else 0) (tgrad t)\<rparr>"

text \<open>
  \<^verbatim>\<open>.mean()\<close> of a tensor given by the list of its components. (Of a tensor with no
  component PyTorch returns nan, which the reals do not have: the statements about a mean
  assume a component.)
\<close>

definition mean :: "tensor list \<Rightarrow> tensor" where
  "mean ts = smul (1 / real (length ts)) (foldr tadd ts \<lparr>tval = 0, tgrad = (\<lambda>p. None)\<rparr>)"

section \<open>The two computations every step shares\<close>

text \<open>
  Lines 20 and 84:
  \<^verbatim>\<open>noise_entropy_threshold = math.log(args['var_threshold']) + (1 + math.log(2 * math.pi)) / 2\<close>
\<close>

definition noise_entropy_threshold :: "args \<Rightarrow> error + real" where
  "noise_entropy_threshold a =
     ebind (getitem a ''var_threshold'') (\<lambda>v.
     ebind (math_log v) (\<lambda>l. Inr (l + (1 + ln (2 * pi)) / 2)))"

text \<open>
  Lines 47, 113 and 145:
  \<^verbatim>\<open>torch.relu(noise_entropy_threshold - model.noise.dist.entropy()).mean()\<close>,
  where \<open>H\<close> lists the components of the entropy tensor.
\<close>

definition noise_entropy :: "real \<Rightarrow> tensor list \<Rightarrow> tensor" where
  "noise_entropy T H = mean (map (\<lambda>h. relu (rsub T h)) H)"

text \<open>
  \<^verbatim>\<open>np.random.choice(xs)\<close> reads numpy's global generator. The generator is modelled
  by the sequence of its future draws: a call takes the first one as an index into
  \<open>xs\<close> and leaves the rest.
\<close>

type_synonym rng = "nat \<Rightarrow> nat"

definition random_choice :: "'a list \<Rightarrow> rng \<Rightarrow> 'a \<times> rng" where
  "random_choice xs g = (xs ! (g 0 mod length xs), (\<lambda>i. g (Suc i)))"

definition eps_choices :: "real list" where
  "eps_choices = [8 / 255, 16 / 255, 32 / 255, 64 / 255, 128 / 255]"

text \<open>
  Lines 29-35, 95-101 and 127-133: the \<^verbatim>\<open>epsilon\<close> keyword the attack is called with
  (\<open>None\<close>: the attack is called without it).
  \<^verbatim>\<open>
  if isinstance(args['epsilon'], float):   attack(..., epsilon=args['epsilon'])
  elif args['epsilon'] == 'rand':          attack(..., epsilon=np.random.choice([...]))
  else:                                    attack(...)
  \<close>
\<close>

definition select_epsilon :: "args \<Rightarrow> rng \<Rightarrow> error + (real option \<times> rng)" where
  "select_epsilon a g =
     ebind (getitem a ''epsilon'') (\<lambda>e.
       case e of
         PyFloat x \<Rightarrow> Inr (Some x, g)
       | _ \<Rightarrow>
           if e = PyStr ''rand''
           then (case random_choice eps_choices g of (x, g') \<Rightarrow> Inr (Some x, g'))
           else Inr (None, g))"

text \<open>\<^verbatim>\<open>xs[-1]\<close>: an IndexError on the empty list.\<close>

definition py_last :: "'a list \<Rightarrow> error + 'a" where
  "py_last xs = (if xs = [] then Inl IndexError else Inr (last xs))"

text \<open>\<^verbatim>\<open>next(it)\<close> on a list iterator, given by the elements it has left.\<close>

definition next_iter :: "'a list \<Rightarrow> error + ('a \<times> 'a list)" where
  "next_iter it = (case it of [] \<Rightarrow> Inl StopIteration | b # rest \<Rightarrow> Inr (b, rest))"

section \<open>The model, the optimizers and the collaborators\<close>

text \<open>
  The model object is mutated in place by the attack, the forward passes, the backward
  passes and the optimizers. Its state is the store of its parameters (value and
  accumulated gradient \<^verbatim>\<open>.grad\<close> at each address) and everything else it holds (the
  training flag, the noise distribution of the last forward pass, buffers), which the
  trainers never look into.
\<close>

record 'h model =
  pdata :: "addr \<Rightarrow> real"
  pgrad :: "addr \<Rightarrow> real option"
  hidden :: 'h

text \<open>
  The sub-modules the meta trainer builds its optimizers from (lines 69-78):
  \<^verbatim>\<open>model.gen\<close>, \<^verbatim>\<open>model.noise.fc_mu\<close>, \<^verbatim>\<open>model.noise.fc_sigma\<close>,
  \<^verbatim>\<open>model.noise.fc_b\<close>, \<^verbatim>\<open>model.proto\<close> and \<^verbatim>\<open>model.reg_term\<close>.
\<close>

datatype submodule = Gen | Fc_mu | Fc_sigma | Fc_b | Proto | Reg_term

text \<open>
  An optimizer holds its parameter groups, its learning rate as it was passed, and its
  own state for each parameter.
\<close>

record 'os optimizer =
  param_groups :: "addr list list"
  lr :: pyval
  ostate :: "addr \<Rightarrow> 'os"

text \<open>
  What the trainers call and do not implement: the attack, the model's class (its forward
  pass, its accessors, the parameters of its sub-modules), the loss function, the
  normalization, the accuracy evaluator and Adam's update rule. Each is a parameter of
  the development. The attack, the forward pass, \<^verbatim>\<open>model.train()\<close> and the evaluator
  receive the model and return it as they leave it.
\<close>

record ('h, 'x, 'y, 'l, 'os) env =
  attack :: "'h model \<Rightarrow> 'x \<Rightarrow> 'y \<Rightarrow> real option \<Rightarrow> 'x \<times> 'h model"
  train_mode :: "'h model \<Rightarrow> 'h model"
  forward :: "'h model \<Rightarrow> 'x \<Rightarrow> 'l \<times> 'h model"
  loss_func :: "'l \<Rightarrow> 'y \<Rightarrow> tensor"
  entropy :: "'h model \<Rightarrow> tensor list"
  get_reg_term :: "'h model \<Rightarrow> tensor"
  get_b_vector :: "'h model \<Rightarrow> real list"
  normalize_cifar10 :: "'x \<Rightarrow> 'x"
  accuracy :: "'h model \<Rightarrow> ('x \<times> 'y) list \<Rightarrow> ('x \<Rightarrow> 'x) option \<Rightarrow> real \<times> 'h model"
  parameters :: "submodule \<Rightarrow> addr list"
  all_parameters :: "addr list"
  adam_init :: 'os
  adam_update :: "pyval \<Rightarrow> 'os \<Rightarrow> real \<Rightarrow> real \<Rightarrow> real \<times> 'os"

text \<open>
  Modelled from the spec: the model's class is not in \<^verbatim>\<open>adversarial.py\<close>. The spec
  describes its parameters as a partitioned set (generator, the three noise heads,
  prototype, regularization term): no parameter belongs to two of the six sub-modules.
\<close>

definition partitioned :: "('h, 'x, 'y, 'l, 'os) env \<Rightarrow> bool" where
  "partitioned E =
     distinct (concat (map (parameters E) [Gen, Fc_mu, Fc_sigma, Fc_b, Proto, Reg_term]))"

text \<open>\<^verbatim>\<open>Adam(groups, lr=v)\<close>: a fresh optimizer over the groups.\<close>

definition Adam :: "('h, 'x, 'y, 'l, 'os) env \<Rightarrow> addr list list \<Rightarrow> pyval \<Rightarrow> 'os optimizer" where
  "Adam E groups v = \<lparr>param_groups = groups, lr = v, ostate = (\<lambda>p. adam_init E)\<rparr>"

text \<open>\<^verbatim>\<open>optimizer.zero_grad()\<close>: the gradients of the optimizer's parameters are reset.\<close>

definition zero_grad :: "'os optimizer \<Rightarrow> 'h model \<Rightarrow> 'h model" where
  "zero_grad opt m =
     m\<lparr>pgrad := (\<lambda>p. if p \<in> set (concat (param_groups opt)) then None else pgrad m p)\<rparr>"

text \<open>
  \<^verbatim>\<open>loss.backward()\<close>: the gradient of the loss is added to \<^verbatim>\<open>.grad\<close> of every
  parameter the loss depends on, whichever optimizer owns it.
\<close>

definition backward :: "tensor \<Rightarrow> 'h model \<Rightarrow> 'h model" where
  "backward loss m =
     m\<lparr>pgrad := (\<lambda>p. case tgrad loss p of
                        None \<Rightarrow> pgrad m p
                      | Some d \<Rightarrow> Some (case pgrad m p of None \<Rightarrow> d | Some c \<Rightarrow> c + d))\<rparr>"

text \<open>
  \<^verbatim>\<open>optimizer.step()\<close>: every parameter of the optimizer's groups that has a gradient
  is updated by Adam's rule, together with the optimizer's state for it.
\<close>

definition update_param ::
  "('h, 'x, 'y, 'l, 'os) env \<Rightarrow> pyval \<Rightarrow> addr \<Rightarrow> 'h model \<times> (addr \<Rightarrow> 'os) \<Rightarrow> 'h model \<times> (addr \<Rightarrow> 'os)"
where
  "update_param E v p ms =
     (case ms of (m, os) \<Rightarrow>
        (case pgrad m p of
           None \<Rightarrow> (m, os)
         | Some d \<Rightarrow>
             (case adam_update E v (os p) (pdata m p) d of
                (x, s) \<Rightarrow> (m\<lparr>pdata := (pdata m)(p := x)\<rparr>, os(p := s)))))"

definition step ::
  "('h, 'x, 'y, 'l, 'os) env \<Rightarrow> 'os optimizer \<Rightarrow> 'h model \<Rightarrow> 'h model \<times> 'os optimizer"
where
  "step E opt m =
     (case fold (update_param E (lr opt)) (concat (param_groups opt)) (m, ostate opt) of
        (m', os') \<Rightarrow> (m', opt\<lparr>ostate := os'\<rparr>))"

text \<open>
  Lines 16-19 and 80-83: the normalization function, or none.
\<close>

definition select_norm :: "('h, 'x, 'y, 'l, 'os) env \<Rightarrow> args \<Rightarrow> error + ('x \<Rightarrow> 'x) option" where
  "select_norm E a =
     ebind (getitem a ''dataset'') (\<lambda>d.
       Inr (if d = PyStr ''cifar10'' then Some (normalize_cifar10 E) else None))"

text \<open>
  Lines 38-40, 104-106 and 136-138: both inputs are normalized when there is a
  normalization function.
\<close>

definition normalize_pair :: "('x \<Rightarrow> 'x) option \<Rightarrow> 'x \<Rightarrow> 'x \<Rightarrow> 'x \<times> 'x" where
  "normalize_pair nf data perturbed_data =
     (case nf of None \<Rightarrow> (data, perturbed_data) | Some f \<Rightarrow> (f data, f perturbed_data))"

text \<open>
  Lines 29-35, 95-101 and 127-133: the attack is called with the selected
  \<^verbatim>\<open>epsilon\<close>, or without it.
\<close>

definition perturb ::
  "('h, 'x, 'y, 'l, 'os) env \<Rightarrow> args \<Rightarrow> 'h model \<Rightarrow> rng \<Rightarrow> 'x \<Rightarrow> 'y \<Rightarrow> error + ('x \<times> 'h model \<times> rng)"
where
  "perturb E a m g data target =
     ebind (select_epsilon a g) (\<lambda>eg.
       case eg of (eps, g') \<Rightarrow>
         (case attack E m data target eps of (pd, m') \<Rightarrow> Inr (pd, m', g')))"

section \<open>What a run leaves behind\<close>

text \<open>
  The trainers return nothing: a run is observed through the files it writes and the
  lines it prints. Each write and each line is recorded in order. A checkpoint write
  carries the index of the epoch in which it happens, its path and the model as saved;
  a printed line carries the epoch number shown and the two accuracies.
\<close>

datatype npy = Arr1 "real list" | Arr2 "real list list"

datatype 'h effect =
    TorchSave nat string "'h model"
  | Print nat real real
  | NpSave string npy

text \<open>The local variables both trainers have.\<close>

record 'h run_state =
  model :: "'h model"
  np_random :: rng
  best_test_acc :: real
  train_accuracy :: "real list"
  test_accuracy :: "real list"
  effects :: "'h effect list"

text \<open>Lines 53-54 and 151-152: the two accuracies of the epoch are appended.\<close>

definition record_accuracy ::
  "('h, 'x, 'y, 'l, 'os) env \<Rightarrow> ('x \<Rightarrow> 'x) option \<Rightarrow> ('x \<times> 'y) list \<Rightarrow> ('x \<times> 'y) list \<Rightarrow>
   ('h, 'z) run_state_scheme \<Rightarrow> ('h, 'z) run_state_scheme"
where
  "record_accuracy E nf train_loader test_loader st =
     (case accuracy E (model st) train_loader nf of (tr, m1) \<Rightarrow>
        (case accuracy E m1 test_loader nf of (te, m2) \<Rightarrow>
           st\<lparr>model := m2,
              train_accuracy := train_accuracy st @ [tr],
              test_accuracy := test_accuracy st @ [te]\<rparr>))"

text \<open>
  Lines 56-62 and 156-162: the latest checkpoint, the best checkpoint when the test
  accuracy of the epoch exceeds the marker, and the printed line.
\<close>

definition save_best ::
  "args \<Rightarrow> nat \<Rightarrow> ('h, 'z) run_state_scheme \<Rightarrow> error + ('h, 'z) run_state_scheme"
where
  "save_best a epoch st =
     ebind (py_last (test_accuracy st)) (\<lambda>te.
       if best_test_acc st < te
       then ebind (py_last (test_accuracy st)) (\<lambda>te'.
            ebind (output_file a ''models'' ''ckpt_best.pt'') (\<lambda>path.
              Inr (st\<lparr>best_test_acc := te',
                      effects := effects st @ [TorchSave epoch path (model st)]\<rparr>)))
       else Inr st)"

definition checkpoint ::
  "args \<Rightarrow> nat \<Rightarrow> ('h, 'z) run_state_scheme \<Rightarrow> error + ('h, 'z) run_state_scheme"
where
  "checkpoint a epoch st =
     ebind (output_file a ''models'' ''ckpt.pt'') (\<lambda>path.
     ebind (save_best a epoch (st\<lparr>effects := effects st @ [TorchSave epoch path (model st)]\<rparr>)) (\<lambda>st'.
     ebind (py_last (train_accuracy st')) (\<lambda>tr.
     ebind (py_last (test_accuracy st')) (\<lambda>te.
       Inr (st'\<lparr>effects := effects st' @ [Print (epoch + 1) tr te]\<rparr>)))))"

section \<open>The standard trainer\<close>

record ('h, 'os) train_state = "'h run_state" +
  optimizer :: "'os optimizer"

text \<open>
  Lines 49-50:
  \<^verbatim>\<open>loss = w * adv_loss + (1. - w) * clean_loss + args['reg_term'] * noise_entropy\<close>
\<close>

definition train_loss :: "args \<Rightarrow> tensor \<Rightarrow> tensor \<Rightarrow> tensor \<Rightarrow> error + tensor" where
  "train_loss a adv_loss clean_loss pen =
     ebind (getitem a ''adv_loss_w'') (\<lambda>wv.
     ebind (as_number wv) (\<lambda>w.
     ebind (getitem a ''reg_term'') (\<lambda>rv.
     ebind (as_number rv) (\<lambda>r.
       Inr (tadd (tadd (smul w adv_loss) (smul (1 - w) clean_loss)) (smul r pen))))))"

text \<open>Lines 26-52: one batch of the standard trainer.\<close>

definition train_step ::
  "('h, 'x, 'y, 'l, 'os) env \<Rightarrow> args \<Rightarrow> real \<Rightarrow> ('x \<Rightarrow> 'x) option \<Rightarrow>
   ('h, 'os) train_state \<Rightarrow> 'x \<times> 'y \<Rightarrow> error + ('h, 'os) train_state"
where
  "train_step E a T nf st b =
     (case b of (data, target) \<Rightarrow>
        ebind (perturb E a (model st) (np_random st) data target) (\<lambda>r.
          case r of (pd, m1, g1) \<Rightarrow>
            (case normalize_pair nf data pd of (data', pd') \<Rightarrow>
               (case forward E (train_mode E m1) data' of (logits_clean, m2) \<Rightarrow>
                  (case forward E m2 pd' of (logits_adv, m3) \<Rightarrow>
                     (let m4 = zero_grad (optimizer st) m3;
                          clean_loss = loss_func E logits_clean target;
                          adv_loss = loss_func E logits_adv target;
                          pen = noise_entropy T (entropy E m4)
                      in ebind (train_loss a adv_loss clean_loss pen) (\<lambda>loss.
                           case step E (optimizer st) (backward loss m4) of (m5, opt) \<Rightarrow>
                             Inr (st\<lparr>model := m5, np_random := g1, optimizer := opt\<rparr>))))))))"

text \<open>Line 25: the loop over the batches of the training source.\<close>

fun train_batches ::
  "('h, 'x, 'y, 'l, 'os) env \<Rightarrow> args \<Rightarrow> real \<Rightarrow> ('x \<Rightarrow> 'x) option \<Rightarrow>
   ('h, 'os) train_state \<Rightarrow> ('x \<times> 'y) list \<Rightarrow> error + ('h, 'os) train_state"
where
  "train_batches E a T nf st [] = Inr st"
| "train_batches E a T nf st (b # bs) =
     ebind (train_step E a T nf st b) (\<lambda>st'. train_batches E a T nf st' bs)"

text \<open>Lines 25-62: one epoch.\<close>

definition train_epoch ::
  "('h, 'x, 'y, 'l, 'os) env \<Rightarrow> args \<Rightarrow> real \<Rightarrow> ('x \<Rightarrow> 'x) option \<Rightarrow> ('x \<times> 'y) list \<Rightarrow>
   ('x \<times> 'y) list \<Rightarrow> nat \<Rightarrow> ('h, 'os) train_state \<Rightarrow> error + ('h, 'os) train_state"
where
  "train_epoch E a T nf train_loader test_loader epoch st =
     ebind (train_batches E a T nf st train_loader) (\<lambda>st'.
       checkpoint a epoch (record_accuracy E nf train_loader test_loader st'))"

text \<open>
  Line 24: the loop over the epochs, \<open>k\<close> of them from index \<open>epoch\<close> on.
\<close>

fun train_epochs ::
  "('h, 'x, 'y, 'l, 'os) env \<Rightarrow> args \<Rightarrow> real \<Rightarrow> ('x \<Rightarrow> 'x) option \<Rightarrow> ('x \<times> 'y) list \<Rightarrow>
   ('x \<times> 'y) list \<Rightarrow> nat \<Rightarrow> nat \<Rightarrow> ('h, 'os) train_state \<Rightarrow> error + ('h, 'os) train_state"
where
  "train_epochs E a T nf train_loader test_loader epoch 0 st = Inr st"
| "train_epochs E a T nf train_loader test_loader epoch (Suc k) st =
     ebind (train_epoch E a T nf train_loader test_loader epoch st)
       (train_epochs E a T nf train_loader test_loader (Suc epoch) k)"

text \<open>Lines 14-23: what is set up before the first epoch.\<close>

definition train_setup ::
  "('h, 'x, 'y, 'l, 'os) env \<Rightarrow> args \<Rightarrow> 'h model \<Rightarrow> rng \<Rightarrow>
   error + (real \<times> ('x \<Rightarrow> 'x) option \<times> ('h, 'os) train_state)"
where
  "train_setup E a m g =
     ebind (getitem a ''lr'') (\<lambda>v.
     ebind (select_norm E a) (\<lambda>nf.
     ebind (noise_entropy_threshold a) (\<lambda>T.
       Inr (T, nf,
            \<lparr>model = m, np_random = g, best_test_acc = - 1, train_accuracy = [],
             test_accuracy = [], effects = [],
             optimizer = Adam E [all_parameters E] v\<rparr>))))"

text \<open>Lines 64-65: the two curves are saved.\<close>

definition train_save ::
  "args \<Rightarrow> ('h, 'z) run_state_scheme \<Rightarrow> error + ('h, 'z) run_state_scheme"
where
  "train_save a st =
     ebind (output_file a ''stats'' ''train_acc.npy'') (\<lambda>p1.
     ebind (output_file a ''stats'' ''test_acc.npy'') (\<lambda>p2.
       Inr (st\<lparr>effects := effects st @
                  [NpSave p1 (Arr1 (train_accuracy st)), NpSave p2 (Arr1 (test_accuracy st))]\<rparr>)))"

text \<open>
  \<^verbatim>\<open>train_adv(model, train_loader, test_loader, attack, args)\<close>. A source is given by
  the list of batches one pass over it yields.
\<close>

definition train_adv ::
  "('h, 'x, 'y, 'l, 'os) env \<Rightarrow> 'h model \<Rightarrow> ('x \<times> 'y) list \<Rightarrow> ('x \<times> 'y) list \<Rightarrow> args \<Rightarrow> rng \<Rightarrow>
   error + ('h, 'os) train_state"
where
  "train_adv E m train_loader test_loader a g =
     ebind (train_setup E a m g) (\<lambda>s.
       case s of (T, nf, st0) \<Rightarrow>
         ebind (getitem a ''num_epochs'') (\<lambda>v.
         ebind (py_range v) (\<lambda>n.
         ebind (train_epochs E a T nf train_loader test_loader 0 n st0) (train_save a))))"

section \<open>The meta trainer\<close>

record ('h, 'os, 'x, 'y) meta_state = "'h run_state" +
  optim_inner :: "'os optimizer"
  optim_outer :: "'os optimizer"
  val_iter :: "('x \<times> 'y) list"
  b_hist :: "real list list"
  reg_term_hist :: "real list"

text \<open>
  Lines 69-74 and 75-78: the parameter groups of the two optimizers.
\<close>

definition inner_groups :: "('h, 'x, 'y, 'l, 'os) env \<Rightarrow> addr list list" where
  "inner_groups E = [parameters E Gen, parameters E Fc_mu, parameters E Fc_sigma, parameters E Proto]"

definition outer_groups :: "('h, 'x, 'y, 'l, 'os) env \<Rightarrow> addr list list" where
  "outer_groups E = [parameters E Fc_b, parameters E Reg_term]"

text \<open>
  Lines 115-116:
  \<^verbatim>\<open>loss_inner = w * adv_loss_i + (1. - w) * clean_loss_i + model.get_reg_term() * noise_entropy_i\<close>
\<close>

definition loss_inner ::
  "('h, 'x, 'y, 'l, 'os) env \<Rightarrow> args \<Rightarrow> 'h model \<Rightarrow> tensor \<Rightarrow> tensor \<Rightarrow> tensor \<Rightarrow> error + tensor"
where
  "loss_inner E a m adv_loss_i clean_loss_i pen =
     ebind (getitem a ''adv_loss_w'') (\<lambda>wv.
     ebind (as_number wv) (\<lambda>w.
       Inr (tadd (tadd (smul w adv_loss_i) (smul (1 - w) clean_loss_i))
                 (tmul (get_reg_term E m) pen))))"

text \<open>
  Lines 147-148:
  \<^verbatim>\<open>loss_outer = w * adv_loss_outer + (1. - w) * clean_loss_outer + model.get_reg_term() * noise_entropy_o\<close>
\<close>

definition loss_outer ::
  "('h, 'x, 'y, 'l, 'os) env \<Rightarrow> args \<Rightarrow> 'h model \<Rightarrow> tensor \<Rightarrow> tensor \<Rightarrow> tensor \<Rightarrow> error + tensor"
where
  "loss_outer E a m adv_loss_outer clean_loss_outer pen =
     ebind (getitem a ''adv_loss_w'') (\<lambda>wv.
     ebind (as_number wv) (\<lambda>w.
       Inr (tadd (tadd (smul w adv_loss_outer) (smul (1 - w) clean_loss_outer))
                 (tmul (get_reg_term E m) pen))))"

text \<open>Lines 92-118: the inner sub-step, on a training batch.\<close>

definition inner_step ::
  "('h, 'x, 'y, 'l, 'os) env \<Rightarrow> args \<Rightarrow> real \<Rightarrow> ('x \<Rightarrow> 'x) option \<Rightarrow>
   ('h, 'os, 'x, 'y) meta_state \<Rightarrow> 'x \<times> 'y \<Rightarrow> error + ('h, 'os, 'x, 'y) meta_state"
where
  "inner_step E a T nf st b =
     (case b of (data_inner, target_inner) \<Rightarrow>
        ebind (perturb E a (model st) (np_random st) data_inner target_inner) (\<lambda>r.
          case r of (pd, m1, g1) \<Rightarrow>
            (case normalize_pair nf data_inner pd of (data', pd') \<Rightarrow>
               (case forward E (train_mode E m1) data' of (logits_clean_i, m2) \<Rightarrow>
                  (case forward E m2 pd' of (logits_adv_i, m3) \<Rightarrow>
                     (let m4 = zero_grad (optim_inner st) m3;
                          clean_loss_i = loss_func E logits_clean_i target_inner;
                          adv_loss_i = loss_func E logits_adv_i target_inner;
                          pen = noise_entropy T (entropy E m4)
                      in ebind (loss_inner E a m4 adv_loss_i clean_loss_i pen) (\<lambda>loss.
                           case step E (optim_inner st) (backward loss m4) of (m5, opt) \<Rightarrow>
                             Inr (st\<lparr>model := m5, np_random := g1, optim_inner := opt\<rparr>))))))))"

text \<open>
  Lines 119-123: the next validation batch. The iterator is given by the batches it has
  left; \<^verbatim>\<open>iter(val_loader)\<close> starts a pass over the source.
  \<^verbatim>\<open>
  try:
      data_outer, target_outer = next(val_iter)
  except StopIteration:
      val_iter = iter(val_loader)
      data_outer, target_outer = next(val_iter)
  \<close>
\<close>

definition next_val_batch :: "'b list \<Rightarrow> 'b list \<Rightarrow> error + ('b \<times> 'b list)" where
  "next_val_batch val_loader it =
     (case next_iter it of
        Inr r \<Rightarrow> Inr r
      | Inl e \<Rightarrow> if e = StopIteration then next_iter val_loader else Inl e)"

text \<open>Lines 124-150: the outer sub-step, on a validation batch.\<close>

definition outer_step ::
  "('h, 'x, 'y, 'l, 'os) env \<Rightarrow> args \<Rightarrow> real \<Rightarrow> ('x \<Rightarrow> 'x) option \<Rightarrow>
   ('h, 'os, 'x, 'y) meta_state \<Rightarrow> 'x \<times> 'y \<Rightarrow> error + ('h, 'os, 'x, 'y) meta_state"
where
  "outer_step E a T nf st b =
     (case b of (data_outer, target_outer) \<Rightarrow>
        ebind (perturb E a (model st) (np_random st) data_outer target_outer) (\<lambda>r.
          case r of (pd, m1, g1) \<Rightarrow>
            (case normalize_pair nf data_outer pd of (data', pd') \<Rightarrow>
               (case forward E (train_mode E m1) data' of (logits_clean_o, m2) \<Rightarrow>
                  (case forward E m2 pd' of (logits_adv_o, m3) \<Rightarrow>
                     (let m4 = zero_grad (optim_outer st) m3;
                          clean_loss_outer = loss_func E logits_clean_o target_outer;
                          adv_loss_outer = loss_func E logits_adv_o target_outer;
                          pen = noise_entropy T (entropy E m4)
                      in ebind (loss_outer E a m4 adv_loss_outer clean_loss_outer pen) (\<lambda>loss.
                           case step E (optim_outer st) (backward loss m4) of (m5, opt) \<Rightarrow>
                             Inr (st\<lparr>model := m5, np_random := g1, optim_outer := opt\<rparr>))))))))"

text \<open>Lines 92-150: one training batch of the meta trainer.\<close>

definition meta_step ::
  "('h, 'x, 'y, 'l, 'os) env \<Rightarrow> args \<Rightarrow> real \<Rightarrow> ('x \<Rightarrow> 'x) option \<Rightarrow> ('x \<times> 'y) list \<Rightarrow>
   ('h, 'os, 'x, 'y) meta_state \<Rightarrow> 'x \<times> 'y \<Rightarrow> error + ('h, 'os, 'x, 'y) meta_state"
where
  "meta_step E a T nf val_loader st b =
     ebind (inner_step E a T nf st b) (\<lambda>st1.
     ebind (next_val_batch val_loader (val_iter st1)) (\<lambda>r.
       case r of (b_outer, it) \<Rightarrow> outer_step E a T nf (st1\<lparr>val_iter := it\<rparr>) b_outer))"

text \<open>Line 91: the loop over the batches of the training source.\<close>

fun meta_batches ::
  "('h, 'x, 'y, 'l, 'os) env \<Rightarrow> args \<Rightarrow> real \<Rightarrow> ('x \<Rightarrow> 'x) option \<Rightarrow> ('x \<times> 'y) list \<Rightarrow>
   ('h, 'os, 'x, 'y) meta_state \<Rightarrow> ('x \<times> 'y) list \<Rightarrow> error + ('h, 'os, 'x, 'y) meta_state"
where
  "meta_batches E a T nf val_loader st [] = Inr st"
| "meta_batches E a T nf val_loader st (b # bs) =
     ebind (meta_step E a T nf val_loader st b) (\<lambda>st'. meta_batches E a T nf val_loader st' bs)"

text \<open>Lines 153-154: the two snapshots of the epoch.\<close>

definition record_snapshots ::
  "('h, 'x, 'y, 'l, 'os) env \<Rightarrow> ('h, 'os, 'x, 'y) meta_state \<Rightarrow> ('h, 'os, 'x, 'y) meta_state"
where
  "record_snapshots E st =
     st\<lparr>b_hist := b_hist st @ [get_b_vector E (model st)],
        reg_term_hist := reg_term_hist st @ [tval (get_reg_term E (model st))]\<rparr>"

text \<open>Lines 91-162: one epoch.\<close>

definition meta_epoch ::
  "('h, 'x, 'y, 'l, 'os) env \<Rightarrow> args \<Rightarrow> real \<Rightarrow> ('x \<Rightarrow> 'x) option \<Rightarrow> ('x \<times> 'y) list \<Rightarrow>
   ('x \<times> 'y) list \<Rightarrow> ('x \<times> 'y) list \<Rightarrow> nat \<Rightarrow> ('h, 'os, 'x, 'y) meta_state \<Rightarrow>
   error + ('h, 'os, 'x, 'y) meta_state"
where
  "meta_epoch E a T nf train_loader val_loader test_loader epoch st =
     ebind (meta_batches E a T nf val_loader st train_loader) (\<lambda>st'.
       checkpoint a epoch
         (record_snapshots E (record_accuracy E nf train_loader test_loader st')))"

text \<open>Line 90: the loop over the epochs, \<open>k\<close> of them from index \<open>epoch\<close> on.\<close>

fun meta_epochs ::
  "('h, 'x, 'y, 'l, 'os) env \<Rightarrow> args \<Rightarrow> real \<Rightarrow> ('x \<Rightarrow> 'x) option \<Rightarrow> ('x \<times> 'y) list \<Rightarrow>
   ('x \<times> 'y) list \<Rightarrow> ('x \<times> 'y) list \<Rightarrow> nat \<Rightarrow> nat \<Rightarrow> ('h, 'os, 'x, 'y) meta_state \<Rightarrow>
   error + ('h, 'os, 'x, 'y) meta_state"
where
  "meta_epochs E a T nf train_loader val_loader test_loader epoch 0 st = Inr st"
| "meta_epochs E a T nf train_loader val_loader test_loader epoch (Suc k) st =
     ebind (meta_epoch E a T nf train_loader val_loader test_loader epoch st)
       (meta_epochs E a T nf train_loader val_loader test_loader (Suc epoch) k)"

text \<open>Lines 69-89: what is set up before the first epoch.\<close>

definition meta_setup ::
  "('h, 'x, 'y, 'l, 'os) env \<Rightarrow> args \<Rightarrow> 'h model \<Rightarrow> ('x \<times> 'y) list \<Rightarrow> rng \<Rightarrow>
   error + (real \<times> ('x \<Rightarrow> 'x) option \<times> ('h, 'os, 'x, 'y) meta_state)"
where
  "meta_setup E a m val_loader g =
     ebind (getitem a ''lr'') (\<lambda>v.
     ebind (getitem a ''meta_lr'') (\<lambda>mv.
     ebind (select_norm E a) (\<lambda>nf.
     ebind (noise_entropy_threshold a) (\<lambda>T.
       Inr (T, nf,
            \<lparr>model = m, np_random = g, best_test_acc = - 1, train_accuracy = [],
             test_accuracy = [], effects = [],
             optim_inner = Adam E (inner_groups E) v,
             optim_outer = Adam E (outer_groups E) mv,
             val_iter = val_loader, b_hist = [], reg_term_hist = []\<rparr>)))))"

text \<open>Lines 164-167: the two curves and the two histories are saved.\<close>

definition meta_save ::
  "args \<Rightarrow> ('h, 'os, 'x, 'y) meta_state \<Rightarrow> error + ('h, 'os, 'x, 'y) meta_state"
where
  "meta_save a st =
     ebind (train_save a st) (\<lambda>st'.
     ebind (output_file a ''stats'' ''b_hist.npy'') (\<lambda>p3.
     ebind (output_file a ''stats'' ''reg_term_hist.npy'') (\<lambda>p4.
       Inr (st'\<lparr>effects := effects st' @
                   [NpSave p3 (Arr2 (b_hist st')), NpSave p4 (Arr1 (reg_term_hist st'))]\<rparr>))))"

text \<open>
  \<^verbatim>\<open>meta_train_adv(model, train_loader, val_loader, test_loader, attack, args)\<close>.
\<close>

definition meta_train_adv ::
  "('h, 'x, 'y, 'l, 'os) env \<Rightarrow> 'h model \<Rightarrow> ('x \<times> 'y) list \<Rightarrow> ('x \<times> 'y) list \<Rightarrow>
   ('x \<times> 'y) list \<Rightarrow> args \<Rightarrow> rng \<Rightarrow> error + ('h, 'os, 'x, 'y) meta_state"
where
  "meta_train_adv E m train_loader val_loader test_loader a g =
     ebind (meta_setup E a m val_loader g) (\<lambda>s.
       case s of (T, nf, st0) \<Rightarrow>
         ebind (getitem a ''num_epochs'') (\<lambda>v.
         ebind (py_range v) (\<lambda>n.
         ebind (meta_epochs E a T nf train_loader val_loader test_loader 0 n st0) (meta_save a))))"

section \<open>Configurations on which no lookup fails\<close>

text \<open>
  The trainers do not validate \<^verbatim>\<open>args\<close>: a missing key or a value of the wrong type
  surfaces as an exception at its first use. The configurations on which none of the
  lookups and conversions of the standard trainer fails are those where \<^verbatim>\<open>lr\<close>,
  \<^verbatim>\<open>dataset\<close> and \<^verbatim>\<open>epsilon\<close> are present, \<^verbatim>\<open>adv_loss_w\<close> and
  \<^verbatim>\<open>reg_term\<close> are numbers, \<^verbatim>\<open>var_threshold\<close> is a positive number,
  \<^verbatim>\<open>num_epochs\<close> is an int, and \<^verbatim>\<open>output_path\<close> is a dictionary with the
  strings \<^verbatim>\<open>models\<close> and \<^verbatim>\<open>stats\<close>. The meta trainer reads \<^verbatim>\<open>meta_lr\<close> as well,
  and does not read \<^verbatim>\<open>reg_term\<close>.
\<close>

definition is_number :: "pyval option \<Rightarrow> bool" where
  "is_number v = (case v of None \<Rightarrow> False | Some x \<Rightarrow> as_number x \<noteq> Inl TypeError)"

definition common_config_ok :: "args \<Rightarrow> bool" where
  "common_config_ok a =
     (a ''lr'' \<noteq> None \<and> a ''dataset'' \<noteq> None \<and> a ''epsilon'' \<noteq> None \<and>
      is_number (a ''adv_loss_w'') \<and>
      (case a ''var_threshold'' of
         None \<Rightarrow> False
       | Some v \<Rightarrow> (case as_number v of Inl e \<Rightarrow> False | Inr x \<Rightarrow> 0 < x)) \<and>
      (case a ''num_epochs'' of Some (PyInt n) \<Rightarrow> True | _ \<Rightarrow> False) \<and>
      (case output_file a ''models'' [] of Inl e \<Rightarrow> False | Inr p \<Rightarrow> True) \<and>
      (case output_file a ''stats'' [] of Inl e \<Rightarrow> False | Inr p \<Rightarrow> True))"

definition train_config_ok :: "args \<Rightarrow> bool" where
  "train_config_ok a = (common_config_ok a \<and> is_number (a ''reg_term''))"

definition meta_config_ok :: "args \<Rightarrow> bool" where
  "meta_config_ok a = (common_config_ok a \<and> a ''meta_lr'' \<noteq> None)"

section \<open>A concrete run\<close>

text \<open>
  A small instance on which the statements below are exercised: a model with one
  parameter in each of the six sub-modules, batches given by numbers, an evaluator whose
  result changes from one call to the next, and the configuration of the spec's
  end-to-end scenario run for three epochs.
\<close>

definition toy_env :: "(nat, nat, nat, nat, unit) env" where
  "toy_env =
     \<lparr>attack = (\<lambda>m x y eps. (x + 1, m)),
      train_mode = (\<lambda>m. m),
      forward = (\<lambda>m x. (x, m)),
      loss_func = (\<lambda>l y. \<lparr>tval = real l, tgrad = (\<lambda>p. if p < 6 then Some 1 else None)\<rparr>),
      entropy = (\<lambda>m. [\<lparr>tval = 0, tgrad = (\<lambda>p. None)\<rparr>]),
      get_reg_term = (\<lambda>m. \<lparr>tval = pdata m 5, tgrad = (\<lambda>p. if p = 5 then Some 1 else None)\<rparr>),
      get_b_vector = (\<lambda>m. [pdata m 3]),
      normalize_cifar10 = (\<lambda>x. 2 * x),
      accuracy = (\<lambda>m l nf.
        (if hidden m = 3 then 1 / 4 else if hidden m = 5 then 3 / 4 else 1 / 2,
         m\<lparr>hidden := hidden m + 1\<rparr>)),
      parameters = (\<lambda>s. case s of Gen \<Rightarrow> [0] | Fc_mu \<Rightarrow> [1] | Fc_sigma \<Rightarrow> [2]
                          | Fc_b \<Rightarrow> [3] | Proto \<Rightarrow> [4] | Reg_term \<Rightarrow> [5]),
      all_parameters = [0, 1, 2, 3, 4, 5],
      adam_init = (),
      adam_update = (\<lambda>v s x d. (x - d / 8, s))\<rparr>"

definition toy_model :: "nat model" where
  "toy_model = \<lparr>pdata = (\<lambda>p. 1), pgrad = (\<lambda>p. None), hidden = 0\<rparr>"

definition toy_rng :: rng where
  "toy_rng = (\<lambda>i. i)"

definition toy_args :: args where
  "toy_args = map_of
     [(''lr'', PyFloat (1 / 1000)),
      (''meta_lr'', PyFloat (1 / 100)),
      (''num_epochs'', PyInt 3),
      (''dataset'', PyStr ''cifar10''),
      (''epsilon'', PyFloat (1 / 10)),
      (''adv_loss_w'', PyFloat (1 / 2)),
      (''reg_term'', PyFloat (1 / 100)),
      (''var_threshold'', PyFloat 1),
      (''output_path'', PyDict [(''models'', PyStr ''out/models''), (''stats'', PyStr ''out/stats'')])]"

definition toy_train :: "(nat \<times> nat) list" where
  "toy_train = [(10, 0), (11, 1)]"

definition toy_val :: "(nat \<times> nat) list" where
  "toy_val = [(20, 1)]"

definition toy_test :: "(nat \<times> nat) list" where
  "toy_test = [(30, 0)]"

section \<open>Properties\<close>


lemma ebind_Inl [simp]: "ebind (Inl e) f = Inl e"
  by (simp add: ebind_def)

lemma ebind_Inr [simp]: "ebind (Inr x) f = f x"
  by (simp add: ebind_def)

lemma ebind_eq_Inr: "ebind r f = Inr y \<longleftrightarrow> (\<exists>x. r = Inr x \<and> f x = Inr y)"
  by (cases r) simp_all

lemma getitem_Some [simp]: "a k = Some v \<Longrightarrow> getitem a k = Inr v"
  by (simp add: getitem_def)

lemma getitem_None [simp]: "a k = None \<Longrightarrow> getitem a k = Inl (KeyError k)"
  by (simp add: getitem_def)

lemma getitem_eq_Inr: "getitem a k = Inr v \<longleftrightarrow> a k = Some v"
  by (simp add: getitem_def split: option.splits)

lemma eps_choices_set: "set eps_choices = {8 / 255, 16 / 255, 32 / 255, 64 / 255, 128 / 255}"
  by (simp add: eps_choices_def)

lemma eps_choices_distinct: "distinct eps_choices"
  by (simp add: eps_choices_def)

lemma random_choice_mem: "xs \<noteq> [] \<Longrightarrow> fst (random_choice xs g) \<in> set xs"
  by (simp add: random_choice_def)

lemma random_choice_index: "i < length xs \<Longrightarrow> random_choice xs (\<lambda>k. i) = (xs ! i, (\<lambda>k. i))"
  by (simp add: random_choice_def)


lemma nth_eps_choices_mem: "i < 5 \<Longrightarrow> eps_choices ! i \<in> {8 / 255, 16 / 255, 32 / 255, 64 / 255, 128 / 255}"
proof -
  assume "i < 5"
  then have "i < length eps_choices" by (simp add: eps_choices_def)
  then have "eps_choices ! i \<in> set eps_choices" by (rule nth_mem)
  then show ?thesis by (simp add: eps_choices_def)
qed

lemma eps_choices_index_unique:
  "x \<in> {8 / 255, 16 / 255, 32 / 255, 64 / 255, 128 / 255} \<Longrightarrow>
   \<exists>i < 5. eps_choices ! i = x \<and> (\<forall>j < 5. eps_choices ! j = x \<longrightarrow> j = i)"
proof -
  assume "x \<in> {8 / 255, 16 / 255, 32 / 255, 64 / 255, 128 / 255}"
  then have "x \<in> set eps_choices" by (simp add: eps_choices_def)
  then obtain i where i: "i < length eps_choices" "eps_choices ! i = x"
    by (auto simp: in_set_conv_nth)
  have len: "length eps_choices = 5" by (simp add: eps_choices_def)
  have "\<forall>j < 5. eps_choices ! j = x \<longrightarrow> j = i"
    using i len eps_choices_distinct by (auto simp: nth_eq_iff_index_eq)
  with i len show ?thesis by auto
qed

lemma select_epsilon_float:
  "a ''epsilon'' = Some (PyFloat x) \<Longrightarrow> select_epsilon a g = Inr (Some x, g)"
  by (simp add: select_epsilon_def)

lemma select_epsilon_rand:
  "a ''epsilon'' = Some (PyStr ''rand'') \<Longrightarrow>
   select_epsilon a g = Inr (Some (eps_choices ! (g 0 mod 5)), (\<lambda>i. g (Suc i)))"
  by (simp add: select_epsilon_def random_choice_def eps_choices_def)

lemma select_epsilon_other:
  "a ''epsilon'' = Some v \<Longrightarrow> \<forall>x. v \<noteq> PyFloat x \<Longrightarrow> v \<noteq> PyStr ''rand'' \<Longrightarrow>
   select_epsilon a g = Inr (None, g)"
  by (cases v) (simp_all add: select_epsilon_def)

lemma perturb_eq_Inr:
  "perturb E a m g data target = Inr (pd, m', g') \<longleftrightarrow>
   (\<exists>eps. select_epsilon a g = Inr (eps, g') \<and> attack E m data target eps = (pd, m'))"
proof (cases "select_epsilon a g")
  case (Inl e)
  then show ?thesis by (simp add: perturb_def)
next
  case (Inr r)
  obtain eps g1 where r: "r = (eps, g1)" by (cases r)
  obtain pd0 m0 where at: "attack E m data target eps = (pd0, m0)"
    by (cases "attack E m data target eps")
  show ?thesis using Inr r at by (auto simp: perturb_def)
qed

text \<open>
  Claim C4, as amended. For every batch of both trainers the \<^verbatim>\<open>epsilon\<close> keyword of
  the attack is selected as follows. When \<^verbatim>\<open>args['epsilon']\<close> is a Python float, the
  attack is called with it. When it is the string \<^verbatim>\<open>'rand'\<close>, the attack is called with
  the element of the list 8/255, 16/255, 32/255, 64/255, 128/255 at the index that numpy's
  generator draws: an element of exactly that set, and each value of the set stands at exactly
  one of the five indices, so that a uniform index gives a uniform value. For every other
  value, an int among them, the attack is called without \<^verbatim>\<open>epsilon\<close>. The attack of a
  step is called with what this selection returns.
\<close>

theorem C4_epsilon_selection:
  "(\<forall>x. a ''epsilon'' = Some (PyFloat x) \<longrightarrow> select_epsilon a g = Inr (Some x, g)) \<and>
   (a ''epsilon'' = Some (PyStr ''rand'') \<longrightarrow>
      select_epsilon a g = Inr (Some (eps_choices ! (g 0 mod 5)), (\<lambda>i. g (Suc i))) \<and>
      eps_choices ! (g 0 mod 5) \<in> {8 / 255, 16 / 255, 32 / 255, 64 / 255, 128 / 255}) \<and>
   (\<forall>x \<in> {8 / 255, 16 / 255, 32 / 255, 64 / 255, 128 / 255}.
      \<exists>i < 5. eps_choices ! i = x \<and> (\<forall>j < 5. eps_choices ! j = x \<longrightarrow> j = i)) \<and>
   (\<forall>v. a ''epsilon'' = Some v \<longrightarrow> (\<forall>x. v \<noteq> PyFloat x) \<longrightarrow> v \<noteq> PyStr ''rand'' \<longrightarrow>
      select_epsilon a g = Inr (None, g)) \<and>
   (\<forall>E m data target pd m' g'.
      perturb E a m g data target = Inr (pd, m', g') \<longleftrightarrow>
      (\<exists>eps. select_epsilon a g = Inr (eps, g') \<and> attack E m data target eps = (pd, m')))"
proof (intro conjI allI impI ballI)
  fix x assume "a ''epsilon'' = Some (PyFloat x)"
  then show "select_epsilon a g = Inr (Some x, g)" by (rule select_epsilon_float)
next
  assume "a ''epsilon'' = Some (PyStr ''rand'')"
  then show "select_epsilon a g = Inr (Some (eps_choices ! (g 0 mod 5)), (\<lambda>i. g (Suc i)))"
    by (rule select_epsilon_rand)
next
  show "eps_choices ! (g 0 mod 5) \<in> {8 / 255, 16 / 255, 32 / 255, 64 / 255, 128 / 255}"
    by (rule nth_eps_choices_mem) simp
next
  fix x :: real assume "x \<in> {8 / 255, 16 / 255, 32 / 255, 64 / 255, 128 / 255}"
  then show "\<exists>i < 5. eps_choices ! i = x \<and> (\<forall>j < 5. eps_choices ! j = x \<longrightarrow> j = i)"
    by (rule eps_choices_index_unique)
next
  fix v assume "a ''epsilon'' = Some v" "\<forall>x. v \<noteq> PyFloat x" "v \<noteq> PyStr ''rand''"
  then show "select_epsilon a g = Inr (None, g)" by (rule select_epsilon_other)
next
  fix E :: "('h, 'x, 'y, 'l, 'os) env" and m data target pd m' g'
  show "perturb E a m g data target = Inr (pd, m', g') \<longleftrightarrow>
      (\<exists>eps. select_epsilon a g = Inr (eps, g') \<and> attack E m data target eps = (pd, m'))"
    by (rule perturb_eq_Inr)
qed


subsection \<open>The entropy penalty\<close>

lemma tval_smul [simp]: "tval (smul c t) = c * tval t"
  by (simp add: smul_def)

lemma tval_tadd [simp]: "tval (tadd s t) = tval s + tval t"
  by (simp add: tadd_def)

lemma tval_tmul [simp]: "tval (tmul s t) = tval s * tval t"
  by (simp add: tmul_def)

lemma tval_relu_rsub [simp]: "tval (relu (rsub T h)) = max 0 (T - tval h)"
  by (simp add: relu_def rsub_def)







lemma noise_entropy_threshold_eq:
  "a ''var_threshold'' = Some v \<Longrightarrow> as_number v = Inr x \<Longrightarrow> 0 < x \<Longrightarrow>
   noise_entropy_threshold a = Inr (ln x + (1 + ln (2 * pi)) / 2)"
  by (simp add: noise_entropy_threshold_def math_log_def)





subsection \<open>The losses\<close>

lemma loss_outer_eq_inner: "loss_outer E a m adv clean pen = loss_inner E a m adv clean pen"
  by (simp add: loss_outer_def loss_inner_def)





subsection \<open>Normalization\<close>




lemma record_accuracy_train:
  "train_accuracy (record_accuracy E nf trl tel st) =
     train_accuracy st @ [fst (accuracy E (model st) trl nf)]"
  by (simp add: record_accuracy_def split: prod.splits)

lemma record_accuracy_test:
  "test_accuracy (record_accuracy E nf trl tel st) =
     test_accuracy st @ [fst (accuracy E (snd (accuracy E (model st) trl nf)) tel nf)]"
  by (simp add: record_accuracy_def split: prod.splits)

subsection \<open>The scopes of the optimizers\<close>

lemma update_param_frame:
  "q \<noteq> p \<Longrightarrow> pdata (fst (update_param E v p ms)) q = pdata (fst ms) q"
  by (cases ms) (simp add: update_param_def split: option.splits prod.splits)

lemma fold_update_param_frame:
  "q \<notin> set ps \<Longrightarrow> pdata (fst (fold (update_param E v) ps ms)) q = pdata (fst ms) q"
  by (induction ps arbitrary: ms) (simp_all add: update_param_frame)

lemma fst_step:
  "fst (step E opt m) = fst (fold (update_param E (lr opt)) (concat (param_groups opt)) (m, ostate opt))"
  by (simp add: step_def split: prod.splits)

lemma step_frame:
  "q \<notin> set (concat (param_groups opt)) \<Longrightarrow> pdata (fst (step E opt m)) q = pdata m q"
proof -
  assume "q \<notin> set (concat (param_groups opt))"
  then have "pdata (fst (fold (update_param E (lr opt)) (concat (param_groups opt)) (m, ostate opt))) q =
      pdata (fst (m, ostate opt)) q"
    by (rule fold_update_param_frame)
  then show ?thesis by (simp only: fst_step fst_conv)
qed

lemma step_param_groups: "param_groups (snd (step E opt m)) = param_groups opt"
  by (simp add: step_def split: prod.splits)

lemma scopes_disjoint:
  "partitioned E \<Longrightarrow> set (concat (inner_groups E)) \<inter> set (concat (outer_groups E)) = {}"
  by (auto simp: partitioned_def inner_groups_def outer_groups_def)


text \<open>
  Claim C2. For a model whose six sub-modules share no parameter, the scope of the inner
  optimizer (generator, mu-head, sigma-head, prototype) and the scope of the outer optimizer
  (bias-head, regularization term) are disjoint; a step of the inner optimizer, whatever its
  own state, leaves the value of every parameter of the outer scope unchanged, and a step
  of the outer optimizer leaves the value of every parameter of the inner scope unchanged.
\<close>

theorem C2_optimizer_scopes:
  assumes "partitioned E" and "meta_setup E a m0 vl g = Inr (T, nf, st0)"
  shows "set (concat (param_groups (optim_inner st0))) =
           set (parameters E Gen) \<union> set (parameters E Fc_mu) \<union>
           set (parameters E Fc_sigma) \<union> set (parameters E Proto) \<and>
         set (concat (param_groups (optim_outer st0))) =
           set (parameters E Fc_b) \<union> set (parameters E Reg_term) \<and>
         set (concat (param_groups (optim_inner st0))) \<inter>
           set (concat (param_groups (optim_outer st0))) = {} \<and>
         (\<forall>os m q. q \<in> set (concat (param_groups (optim_outer st0))) \<longrightarrow>
            pdata (fst (step E ((optim_inner st0)\<lparr>ostate := os\<rparr>) m)) q = pdata m q) \<and>
         (\<forall>os m q. q \<in> set (concat (param_groups (optim_inner st0))) \<longrightarrow>
            pdata (fst (step E ((optim_outer st0)\<lparr>ostate := os\<rparr>) m)) q = pdata m q)"
proof -
  from assms(2) have inner: "param_groups (optim_inner st0) = inner_groups E"
    and outer: "param_groups (optim_outer st0) = outer_groups E"
    by (auto simp: meta_setup_def ebind_eq_Inr Adam_def)
  have dis: "set (concat (inner_groups E)) \<inter> set (concat (outer_groups E)) = {}"
    using assms(1) by (rule scopes_disjoint)
  have f1: "pdata (fst (step E ((optim_inner st0)\<lparr>ostate := os\<rparr>) m)) q = pdata m q"
    if "q \<in> set (concat (outer_groups E))" for os m q
  proof (rule step_frame)
    from that dis show "q \<notin> set (concat (param_groups ((optim_inner st0)\<lparr>ostate := os\<rparr>)))"
      by (auto simp: inner)
  qed
  have f2: "pdata (fst (step E ((optim_outer st0)\<lparr>ostate := os\<rparr>) m)) q = pdata m q"
    if "q \<in> set (concat (inner_groups E))" for os m q
  proof (rule step_frame)
    from that dis show "q \<notin> set (concat (param_groups ((optim_outer st0)\<lparr>ostate := os\<rparr>)))"
      by (auto simp: outer)
  qed
  have s1: "set (concat (inner_groups E)) =
           set (parameters E Gen) \<union> set (parameters E Fc_mu) \<union>
           set (parameters E Fc_sigma) \<union> set (parameters E Proto)"
    by (auto simp: inner_groups_def)
  have s2: "set (concat (outer_groups E)) = set (parameters E Fc_b) \<union> set (parameters E Reg_term)"
    by (auto simp: outer_groups_def)
  show ?thesis
    unfolding inner outer by (intro conjI allI impI s1 s2 dis f1 f2)
qed

subsection \<open>Frames of the steps\<close>

lemma train_step_frame:
  assumes "train_step E a T nf st b = Inr st'"
  shows "best_test_acc st' = best_test_acc st \<and> train_accuracy st' = train_accuracy st \<and>
         test_accuracy st' = test_accuracy st \<and> effects st' = effects st"
  using assms
  by (auto simp: train_step_def ebind_eq_Inr Let_def case_prod_beta)

lemma train_batches_frame:
  "train_batches E a T nf st bs = Inr st' \<Longrightarrow>
   best_test_acc st' = best_test_acc st \<and> train_accuracy st' = train_accuracy st \<and>
   test_accuracy st' = test_accuracy st \<and> effects st' = effects st"
proof (induction bs arbitrary: st)
  case Nil
  then show ?case by simp
next
  case (Cons b bs)
  from Cons.prems obtain s1 where s1: "train_step E a T nf st b = Inr s1"
    and rest: "train_batches E a T nf s1 bs = Inr st'"
    by (auto simp: ebind_eq_Inr)
  from train_step_frame [OF s1] Cons.IH [OF rest] show ?case by simp
qed

lemma inner_step_frame:
  assumes "inner_step E a T nf st b = Inr st'"
  shows "best_test_acc st' = best_test_acc st \<and> train_accuracy st' = train_accuracy st \<and>
         test_accuracy st' = test_accuracy st \<and> effects st' = effects st \<and>
         val_iter st' = val_iter st \<and> b_hist st' = b_hist st \<and>
         reg_term_hist st' = reg_term_hist st"
  using assms
  by (auto simp: inner_step_def ebind_eq_Inr Let_def case_prod_beta)

lemma outer_step_frame:
  assumes "outer_step E a T nf st b = Inr st'"
  shows "best_test_acc st' = best_test_acc st \<and> train_accuracy st' = train_accuracy st \<and>
         test_accuracy st' = test_accuracy st \<and> effects st' = effects st \<and>
         val_iter st' = val_iter st \<and> b_hist st' = b_hist st \<and>
         reg_term_hist st' = reg_term_hist st"
  using assms
  by (auto simp: outer_step_def ebind_eq_Inr Let_def case_prod_beta)

lemma meta_step_frame:
  assumes "meta_step E a T nf vl st b = Inr st'"
  shows "best_test_acc st' = best_test_acc st \<and> train_accuracy st' = train_accuracy st \<and>
         test_accuracy st' = test_accuracy st \<and> effects st' = effects st \<and>
         b_hist st' = b_hist st \<and> reg_term_hist st' = reg_term_hist st"
proof -
  from assms obtain s1 bo it where s1: "inner_step E a T nf st b = Inr s1"
    and o: "outer_step E a T nf (s1\<lparr>val_iter := it\<rparr>) bo = Inr st'"
    by (auto simp: meta_step_def ebind_eq_Inr case_prod_beta)
  from inner_step_frame [OF s1] outer_step_frame [OF o] show ?thesis by simp
qed

lemma meta_batches_frame:
  "meta_batches E a T nf vl st bs = Inr st' \<Longrightarrow>
   best_test_acc st' = best_test_acc st \<and> train_accuracy st' = train_accuracy st \<and>
   test_accuracy st' = test_accuracy st \<and> effects st' = effects st \<and>
   b_hist st' = b_hist st \<and> reg_term_hist st' = reg_term_hist st"
proof (induction bs arbitrary: st)
  case Nil
  then show ?case by simp
next
  case (Cons b bs)
  from Cons.prems obtain s1 where s1: "meta_step E a T nf vl st b = Inr s1"
    and rest: "meta_batches E a T nf vl s1 bs = Inr st'"
    by (auto simp: ebind_eq_Inr)
  from meta_step_frame [OF s1] Cons.IH [OF rest] show ?case by simp
qed


subsection \<open>Checkpoints\<close>

lemma py_last_eq_Inr: "py_last xs = Inr x \<longleftrightarrow> xs \<noteq> [] \<and> x = last xs"
  by (auto simp: py_last_def)

lemma output_file_eq_Inr:
  "output_file a sub name = Inr p \<longleftrightarrow>
   (\<exists>kvs s. a ''output_path'' = Some (PyDict kvs) \<and> map_of kvs sub = Some (PyStr s) \<and>
      p = os_path_join s name)"
proof (cases "a ''output_path''")
  case None
  then show ?thesis by (simp add: output_file_def)
next
  case op: (Some v)
  show ?thesis
  proof (cases v)
    case (PyDict kvs)
    show ?thesis
    proof (cases "map_of kvs sub")
      case None
      with op PyDict show ?thesis by (simp add: output_file_def subscript_def)
    next
      case (Some d)
      with op PyDict show ?thesis
        by (cases d) (auto simp: output_file_def subscript_def)
    qed
  qed (use op in \<open>simp_all add: output_file_def subscript_def\<close>)
qed

lemma ckpt_paths_differ: "os_path_join s ''ckpt.pt'' \<noteq> os_path_join s ''ckpt_best.pt''"
  by (simp add: os_path_join_def)

lemma output_file_ckpt_neq_best:
  "output_file a ''models'' ''ckpt.pt'' = Inr cp \<Longrightarrow>
   output_file a ''models'' ''ckpt_best.pt'' = Inr bp \<Longrightarrow> cp \<noteq> bp"
  by (auto simp: output_file_eq_Inr ckpt_paths_differ)

lemma save_best_spec:
  assumes "save_best a e st = Inr st'"
  shows "test_accuracy st \<noteq> [] \<and>
         (if best_test_acc st < last (test_accuracy st)
          then \<exists>bp. output_file a ''models'' ''ckpt_best.pt'' = Inr bp \<and>
                 st' = st\<lparr>best_test_acc := last (test_accuracy st),
                          effects := effects st @ [TorchSave e bp (model st)]\<rparr>
          else st' = st)"
  using assms by (auto simp: save_best_def ebind_eq_Inr py_last_eq_Inr split: if_splits)

lemma checkpoint_spec:
  assumes "checkpoint a e st = Inr st'"
  shows "\<exists>cp. output_file a ''models'' ''ckpt.pt'' = Inr cp \<and>
           test_accuracy st \<noteq> [] \<and> train_accuracy st \<noteq> [] \<and>
           (if best_test_acc st < last (test_accuracy st)
            then \<exists>bp. output_file a ''models'' ''ckpt_best.pt'' = Inr bp \<and>
                   st' = st\<lparr>best_test_acc := last (test_accuracy st),
                            effects := effects st @
                              [TorchSave e cp (model st), TorchSave e bp (model st),
                               Print (e + 1) (last (train_accuracy st)) (last (test_accuracy st))]\<rparr>
            else st' = st\<lparr>effects := effects st @
                              [TorchSave e cp (model st),
                               Print (e + 1) (last (train_accuracy st)) (last (test_accuracy st))]\<rparr>)"
proof -
  from assms obtain cp s1 where cp: "output_file a ''models'' ''ckpt.pt'' = Inr cp"
    and sb: "save_best a e (st\<lparr>effects := effects st @ [TorchSave e cp (model st)]\<rparr>) = Inr s1"
    and tr: "train_accuracy s1 \<noteq> []" and te: "test_accuracy s1 \<noteq> []"
    and st': "st' = s1\<lparr>effects := effects s1 @
                 [Print (e + 1) (last (train_accuracy s1)) (last (test_accuracy s1))]\<rparr>"
    by (auto simp: checkpoint_def ebind_eq_Inr py_last_eq_Inr)
  from save_best_spec [OF sb] cp tr te st' show ?thesis
    by (auto split: if_splits)
qed

lemma checkpoint_fields:
  assumes "checkpoint a e st = Inr st'"
  shows "train_accuracy st' = train_accuracy st \<and> test_accuracy st' = test_accuracy st \<and>
         model st' = model st \<and> np_random st' = np_random st \<and>
         run_state.more st' = run_state.more st \<and>
         test_accuracy st \<noteq> [] \<and>
         best_test_acc st' = max (best_test_acc st) (last (test_accuracy st))"
proof (cases "best_test_acc st < last (test_accuracy st)")
  case True
  with checkpoint_spec [OF assms] show ?thesis by auto
next
  case False
  with checkpoint_spec [OF assms] show ?thesis by auto
qed

lemma checkpoint_best_written:
  assumes "checkpoint a e st = Inr st'" and "output_file a ''models'' ''ckpt_best.pt'' = Inr bp"
  shows "(\<exists>sd. TorchSave i bp sd \<in> set (effects st')) \<longleftrightarrow>
         (\<exists>sd. TorchSave i bp sd \<in> set (effects st)) \<or>
         (i = e \<and> best_test_acc st < last (test_accuracy st))"
proof -
  from checkpoint_spec [OF assms(1)] obtain cp where
    cp: "output_file a ''models'' ''ckpt.pt'' = Inr cp" and
    sp: "if best_test_acc st < last (test_accuracy st)
         then \<exists>bp. output_file a ''models'' ''ckpt_best.pt'' = Inr bp \<and>
                st' = st\<lparr>best_test_acc := last (test_accuracy st),
                         effects := effects st @
                           [TorchSave e cp (model st), TorchSave e bp (model st),
                            Print (e + 1) (last (train_accuracy st)) (last (test_accuracy st))]\<rparr>
         else st' = st\<lparr>effects := effects st @
                           [TorchSave e cp (model st),
                            Print (e + 1) (last (train_accuracy st)) (last (test_accuracy st))]\<rparr>"
    by blast
  have ne: "cp \<noteq> bp" using cp assms(2) by (rule output_file_ckpt_neq_best)
  show ?thesis
  proof (cases "best_test_acc st < last (test_accuracy st)")
    case True
    with sp assms(2) have "effects st' = effects st @
        [TorchSave e cp (model st), TorchSave e bp (model st),
         Print (e + 1) (last (train_accuracy st)) (last (test_accuracy st))]"
      by auto
    with True ne show ?thesis by auto
  next
    case False
    with sp have "effects st' = effects st @
        [TorchSave e cp (model st),
         Print (e + 1) (last (train_accuracy st)) (last (test_accuracy st))]"
      by auto
    with False ne show ?thesis by auto
  qed
qed

lemma record_accuracy_fields:
  "best_test_acc (record_accuracy E nf trl tel st) = best_test_acc st \<and>
   effects (record_accuracy E nf trl tel st) = effects st \<and>
   np_random (record_accuracy E nf trl tel st) = np_random st \<and>
   run_state.more (record_accuracy E nf trl tel st) = run_state.more st"
  by (simp add: record_accuracy_def case_prod_beta)

lemma train_epoch_spec:
  assumes "train_epoch E a T nf trl tel e st = Inr st'"
    and "output_file a ''models'' ''ckpt_best.pt'' = Inr bp"
  shows "\<exists>tr te. train_accuracy st' = train_accuracy st @ [tr] \<and>
           test_accuracy st' = test_accuracy st @ [te] \<and>
           (\<exists>m2. te = fst (accuracy E m2 tel nf)) \<and>
           best_test_acc st' = max (best_test_acc st) te \<and>
           (\<forall>i. (\<exists>sd. TorchSave i bp sd \<in> set (effects st')) \<longleftrightarrow>
                (\<exists>sd. TorchSave i bp sd \<in> set (effects st)) \<or> (i = e \<and> best_test_acc st < te))"
proof -
  from assms(1) obtain s1 where b: "train_batches E a T nf st trl = Inr s1"
    and c: "checkpoint a e (record_accuracy E nf trl tel s1) = Inr st'"
    by (auto simp: train_epoch_def ebind_eq_Inr)
  let ?r = "record_accuracy E nf trl tel s1"
  note fr = train_batches_frame [OF b]
  have r1: "train_accuracy ?r = train_accuracy st @ [fst (accuracy E (model s1) trl nf)]"
    using fr by (simp add: record_accuracy_train)
  have r2: "test_accuracy ?r =
      test_accuracy st @ [fst (accuracy E (snd (accuracy E (model s1) trl nf)) tel nf)]"
    using fr by (simp add: record_accuracy_test)
  have r3: "best_test_acc ?r = best_test_acc st" "effects ?r = effects st"
    using fr by (simp_all add: record_accuracy_fields)
  from checkpoint_fields [OF c] checkpoint_best_written [OF c assms(2)] r1 r2 r3
  show ?thesis by auto
qed


subsection \<open>The loop over the epochs\<close>

lemma fold_max_less: "fold max xs b < (y::real) \<longleftrightarrow> b < y \<and> (\<forall>x \<in> set xs. x < y)"
  by (induction xs arbitrary: b) auto

lemma fold_max_ge: "(b::real) \<le> fold max xs b"
proof (induction xs arbitrary: b)
  case Nil
  then show ?case by simp
next
  case (Cons x xs)
  have "b \<le> max x b" by simp
  also have "\<dots> \<le> fold max xs (max x b)" by (rule Cons.IH)
  finally show ?case by simp
qed

lemma fold_max_append: "fold max (xs @ ys) (b::real) = fold max ys (fold max xs b)"
  by simp

lemma best_written_step:
  assumes s1: "\<And>i. W1 i \<longleftrightarrow> W0 i \<or> (i = e \<and> (b::real) < te)"
    and s2: "\<And>i. W2 i \<longleftrightarrow> W1 i \<or> (Suc e \<le> i \<and> i < Suc e + k \<and>
               fold max (take (i - Suc e) tes) (max b te) < tes ! (i - Suc e))"
  shows "W2 i \<longleftrightarrow> W0 i \<or> (e \<le> i \<and> i < e + Suc k \<and>
           fold max (take (i - e) (te # tes)) b < (te # tes) ! (i - e))"
proof (cases "i = e")
  case True
  then show ?thesis using s1 [of i] s2 [of i] by simp
next
  case False
  show ?thesis
  proof (cases "e < i")
    case True
    then obtain j where j: "i = Suc e + j" using less_iff_Suc_add by auto
    then have ie: "i - e = Suc j" "i - Suc e = j" by simp_all
    have mc: "max b te = max te b" by (rule max.commute)
    show ?thesis using s1 [of i] s2 [of i] False True j
      unfolding ie mc by auto
  next
    case F: False
    with False have "i < e" by simp
    then show ?thesis using s1 [of i] s2 [of i] by simp
  qed
qed

lemma train_epochs_spec:
  assumes bp: "output_file a ''models'' ''ckpt_best.pt'' = Inr bp"
  shows "train_epochs E a T nf trl tel e k st = Inr st' \<Longrightarrow>
    \<exists>trs tes. length trs = k \<and> length tes = k \<and>
      train_accuracy st' = train_accuracy st @ trs \<and>
      test_accuracy st' = test_accuracy st @ tes \<and>
      (\<forall>x \<in> set tes. \<exists>m2. x = fst (accuracy E m2 tel nf)) \<and>
      best_test_acc st' = fold max tes (best_test_acc st) \<and>
      (\<forall>i. (\<exists>sd. TorchSave i bp sd \<in> set (effects st')) \<longleftrightarrow>
           (\<exists>sd. TorchSave i bp sd \<in> set (effects st)) \<or>
           (e \<le> i \<and> i < e + k \<and>
            fold max (take (i - e) tes) (best_test_acc st) < tes ! (i - e)))"
proof (induction k arbitrary: e st)
  case 0
  then show ?case by auto
next
  case (Suc k)
  from Suc.prems obtain s1 where ep: "train_epoch E a T nf trl tel e st = Inr s1"
    and rest: "train_epochs E a T nf trl tel (Suc e) k s1 = Inr st'"
    by (auto simp: ebind_eq_Inr)
  from train_epoch_spec [OF ep bp] obtain tr te where
    e1: "train_accuracy s1 = train_accuracy st @ [tr]"
        "test_accuracy s1 = test_accuracy st @ [te]"
    and bs1: "best_test_acc s1 = max (best_test_acc st) te"
    and p1: "\<exists>m2. te = fst (accuracy E m2 tel nf)"
    and w1: "\<And>i. (\<exists>sd. TorchSave i bp sd \<in> set (effects s1)) \<longleftrightarrow>
                (\<exists>sd. TorchSave i bp sd \<in> set (effects st)) \<or> (i = e \<and> best_test_acc st < te)"
    by blast
  from Suc.IH [OF rest] obtain trs tes where
    e2: "length trs = k" "length tes = k"
        "train_accuracy st' = train_accuracy s1 @ trs"
        "test_accuracy st' = test_accuracy s1 @ tes"
        "best_test_acc st' = fold max tes (best_test_acc s1)"
    and p2: "\<forall>x \<in> set tes. \<exists>m2. x = fst (accuracy E m2 tel nf)"
    and w2: "\<And>i. (\<exists>sd. TorchSave i bp sd \<in> set (effects st')) \<longleftrightarrow>
                (\<exists>sd. TorchSave i bp sd \<in> set (effects s1)) \<or>
                (Suc e \<le> i \<and> i < Suc e + k \<and>
                 fold max (take (i - Suc e) tes) (best_test_acc s1) < tes ! (i - Suc e))"
    by blast
  have w: "(\<exists>sd. TorchSave i bp sd \<in> set (effects st')) \<longleftrightarrow>
           (\<exists>sd. TorchSave i bp sd \<in> set (effects st)) \<or>
           (e \<le> i \<and> i < e + Suc k \<and>
            fold max (take (i - e) (te # tes)) (best_test_acc st) < (te # tes) ! (i - e))" for i
  proof (rule best_written_step [where ?W1.0 = "\<lambda>i. \<exists>sd. TorchSave i bp sd \<in> set (effects s1)"])
    show "(\<exists>sd. TorchSave j bp sd \<in> set (effects s1)) \<longleftrightarrow>
          (\<exists>sd. TorchSave j bp sd \<in> set (effects st)) \<or> (j = e \<and> best_test_acc st < te)" for j
      by (rule w1)
    show "(\<exists>sd. TorchSave j bp sd \<in> set (effects st')) \<longleftrightarrow>
          (\<exists>sd. TorchSave j bp sd \<in> set (effects s1)) \<or>
          (Suc e \<le> j \<and> j < Suc e + k \<and>
           fold max (take (j - Suc e) tes) (max (best_test_acc st) te) < tes ! (j - Suc e))" for j
      using w2 [of j] unfolding bs1 .
  qed
  show ?case
  proof (intro exI conjI allI)
    show "length (tr # trs) = Suc k" "length (te # tes) = Suc k" using e2 by simp_all
    show "train_accuracy st' = train_accuracy st @ tr # trs" using e1 e2 by simp
    show "test_accuracy st' = test_accuracy st @ te # tes" using e1 e2 by simp
    show "\<forall>x \<in> set (te # tes). \<exists>m2. x = fst (accuracy E m2 tel nf)" using p1 p2 by simp
    show "best_test_acc st' = fold max (te # tes) (best_test_acc st)"
      using bs1 e2 by (simp add: max.commute)
    show "(\<exists>sd. TorchSave i bp sd \<in> set (effects st')) \<longleftrightarrow>
           (\<exists>sd. TorchSave i bp sd \<in> set (effects st)) \<or>
           (e \<le> i \<and> i < e + Suc k \<and>
            fold max (take (i - e) (te # tes)) (best_test_acc st) < (te # tes) ! (i - e))" for i
      by (rule w)
  qed
qed


subsection \<open>The meta trainer's epochs\<close>

lemma checkpoint_meta_fields:
  fixes st :: "('h, 'os, 'x, 'y) meta_state"
  assumes "checkpoint a e st = Inr st'"
  shows "b_hist st' = b_hist st \<and> reg_term_hist st' = reg_term_hist st \<and>
         val_iter st' = val_iter st"
proof (cases "best_test_acc st < last (test_accuracy st)")
  case True
  with checkpoint_spec [OF assms] show ?thesis by auto
next
  case False
  with checkpoint_spec [OF assms] show ?thesis by auto
qed

lemma record_accuracy_meta_fields:
  fixes st :: "('h, 'os, 'x, 'y) meta_state"
  shows "b_hist (record_accuracy E nf trl tel st) = b_hist st \<and>
         reg_term_hist (record_accuracy E nf trl tel st) = reg_term_hist st \<and>
         val_iter (record_accuracy E nf trl tel st) = val_iter st"
  by (simp add: record_accuracy_def case_prod_beta)

lemma record_snapshots_fields:
  "train_accuracy (record_snapshots E st) = train_accuracy st \<and>
   test_accuracy (record_snapshots E st) = test_accuracy st \<and>
   best_test_acc (record_snapshots E st) = best_test_acc st \<and>
   effects (record_snapshots E st) = effects st \<and>
   val_iter (record_snapshots E st) = val_iter st \<and>
   model (record_snapshots E st) = model st \<and>
   b_hist (record_snapshots E st) = b_hist st @ [get_b_vector E (model st)] \<and>
   reg_term_hist (record_snapshots E st) =
     reg_term_hist st @ [tval (get_reg_term E (model st))]"
  by (simp add: record_snapshots_def)

lemma meta_epoch_spec:
  assumes "meta_epoch E a T nf trl vl tel e st = Inr st'"
    and "output_file a ''models'' ''ckpt_best.pt'' = Inr bp"
  shows "\<exists>tr te bv r. train_accuracy st' = train_accuracy st @ [tr] \<and>
           test_accuracy st' = test_accuracy st @ [te] \<and>
           b_hist st' = b_hist st @ [bv] \<and>
           reg_term_hist st' = reg_term_hist st @ [r] \<and>
           (\<exists>m2. te = fst (accuracy E m2 tel nf)) \<and>
           best_test_acc st' = max (best_test_acc st) te \<and>
           (\<forall>i. (\<exists>sd. TorchSave i bp sd \<in> set (effects st')) \<longleftrightarrow>
                (\<exists>sd. TorchSave i bp sd \<in> set (effects st)) \<or> (i = e \<and> best_test_acc st < te))"
proof -
  from assms(1) obtain s1 where b: "meta_batches E a T nf vl st trl = Inr s1"
    and c: "checkpoint a e (record_snapshots E (record_accuracy E nf trl tel s1)) = Inr st'"
    by (auto simp: meta_epoch_def ebind_eq_Inr)
  let ?r = "record_accuracy E nf trl tel s1"
  let ?q = "record_snapshots E ?r"
  note fr = meta_batches_frame [OF b]
  have r1: "train_accuracy ?q = train_accuracy st @ [fst (accuracy E (model s1) trl nf)]"
    using fr by (simp add: record_accuracy_train record_snapshots_fields)
  have r2: "test_accuracy ?q =
      test_accuracy st @ [fst (accuracy E (snd (accuracy E (model s1) trl nf)) tel nf)]"
    using fr by (simp add: record_accuracy_test record_snapshots_fields)
  have r3: "best_test_acc ?q = best_test_acc st" "effects ?q = effects st"
    using fr by (simp_all add: record_accuracy_fields record_snapshots_fields)
  have r4: "b_hist ?q = b_hist st @ [get_b_vector E (model ?r)]"
    "reg_term_hist ?q = reg_term_hist st @ [tval (get_reg_term E (model ?r))]"
    using fr by (simp_all add: record_accuracy_meta_fields record_snapshots_fields)
  let ?tr = "fst (accuracy E (model s1) trl nf)"
  let ?te = "fst (accuracy E (snd (accuracy E (model s1) trl nf)) tel nf)"
  have l: "last (test_accuracy ?q) = ?te" by (simp add: r2)
  note c1 = checkpoint_fields [OF c]
  note c2 = checkpoint_meta_fields [OF c]
  note c3 = checkpoint_best_written [OF c assms(2)]
  show ?thesis
  proof (intro exI conjI allI)
    show "train_accuracy st' = train_accuracy st @ [?tr]" using c1 r1 by simp
    show "test_accuracy st' = test_accuracy st @ [?te]" using c1 r2 by simp
    show "b_hist st' = b_hist st @ [get_b_vector E (model ?r)]" using c2 r4 by simp
    show "reg_term_hist st' = reg_term_hist st @ [tval (get_reg_term E (model ?r))]"
      using c2 r4 by simp
    show "?te = fst (accuracy E (snd (accuracy E (model s1) trl nf)) tel nf)" by simp
    show "best_test_acc st' = max (best_test_acc st) ?te" using c1 r3 l by simp
    show "(\<exists>sd. TorchSave i bp sd \<in> set (effects st')) \<longleftrightarrow>
          (\<exists>sd. TorchSave i bp sd \<in> set (effects st)) \<or> (i = e \<and> best_test_acc st < ?te)" for i
      using c3 [of i] r3 l by simp
  qed
qed

lemma meta_epochs_spec:
  assumes bp: "output_file a ''models'' ''ckpt_best.pt'' = Inr bp"
  shows "meta_epochs E a T nf trl vl tel e k st = Inr st' \<Longrightarrow>
    \<exists>trs tes bvs rs. length trs = k \<and> length tes = k \<and> length bvs = k \<and> length rs = k \<and>
      train_accuracy st' = train_accuracy st @ trs \<and>
      test_accuracy st' = test_accuracy st @ tes \<and>
      b_hist st' = b_hist st @ bvs \<and>
      reg_term_hist st' = reg_term_hist st @ rs \<and>
      (\<forall>x \<in> set tes. \<exists>m2. x = fst (accuracy E m2 tel nf)) \<and>
      best_test_acc st' = fold max tes (best_test_acc st) \<and>
      (\<forall>i. (\<exists>sd. TorchSave i bp sd \<in> set (effects st')) \<longleftrightarrow>
           (\<exists>sd. TorchSave i bp sd \<in> set (effects st)) \<or>
           (e \<le> i \<and> i < e + k \<and>
            fold max (take (i - e) tes) (best_test_acc st) < tes ! (i - e)))"
proof (induction k arbitrary: e st)
  case 0
  then show ?case by auto
next
  case (Suc k)
  from Suc.prems obtain s1 where ep: "meta_epoch E a T nf trl vl tel e st = Inr s1"
    and rest: "meta_epochs E a T nf trl vl tel (Suc e) k s1 = Inr st'"
    by (auto simp: ebind_eq_Inr)
  from meta_epoch_spec [OF ep bp] obtain tr te bv r where
    e1: "train_accuracy s1 = train_accuracy st @ [tr]"
        "test_accuracy s1 = test_accuracy st @ [te]"
        "b_hist s1 = b_hist st @ [bv]"
        "reg_term_hist s1 = reg_term_hist st @ [r]"
    and bs1: "best_test_acc s1 = max (best_test_acc st) te"
    and p1: "\<exists>m2. te = fst (accuracy E m2 tel nf)"
    and w1: "\<And>i. (\<exists>sd. TorchSave i bp sd \<in> set (effects s1)) \<longleftrightarrow>
                (\<exists>sd. TorchSave i bp sd \<in> set (effects st)) \<or> (i = e \<and> best_test_acc st < te)"
    by (elim exE conjE) (rule that; blast)
  from Suc.IH [OF rest] obtain trs tes bvs rs where
    e2: "length trs = k" "length tes = k" "length bvs = k" "length rs = k"
        "train_accuracy st' = train_accuracy s1 @ trs"
        "test_accuracy st' = test_accuracy s1 @ tes"
        "b_hist st' = b_hist s1 @ bvs"
        "reg_term_hist st' = reg_term_hist s1 @ rs"
        "best_test_acc st' = fold max tes (best_test_acc s1)"
    and p2: "\<forall>x \<in> set tes. \<exists>m2. x = fst (accuracy E m2 tel nf)"
    and w2: "\<And>i. (\<exists>sd. TorchSave i bp sd \<in> set (effects st')) \<longleftrightarrow>
                (\<exists>sd. TorchSave i bp sd \<in> set (effects s1)) \<or>
                (Suc e \<le> i \<and> i < Suc e + k \<and>
                 fold max (take (i - Suc e) tes) (best_test_acc s1) < tes ! (i - Suc e))"
    by (elim exE conjE) (rule that; blast)
  have w: "(\<exists>sd. TorchSave i bp sd \<in> set (effects st')) \<longleftrightarrow>
           (\<exists>sd. TorchSave i bp sd \<in> set (effects st)) \<or>
           (e \<le> i \<and> i < e + Suc k \<and>
            fold max (take (i - e) (te # tes)) (best_test_acc st) < (te # tes) ! (i - e))" for i
  proof (rule best_written_step [where ?W1.0 = "\<lambda>i. \<exists>sd. TorchSave i bp sd \<in> set (effects s1)"])
    show "(\<exists>sd. TorchSave j bp sd \<in> set (effects s1)) \<longleftrightarrow>
          (\<exists>sd. TorchSave j bp sd \<in> set (effects st)) \<or> (j = e \<and> best_test_acc st < te)" for j
      by (rule w1)
    show "(\<exists>sd. TorchSave j bp sd \<in> set (effects st')) \<longleftrightarrow>
          (\<exists>sd. TorchSave j bp sd \<in> set (effects s1)) \<or>
          (Suc e \<le> j \<and> j < Suc e + k \<and>
           fold max (take (j - Suc e) tes) (max (best_test_acc st) te) < tes ! (j - Suc e))" for j
      using w2 [of j] unfolding bs1 .
  qed
  show ?case
  proof (intro exI conjI allI)
    show "length (tr # trs) = Suc k" "length (te # tes) = Suc k"
      "length (bv # bvs) = Suc k" "length (r # rs) = Suc k" using e2 by simp_all
    show "train_accuracy st' = train_accuracy st @ tr # trs" using e1 e2 by simp
    show "test_accuracy st' = test_accuracy st @ te # tes" using e1 e2 by simp
    show "b_hist st' = b_hist st @ bv # bvs" using e1 e2 by simp
    show "reg_term_hist st' = reg_term_hist st @ r # rs" using e1 e2 by simp
    show "\<forall>x \<in> set (te # tes). \<exists>m2. x = fst (accuracy E m2 tel nf)" using p1 p2 by simp
    show "best_test_acc st' = fold max (te # tes) (best_test_acc st)"
      using bs1 e2 by (simp add: max.commute)
    show "(\<exists>sd. TorchSave i bp sd \<in> set (effects st')) \<longleftrightarrow>
           (\<exists>sd. TorchSave i bp sd \<in> set (effects st)) \<or>
           (e \<le> i \<and> i < e + Suc k \<and>
            fold max (take (i - e) (te # tes)) (best_test_acc st) < (te # tes) ! (i - e))" for i
      by (rule w)
  qed
qed

subsection \<open>Runs split at an epoch\<close>

lemma train_epochs_add:
  "train_epochs E a T nf trl tel e (i + d) st =
   ebind (train_epochs E a T nf trl tel e i st) (train_epochs E a T nf trl tel (e + i) d)"
proof (induction i arbitrary: e st)
  case 0
  then show ?case by simp
next
  case (Suc i)
  show ?case
  proof (cases "train_epoch E a T nf trl tel e st")
    case (Inl err)
    then show ?thesis by simp
  next
    case (Inr s1)
    then show ?thesis using Suc.IH [of "Suc e" s1] by simp
  qed
qed

lemma meta_epochs_add:
  "meta_epochs E a T nf trl vl tel e (i + d) st =
   ebind (meta_epochs E a T nf trl vl tel e i st) (meta_epochs E a T nf trl vl tel (e + i) d)"
proof (induction i arbitrary: e st)
  case 0
  then show ?case by simp
next
  case (Suc i)
  show ?case
  proof (cases "meta_epoch E a T nf trl vl tel e st")
    case (Inl err)
    then show ?thesis by simp
  next
    case (Inr s1)
    then show ?thesis using Suc.IH [of "Suc e" s1] by simp
  qed
qed


subsection \<open>The validation cursor\<close>

lemma next_val_batch_drop:
  assumes "vl \<noteq> []" and "p \<le> length vl"
  shows "next_val_batch vl (drop p vl) =
         Inr (vl ! (p mod length vl), drop (Suc (p mod length vl)) vl)"
proof (cases "p = length vl")
  case True
  with assms(1) show ?thesis
    by (cases vl) (simp_all add: next_val_batch_def next_iter_def)
next
  case False
  with assms(2) have lt: "p < length vl" by simp
  then have "drop p vl = vl ! p # drop (Suc p) vl" by (simp add: Cons_nth_drop_Suc)
  with lt show ?thesis by (simp add: next_val_batch_def next_iter_def)
qed

lemma next_val_batch_empty_iter: "next_val_batch vl [] = next_iter vl"
  by (simp add: next_val_batch_def next_iter_def)

lemma next_val_batch_stop:
  "next_val_batch vl it = Inl StopIteration \<longleftrightarrow> vl = [] \<and> it = []"
  by (cases it; cases vl) (simp_all add: next_val_batch_def next_iter_def)

lemma next_val_batch_error: "next_val_batch vl it = Inl e \<Longrightarrow> e = StopIteration"
  by (cases it; cases vl) (simp_all add: next_val_batch_def next_iter_def)

lemma meta_step_cursor:
  assumes "vl \<noteq> []" and "p \<le> length vl" and "val_iter st = drop p vl"
  shows "meta_step E a T nf vl st b =
         ebind (inner_step E a T nf st b) (\<lambda>s1.
           outer_step E a T nf (s1\<lparr>val_iter := drop (Suc (p mod length vl)) vl\<rparr>)
             (vl ! (p mod length vl)))"
proof (cases "inner_step E a T nf st b")
  case (Inl e)
  then show ?thesis by (simp add: meta_step_def)
next
  case (Inr s1)
  from inner_step_frame [OF Inr] assms(3) have "val_iter s1 = drop p vl" by simp
  with Inr next_val_batch_drop [OF assms(1,2)] show ?thesis
    by (simp add: meta_step_def)
qed

lemma meta_step_val_iter:
  assumes "vl \<noteq> []" and "p \<le> length vl" and "val_iter st = drop p vl"
    and "meta_step E a T nf vl st b = Inr st'"
  shows "val_iter st' = drop (Suc (p mod length vl)) vl"
proof -
  from assms(4) meta_step_cursor [OF assms(1-3), of E a T nf b]
  obtain s1 where "outer_step E a T nf (s1\<lparr>val_iter := drop (Suc (p mod length vl)) vl\<rparr>)
      (vl ! (p mod length vl)) = Inr st'"
    by (auto simp: ebind_eq_Inr)
  from outer_step_frame [OF this] show ?thesis by simp
qed

lemma cursor_advance:
  assumes "vl \<noteq> []" and "p \<le> length vl" and "p mod length vl = t mod length vl"
  shows "Suc (p mod length vl) \<le> length vl \<and>
         Suc (p mod length vl) mod length vl = Suc t mod length vl"
proof -
  from assms(1) have "p mod length vl < length vl" by simp
  then have "Suc (p mod length vl) \<le> length vl" by simp
  moreover have "Suc (p mod length vl) mod length vl = Suc t mod length vl"
    using assms(3) by (metis mod_Suc_eq)
  ultimately show ?thesis by simp
qed

lemma meta_batches_cursor:
  assumes "vl \<noteq> []"
  shows "meta_batches E a T nf vl st bs = Inr st' \<Longrightarrow>
         \<exists>p \<le> length vl. val_iter st = drop p vl \<and> p mod length vl = t mod length vl \<Longrightarrow>
         \<exists>p \<le> length vl. val_iter st' = drop p vl \<and>
            p mod length vl = (t + length bs) mod length vl"
proof (induction bs arbitrary: st t)
  case Nil
  then show ?case by simp
next
  case (Cons b bs)
  from Cons.prems(1) obtain s1 where s1: "meta_step E a T nf vl st b = Inr s1"
    and rest: "meta_batches E a T nf vl s1 bs = Inr st'"
    by (auto simp: ebind_eq_Inr)
  from Cons.prems(2) obtain p where p: "p \<le> length vl" "val_iter st = drop p vl"
    "p mod length vl = t mod length vl" by blast
  from meta_step_val_iter [OF assms p(1,2) s1] cursor_advance [OF assms p(1,3)]
  have "\<exists>q \<le> length vl. val_iter s1 = drop q vl \<and> q mod length vl = Suc t mod length vl"
    by blast
  from Cons.IH [OF rest this] show ?case by simp
qed

lemma meta_epoch_cursor:
  assumes "vl \<noteq> []" and "meta_epoch E a T nf trl vl tel e st = Inr st'"
    and "\<exists>p \<le> length vl. val_iter st = drop p vl \<and> p mod length vl = t mod length vl"
  shows "\<exists>p \<le> length vl. val_iter st' = drop p vl \<and>
            p mod length vl = (t + length trl) mod length vl"
proof -
  from assms(2) obtain s1 where b: "meta_batches E a T nf vl st trl = Inr s1"
    and c: "checkpoint a e (record_snapshots E (record_accuracy E nf trl tel s1)) = Inr st'"
    by (auto simp: meta_epoch_def ebind_eq_Inr)
  from checkpoint_meta_fields [OF c] have "val_iter st' = val_iter s1"
    by (simp add: record_snapshots_fields record_accuracy_meta_fields)
  with meta_batches_cursor [OF assms(1) b assms(3)] show ?thesis by simp
qed

lemma meta_epochs_cursor:
  assumes "vl \<noteq> []"
  shows "meta_epochs E a T nf trl vl tel e k st = Inr st' \<Longrightarrow>
         \<exists>p \<le> length vl. val_iter st = drop p vl \<and> p mod length vl = t mod length vl \<Longrightarrow>
         \<exists>p \<le> length vl. val_iter st' = drop p vl \<and>
            p mod length vl = (t + k * length trl) mod length vl"
proof (induction k arbitrary: e st t)
  case 0
  then show ?case by simp
next
  case (Suc k)
  from Suc.prems(1) obtain s1 where ep: "meta_epoch E a T nf trl vl tel e st = Inr s1"
    and rest: "meta_epochs E a T nf trl vl tel (Suc e) k s1 = Inr st'"
    by (auto simp: ebind_eq_Inr)
  from Suc.IH [OF rest meta_epoch_cursor [OF assms ep Suc.prems(2)]]
  show ?case by (simp add: add.assoc add.commute)
qed

lemma meta_setup_val_iter:
  "meta_setup E a m vl g = Inr (T, nf, st0) \<Longrightarrow> val_iter st0 = vl"
  by (auto simp: meta_setup_def ebind_eq_Inr)

lemma meta_schedule:
  assumes "vl \<noteq> []" and "meta_setup E a m vl g = Inr (T, nf, st0)"
    and "meta_epochs E a T nf trl vl tel 0 k st0 = Inr sk"
    and "meta_batches E a T nf vl sk (take i trl) = Inr st" and "i < length trl"
  shows "meta_step E a T nf vl st (trl ! i) =
         ebind (inner_step E a T nf st (trl ! i)) (\<lambda>s1.
           outer_step E a T nf
             (s1\<lparr>val_iter := drop (Suc ((k * length trl + i) mod length vl)) vl\<rparr>)
             (vl ! ((k * length trl + i) mod length vl)))"
proof -
  have "\<exists>p \<le> length vl. val_iter st0 = drop p vl \<and> p mod length vl = 0 mod length vl"
    using meta_setup_val_iter [OF assms(2)] by (intro exI [of _ 0]) simp
  from meta_epochs_cursor [OF assms(1,3) this]
  have "\<exists>p \<le> length vl. val_iter sk = drop p vl \<and>
      p mod length vl = (k * length trl) mod length vl" by simp
  from meta_batches_cursor [OF assms(1,4) this] assms(5)
  obtain p where p: "p \<le> length vl" "val_iter st = drop p vl"
    "p mod length vl = (k * length trl + i) mod length vl" by auto
  from meta_step_cursor [OF assms(1) p(1,2), of E a T nf "trl ! i"] p(3)
  show ?thesis by simp
qed


subsection \<open>Which exceptions a step can raise\<close>

lemma ebind_no_stop:
  "r \<noteq> Inl StopIteration \<Longrightarrow> (\<And>x. r = Inr x \<Longrightarrow> f x \<noteq> Inl StopIteration) \<Longrightarrow>
   ebind r f \<noteq> Inl StopIteration"
  by (cases r) auto

lemma getitem_no_stop: "getitem a k \<noteq> Inl StopIteration"
  by (simp add: getitem_def split: option.splits)

lemma as_number_no_stop: "as_number v \<noteq> Inl StopIteration"
  by (simp add: as_number_def split: pyval.splits)

lemma math_log_no_stop: "math_log v \<noteq> Inl StopIteration"
  unfolding math_log_def by (intro ebind_no_stop as_number_no_stop) simp

lemma py_range_no_stop: "py_range v \<noteq> Inl StopIteration"
  by (simp add: py_range_def split: pyval.splits)

lemma py_last_no_stop: "py_last xs \<noteq> Inl StopIteration"
  by (simp add: py_last_def)

lemma subscript_no_stop: "subscript v k \<noteq> Inl StopIteration"
  by (simp add: subscript_def split: pyval.splits option.splits)

lemma output_file_no_stop: "output_file a sub name \<noteq> Inl StopIteration"
  unfolding output_file_def
  by (intro ebind_no_stop getitem_no_stop subscript_no_stop) (simp split: pyval.splits)

lemma select_norm_no_stop: "select_norm E a \<noteq> Inl StopIteration"
  unfolding select_norm_def by (intro ebind_no_stop getitem_no_stop) simp

lemma threshold_no_stop: "noise_entropy_threshold a \<noteq> Inl StopIteration"
  unfolding noise_entropy_threshold_def
  by (intro ebind_no_stop getitem_no_stop math_log_no_stop) simp

lemma select_epsilon_no_stop: "select_epsilon a g \<noteq> Inl StopIteration"
  unfolding select_epsilon_def
  by (intro ebind_no_stop getitem_no_stop) (simp split: pyval.splits prod.splits)

lemma perturb_no_stop: "perturb E a m g data target \<noteq> Inl StopIteration"
  unfolding perturb_def
  by (intro ebind_no_stop select_epsilon_no_stop) (simp add: case_prod_beta)

lemma loss_inner_no_stop: "loss_inner E a m adv clean pen \<noteq> Inl StopIteration"
  unfolding loss_inner_def
  by (intro ebind_no_stop getitem_no_stop as_number_no_stop) simp

lemma loss_outer_no_stop: "loss_outer E a m adv clean pen \<noteq> Inl StopIteration"
  by (simp add: loss_outer_eq_inner loss_inner_no_stop)

lemma inner_step_no_stop: "inner_step E a T nf st b \<noteq> Inl StopIteration"
  unfolding inner_step_def case_prod_beta Let_def
  by (intro ebind_no_stop perturb_no_stop loss_inner_no_stop) simp

lemma outer_step_no_stop: "outer_step E a T nf st b \<noteq> Inl StopIteration"
  unfolding outer_step_def case_prod_beta Let_def
  by (intro ebind_no_stop perturb_no_stop loss_outer_no_stop) simp

lemma save_best_no_stop: "save_best a e st \<noteq> Inl StopIteration"
proof -
  have inner: "ebind (output_file a sub name) (\<lambda>path. Inr (f path)) \<noteq> Inl StopIteration"
    for f :: "string \<Rightarrow> 'c" and sub name
    by (intro ebind_no_stop output_file_no_stop) simp
  show ?thesis
    unfolding save_best_def by (intro ebind_no_stop py_last_no_stop) (simp add: inner)
qed

lemma checkpoint_no_stop: "checkpoint a e st \<noteq> Inl StopIteration"
  unfolding checkpoint_def
  by (intro ebind_no_stop output_file_no_stop save_best_no_stop py_last_no_stop) simp

lemma train_save_no_stop: "train_save a st \<noteq> Inl StopIteration"
  unfolding train_save_def by (intro ebind_no_stop output_file_no_stop) simp

lemma meta_save_no_stop: "meta_save a st \<noteq> Inl StopIteration"
  unfolding meta_save_def
  by (intro ebind_no_stop output_file_no_stop train_save_no_stop) simp

lemma meta_setup_no_stop: "meta_setup E a m vl g \<noteq> Inl StopIteration"
  unfolding meta_setup_def
  by (intro ebind_no_stop getitem_no_stop select_norm_no_stop threshold_no_stop) simp

lemma meta_step_no_stop:
  assumes "vl \<noteq> []"
  shows "meta_step E a T nf vl st b \<noteq> Inl StopIteration"
  unfolding meta_step_def case_prod_beta
  by (intro ebind_no_stop inner_step_no_stop outer_step_no_stop)
     (simp add: next_val_batch_stop assms)

lemma meta_batches_no_stop:
  assumes "vl \<noteq> []"
  shows "meta_batches E a T nf vl st bs \<noteq> Inl StopIteration"
proof (induction bs arbitrary: st)
  case Nil
  then show ?case by simp
next
  case (Cons b bs)
  show ?case
    unfolding meta_batches.simps
    by (intro ebind_no_stop meta_step_no_stop [OF assms] Cons.IH)
qed

lemma meta_epoch_no_stop:
  assumes "vl \<noteq> []"
  shows "meta_epoch E a T nf trl vl tel e st \<noteq> Inl StopIteration"
  unfolding meta_epoch_def
  by (intro ebind_no_stop meta_batches_no_stop [OF assms] checkpoint_no_stop)

lemma meta_epochs_no_stop:
  assumes "vl \<noteq> []"
  shows "meta_epochs E a T nf trl vl tel e k st \<noteq> Inl StopIteration"
proof (induction k arbitrary: e st)
  case 0
  then show ?case by simp
next
  case (Suc k)
  show ?case
    unfolding meta_epochs.simps
    by (intro ebind_no_stop meta_epoch_no_stop [OF assms] Suc.IH)
qed

lemma meta_train_adv_no_stop:
  assumes "vl \<noteq> []"
  shows "meta_train_adv E m trl vl tel a g \<noteq> Inl StopIteration"
  unfolding meta_train_adv_def case_prod_beta
  by (intro ebind_no_stop meta_setup_no_stop getitem_no_stop py_range_no_stop
      meta_epochs_no_stop [OF assms] meta_save_no_stop)


subsection \<open>The whole runs\<close>

lemma py_range_eq_Inr: "py_range v = Inr k \<longleftrightarrow> (\<exists>n. v = PyInt n \<and> k = nat n)"
  by (cases v) (auto simp: py_range_def)

lemma train_setup_init:
  assumes "train_setup E a m g = Inr (T, nf, st0)"
  shows "best_test_acc st0 = - 1 \<and> train_accuracy st0 = [] \<and> test_accuracy st0 = [] \<and>
         effects st0 = [] \<and> model st0 = m \<and> np_random st0 = g"
  using assms by (auto simp: train_setup_def ebind_eq_Inr)

lemma meta_setup_init:
  assumes "meta_setup E a m vl g = Inr (T, nf, st0)"
  shows "best_test_acc st0 = - 1 \<and> train_accuracy st0 = [] \<and> test_accuracy st0 = [] \<and>
         effects st0 = [] \<and> model st0 = m \<and> np_random st0 = g \<and>
         b_hist st0 = [] \<and> reg_term_hist st0 = [] \<and> val_iter st0 = vl"
  using assms by (auto simp: meta_setup_def ebind_eq_Inr)

lemma train_save_spec:
  assumes "train_save a sl = Inr st"
  shows "\<exists>p1 p2. output_file a ''stats'' ''train_acc.npy'' = Inr p1 \<and>
           output_file a ''stats'' ''test_acc.npy'' = Inr p2 \<and>
           st = sl\<lparr>effects := effects sl @
                  [NpSave p1 (Arr1 (train_accuracy sl)), NpSave p2 (Arr1 (test_accuracy sl))]\<rparr>"
  using assms by (auto simp: train_save_def ebind_eq_Inr)

lemma meta_save_spec:
  assumes "meta_save a sl = Inr st"
  shows "\<exists>p1 p2 p3 p4. output_file a ''stats'' ''train_acc.npy'' = Inr p1 \<and>
           output_file a ''stats'' ''test_acc.npy'' = Inr p2 \<and>
           output_file a ''stats'' ''b_hist.npy'' = Inr p3 \<and>
           output_file a ''stats'' ''reg_term_hist.npy'' = Inr p4 \<and>
           st = sl\<lparr>effects := effects sl @
                  [NpSave p1 (Arr1 (train_accuracy sl)), NpSave p2 (Arr1 (test_accuracy sl)),
                   NpSave p3 (Arr2 (b_hist sl)), NpSave p4 (Arr1 (reg_term_hist sl))]\<rparr>"
proof -
  from assms obtain s1 p3 p4 where s1: "train_save a sl = Inr s1"
    and p: "output_file a ''stats'' ''b_hist.npy'' = Inr p3"
      "output_file a ''stats'' ''reg_term_hist.npy'' = Inr p4"
    and st: "st = s1\<lparr>effects := effects s1 @
        [NpSave p3 (Arr2 (b_hist s1)), NpSave p4 (Arr1 (reg_term_hist s1))]\<rparr>"
    by (auto simp: meta_save_def ebind_eq_Inr)
  from train_save_spec [OF s1] obtain p1 p2 where
    q: "output_file a ''stats'' ''train_acc.npy'' = Inr p1"
       "output_file a ''stats'' ''test_acc.npy'' = Inr p2"
    and s1': "s1 = sl\<lparr>effects := effects sl @
        [NpSave p1 (Arr1 (train_accuracy sl)), NpSave p2 (Arr1 (test_accuracy sl))]\<rparr>"
    by (elim exE conjE)
  show ?thesis
    using q p by (simp add: st s1')
qed

lemma train_adv_eq_Inr:
  "train_adv E m trl tel a g = Inr st \<longleftrightarrow>
   (\<exists>T nf st0 n sl. train_setup E a m g = Inr (T, nf, st0) \<and>
      a ''num_epochs'' = Some (PyInt n) \<and>
      train_epochs E a T nf trl tel 0 (nat n) st0 = Inr sl \<and> train_save a sl = Inr st)"
  by (auto simp: train_adv_def ebind_eq_Inr getitem_eq_Inr py_range_eq_Inr)

lemma meta_train_adv_eq_Inr:
  "meta_train_adv E m trl vl tel a g = Inr st \<longleftrightarrow>
   (\<exists>T nf st0 n sl. meta_setup E a m vl g = Inr (T, nf, st0) \<and>
      a ''num_epochs'' = Some (PyInt n) \<and>
      meta_epochs E a T nf trl vl tel 0 (nat n) st0 = Inr sl \<and> meta_save a sl = Inr st)"
  by (auto simp: meta_train_adv_def ebind_eq_Inr getitem_eq_Inr py_range_eq_Inr)


subsection \<open>Runs that complete\<close>

lemma is_number_D: "is_number v \<Longrightarrow> \<exists>x r. v = Some x \<and> as_number x = Inr r"
  by (cases v) (auto simp: is_number_def as_number_def split: pyval.splits)

lemma output_file_any_name:
  "output_file a sub name = Inr p \<Longrightarrow> \<exists>q. output_file a sub name' = Inr q"
  by (auto simp: output_file_eq_Inr)

lemma common_config_okD:
  assumes "common_config_ok a"
  shows "\<exists>v. a ''lr'' = Some v" and "\<exists>v. a ''dataset'' = Some v" and "\<exists>v. a ''epsilon'' = Some v"
    and "\<exists>v w. a ''adv_loss_w'' = Some v \<and> as_number v = Inr w"
    and "\<exists>v x. a ''var_threshold'' = Some v \<and> as_number v = Inr x \<and> 0 < x"
    and "\<exists>n. a ''num_epochs'' = Some (PyInt n)"
    and "\<exists>q. output_file a ''models'' name = Inr q"
    and "\<exists>q. output_file a ''stats'' name = Inr q"
proof -
  from assms show "\<exists>v. a ''lr'' = Some v" "\<exists>v. a ''dataset'' = Some v" "\<exists>v. a ''epsilon'' = Some v"
    by (auto simp: common_config_ok_def)
  from assms have "is_number (a ''adv_loss_w'')" by (simp add: common_config_ok_def)
  then show "\<exists>v w. a ''adv_loss_w'' = Some v \<and> as_number v = Inr w" by (rule is_number_D)
  from assms show "\<exists>v x. a ''var_threshold'' = Some v \<and> as_number v = Inr x \<and> 0 < x"
    by (auto simp: common_config_ok_def split: option.splits sum.splits)
  from assms show "\<exists>n. a ''num_epochs'' = Some (PyInt n)"
    by (auto simp: common_config_ok_def split: option.splits pyval.splits)
  from assms obtain q where "output_file a ''models'' [] = Inr q"
    by (auto simp: common_config_ok_def split: sum.splits)
  then show "\<exists>q. output_file a ''models'' name = Inr q" by (rule output_file_any_name)
  from assms obtain q where "output_file a ''stats'' [] = Inr q"
    by (auto simp: common_config_ok_def split: sum.splits)
  then show "\<exists>q. output_file a ''stats'' name = Inr q" by (rule output_file_any_name)
qed

lemma select_epsilon_total: "a ''epsilon'' = Some ev \<Longrightarrow> \<exists>r. select_epsilon a g = Inr r"
  by (cases ev) (simp_all add: select_epsilon_def random_choice_def)

lemma perturb_total:
  assumes "common_config_ok a"
  shows "\<exists>r. perturb E a m g d t = Inr r"
proof -
  from common_config_okD(3) [OF assms] obtain ev where "a ''epsilon'' = Some ev" by blast
  then have "\<exists>r. select_epsilon a g = Inr r" by (rule select_epsilon_total)
  then obtain r where "select_epsilon a g = Inr r" by blast
  then show ?thesis by (simp add: perturb_def case_prod_beta)
qed

lemma train_loss_total:
  assumes "train_config_ok a"
  shows "\<exists>l. train_loss a adv clean pen = Inr l"
proof -
  from assms have c: "common_config_ok a" and r: "is_number (a ''reg_term'')"
    by (simp_all add: train_config_ok_def)
  from common_config_okD(4) [OF c] obtain wv w where "a ''adv_loss_w'' = Some wv" "as_number wv = Inr w"
    by blast
  moreover from is_number_D [OF r] obtain rv x where "a ''reg_term'' = Some rv" "as_number rv = Inr x"
    by blast
  ultimately show ?thesis by (simp add: train_loss_def)
qed

lemma loss_inner_total:
  assumes "common_config_ok a"
  shows "\<exists>l. loss_inner E a m adv clean pen = Inr l"
proof -
  from common_config_okD(4) [OF assms] obtain wv w where "a ''adv_loss_w'' = Some wv" "as_number wv = Inr w"
    by blast
  then show ?thesis by (simp add: loss_inner_def)
qed

lemma train_step_total:
  assumes "train_config_ok a"
  shows "\<exists>st'. train_step E a T nf st b = Inr st'"
proof -
  from assms have c: "common_config_ok a" by (simp add: train_config_ok_def)
  from perturb_total [OF c, where E = E and m = "model st" and g = "np_random st"
      and d = "fst b" and t = "snd b"]
  obtain r where r: "perturb E a (model st) (np_random st) (fst b) (snd b) = Inr r" by blast
  show ?thesis
    unfolding train_step_def case_prod_beta Let_def r ebind_Inr
    using train_loss_total [OF assms] by (auto simp: ebind_eq_Inr)
qed

lemma inner_step_total:
  assumes "common_config_ok a"
  shows "\<exists>st'. inner_step E a T nf st b = Inr st'"
proof -
  from perturb_total [OF assms, where E = E and m = "model st" and g = "np_random st"
      and d = "fst b" and t = "snd b"]
  obtain r where r: "perturb E a (model st) (np_random st) (fst b) (snd b) = Inr r" by blast
  show ?thesis
    unfolding inner_step_def case_prod_beta Let_def r ebind_Inr
    using loss_inner_total [OF assms] by (auto simp: ebind_eq_Inr)
qed

lemma outer_step_total:
  assumes "common_config_ok a"
  shows "\<exists>st'. outer_step E a T nf st b = Inr st'"
proof -
  from perturb_total [OF assms, where E = E and m = "model st" and g = "np_random st"
      and d = "fst b" and t = "snd b"]
  obtain r where r: "perturb E a (model st) (np_random st) (fst b) (snd b) = Inr r" by blast
  show ?thesis
    unfolding outer_step_def case_prod_beta Let_def r ebind_Inr loss_outer_eq_inner
    using loss_inner_total [OF assms] by (auto simp: ebind_eq_Inr)
qed

lemma next_val_batch_total: "vl \<noteq> [] \<Longrightarrow> \<exists>r. next_val_batch vl it = Inr r"
  by (cases it; cases vl) (simp_all add: next_val_batch_def next_iter_def)

lemma meta_step_total:
  assumes "common_config_ok a" and "vl \<noteq> []"
  shows "\<exists>st'. meta_step E a T nf vl st b = Inr st'"
proof -
  from inner_step_total [OF assms(1)] obtain s1 where s1: "inner_step E a T nf st b = Inr s1"
    by blast
  from next_val_batch_total [OF assms(2)] obtain r where r: "next_val_batch vl (val_iter s1) = Inr r"
    by blast
  from outer_step_total [OF assms(1)] show ?thesis
    by (simp add: meta_step_def s1 r case_prod_beta)
qed

lemma train_batches_total:
  assumes "train_config_ok a"
  shows "\<exists>st'. train_batches E a T nf st bs = Inr st'"
proof (induction bs arbitrary: st)
  case Nil
  then show ?case by simp
next
  case (Cons b bs)
  from train_step_total [OF assms] obtain s1 where "train_step E a T nf st b = Inr s1" by blast
  with Cons.IH [of s1] show ?case by simp
qed

lemma meta_batches_total:
  assumes "common_config_ok a" and "vl \<noteq> []"
  shows "\<exists>st'. meta_batches E a T nf vl st bs = Inr st'"
proof (induction bs arbitrary: st)
  case Nil
  then show ?case by simp
next
  case (Cons b bs)
  from meta_step_total [OF assms] obtain s1 where "meta_step E a T nf vl st b = Inr s1" by blast
  with Cons.IH [of s1] show ?case by simp
qed

lemma checkpoint_total:
  assumes "common_config_ok a" and "train_accuracy st \<noteq> []" and "test_accuracy st \<noteq> []"
  shows "\<exists>st'. checkpoint a e st = Inr st'"
proof -
  from common_config_okD(7) [OF assms(1)] obtain cp where cp: "output_file a ''models'' ''ckpt.pt'' = Inr cp"
    by blast
  from common_config_okD(7) [OF assms(1)] obtain bp where bp: "output_file a ''models'' ''ckpt_best.pt'' = Inr bp"
    by blast
  show ?thesis
    using assms(2,3) by (simp add: checkpoint_def save_best_def cp bp py_last_def)
qed

lemma train_epoch_total:
  assumes "train_config_ok a"
  shows "\<exists>st'. train_epoch E a T nf trl tel e st = Inr st'"
proof -
  from assms have c: "common_config_ok a" by (simp add: train_config_ok_def)
  from train_batches_total [OF assms] obtain s1 where s1: "train_batches E a T nf st trl = Inr s1"
    by blast
  have "\<exists>st'. checkpoint a e (record_accuracy E nf trl tel s1) = Inr st'"
    by (rule checkpoint_total [OF c]) (simp_all add: record_accuracy_train record_accuracy_test)
  then show ?thesis by (simp add: train_epoch_def s1)
qed

lemma meta_epoch_total:
  assumes "common_config_ok a" and "vl \<noteq> []"
  shows "\<exists>st'. meta_epoch E a T nf trl vl tel e st = Inr st'"
proof -
  from meta_batches_total [OF assms] obtain s1 where s1: "meta_batches E a T nf vl st trl = Inr s1"
    by blast
  have "\<exists>st'. checkpoint a e (record_snapshots E (record_accuracy E nf trl tel s1)) = Inr st'"
    by (rule checkpoint_total [OF assms(1)])
       (simp_all add: record_accuracy_train record_accuracy_test record_snapshots_fields)
  then show ?thesis by (simp add: meta_epoch_def s1)
qed

lemma train_epochs_total:
  assumes "train_config_ok a"
  shows "\<exists>st'. train_epochs E a T nf trl tel e k st = Inr st'"
proof (induction k arbitrary: e st)
  case 0
  then show ?case by simp
next
  case (Suc k)
  from train_epoch_total [OF assms] obtain s1 where "train_epoch E a T nf trl tel e st = Inr s1"
    by blast
  with Suc.IH [of "Suc e" s1] show ?case by simp
qed

lemma meta_epochs_total:
  assumes "common_config_ok a" and "vl \<noteq> []"
  shows "\<exists>st'. meta_epochs E a T nf trl vl tel e k st = Inr st'"
proof (induction k arbitrary: e st)
  case 0
  then show ?case by simp
next
  case (Suc k)
  from meta_epoch_total [OF assms] obtain s1 where "meta_epoch E a T nf trl vl tel e st = Inr s1"
    by blast
  with Suc.IH [of "Suc e" s1] show ?case by simp
qed

lemma threshold_total:
  assumes "common_config_ok a"
  shows "\<exists>T. noise_entropy_threshold a = Inr T"
proof -
  from common_config_okD(5) [OF assms] obtain v x where
    "a ''var_threshold'' = Some v" "as_number v = Inr x" "0 < x" by blast
  then show ?thesis by (simp add: noise_entropy_threshold_eq)
qed

lemma select_norm_total:
  assumes "common_config_ok a"
  shows "\<exists>nf. select_norm E a = Inr nf"
proof -
  from common_config_okD(2) [OF assms] obtain d where "a ''dataset'' = Some d" by blast
  then show ?thesis by (simp add: select_norm_def)
qed

lemma train_setup_total:
  assumes "common_config_ok a"
  shows "\<exists>T nf st0. train_setup E a m g = Inr (T, nf, st0)"
proof -
  from common_config_okD(1) [OF assms] obtain v where "a ''lr'' = Some v" by blast
  moreover from select_norm_total [OF assms] obtain nf where "select_norm E a = Inr nf" by blast
  moreover from threshold_total [OF assms] obtain T where "noise_entropy_threshold a = Inr T" by blast
  ultimately show ?thesis by (simp add: train_setup_def)
qed

lemma meta_setup_total:
  assumes "meta_config_ok a"
  shows "\<exists>T nf st0. meta_setup E a m vl g = Inr (T, nf, st0)"
proof -
  from assms have c: "common_config_ok a" and "a ''meta_lr'' \<noteq> None"
    by (simp_all add: meta_config_ok_def)
  then obtain mv where "a ''meta_lr'' = Some mv" by auto
  moreover from common_config_okD(1) [OF c] obtain v where "a ''lr'' = Some v" by blast
  moreover from select_norm_total [OF c] obtain nf where "select_norm E a = Inr nf" by blast
  moreover from threshold_total [OF c] obtain T where "noise_entropy_threshold a = Inr T" by blast
  ultimately show ?thesis by (simp add: meta_setup_def)
qed

lemma train_save_total:
  assumes "common_config_ok a"
  shows "\<exists>st'. train_save a st = Inr st'"
proof -
  from common_config_okD(8) [OF assms] obtain p1 where "output_file a ''stats'' ''train_acc.npy'' = Inr p1"
    by blast
  moreover from common_config_okD(8) [OF assms] obtain p2 where "output_file a ''stats'' ''test_acc.npy'' = Inr p2"
    by blast
  ultimately show ?thesis by (simp add: train_save_def)
qed

lemma meta_save_total:
  assumes "common_config_ok a"
  shows "\<exists>st'. meta_save a st = Inr st'"
proof -
  from train_save_total [OF assms] obtain s1 where "train_save a st = Inr s1" by blast
  moreover from common_config_okD(8) [OF assms] obtain p3 where "output_file a ''stats'' ''b_hist.npy'' = Inr p3"
    by blast
  moreover from common_config_okD(8) [OF assms] obtain p4 where "output_file a ''stats'' ''reg_term_hist.npy'' = Inr p4"
    by blast
  ultimately show ?thesis by (simp add: meta_save_def)
qed

lemma train_adv_total:
  assumes "train_config_ok a"
  shows "\<exists>st. train_adv E m trl tel a g = Inr st"
proof -
  from assms have c: "common_config_ok a" by (simp add: train_config_ok_def)
  from train_setup_total [OF c] obtain T nf st0 where s: "train_setup E a m g = Inr (T, nf, st0)"
    by blast
  from common_config_okD(6) [OF c] obtain n where n: "a ''num_epochs'' = Some (PyInt n)" by blast
  from train_epochs_total [OF assms] obtain sl
    where l: "train_epochs E a T nf trl tel 0 (nat n) st0 = Inr sl" by blast
  from train_save_total [OF c] obtain st where "train_save a sl = Inr st" by blast
  with s n l show ?thesis by (auto simp: train_adv_eq_Inr)
qed

lemma meta_train_adv_total:
  assumes "meta_config_ok a" and "vl \<noteq> []"
  shows "\<exists>st. meta_train_adv E m trl vl tel a g = Inr st"
proof -
  from assms have c: "common_config_ok a" by (simp add: meta_config_ok_def)
  from meta_setup_total [OF assms(1)] obtain T nf st0
    where s: "meta_setup E a m vl g = Inr (T, nf, st0)" by blast
  from common_config_okD(6) [OF c] obtain n where n: "a ''num_epochs'' = Some (PyInt n)" by blast
  from meta_epochs_total [OF c assms(2)] obtain sl
    where l: "meta_epochs E a T nf trl vl tel 0 (nat n) st0 = Inr sl" by blast
  from meta_save_total [OF c] obtain st where "meta_save a sl = Inr st" by blast
  with s n l show ?thesis by (auto simp: meta_train_adv_eq_Inr)
qed


subsection \<open>Normalization, at the level of the steps\<close>











subsection \<open>Witnesses on the concrete run\<close>

lemma toy_common_config_ok: "common_config_ok toy_args"
  by (simp add: common_config_ok_def toy_args_def is_number_def as_number_def output_file_def
      getitem_def subscript_def)

lemma toy_train_config_ok: "train_config_ok toy_args"
  by (simp add: train_config_ok_def toy_common_config_ok)
     (simp add: toy_args_def is_number_def as_number_def)

lemma toy_meta_config_ok: "meta_config_ok toy_args"
  by (simp add: meta_config_ok_def toy_common_config_ok) (simp add: toy_args_def)

text \<open>
  The three branches of the selection on the concrete configuration: a float, the string
  \<^verbatim>\<open>'rand'\<close> with a generator whose first draw is 0, and \<^verbatim>\<open>None\<close>.
\<close>

theorem C4_epsilon_selection_witness:
  "select_epsilon toy_args toy_rng = Inr (Some (1 / 10), toy_rng) \<and>
   map_sum id fst (select_epsilon (toy_args(''epsilon'' \<mapsto> PyStr ''rand'')) toy_rng) =
     Inr (Some (8 / 255)) \<and>
   select_epsilon (toy_args(''epsilon'' \<mapsto> PyNone)) toy_rng = Inr (None, toy_rng)"
proof -
  have e1: "toy_args ''epsilon'' = Some (PyFloat (1 / 10))" by (simp add: toy_args_def)
  have e2: "(toy_args(''epsilon'' \<mapsto> PyStr ''rand'')) ''epsilon'' = Some (PyStr ''rand'')" by simp
  have e3: "(toy_args(''epsilon'' \<mapsto> PyNone)) ''epsilon'' = Some PyNone" by simp
  have d: "\<forall>x. PyNone \<noteq> PyFloat x" "PyNone \<noteq> PyStr ''rand''" by simp_all
  note t1 = C4_epsilon_selection [of toy_args toy_rng, THEN conjunct1, rule_format]
  note t2 = C4_epsilon_selection [of "toy_args(''epsilon'' \<mapsto> PyStr ''rand'')" toy_rng,
      THEN conjunct2, THEN conjunct1, rule_format, THEN conjunct1]
  note t3 = C4_epsilon_selection [of "toy_args(''epsilon'' \<mapsto> PyNone)" toy_rng,
      THEN conjunct2, THEN conjunct2, THEN conjunct2, THEN conjunct1, rule_format]
  have a: "select_epsilon toy_args toy_rng = Inr (Some (1 / 10), toy_rng)"
    using e1 by (rule t1)
  have "select_epsilon (toy_args(''epsilon'' \<mapsto> PyStr ''rand'')) toy_rng =
      Inr (Some (eps_choices ! (toy_rng 0 mod 5)), (\<lambda>i. toy_rng (Suc i)))"
    using e2 by (rule t2)
  then have b: "map_sum id fst (select_epsilon (toy_args(''epsilon'' \<mapsto> PyStr ''rand'')) toy_rng) =
      Inr (Some (8 / 255))" by (simp add: toy_rng_def eps_choices_def)
  have c: "select_epsilon (toy_args(''epsilon'' \<mapsto> PyNone)) toy_rng = Inr (None, toy_rng)"
    by (rule t3 [OF e3]) simp_all
  from a b c show ?thesis by (intro conjI)
qed

text \<open>
  Claim C4 as stated fails where \<^verbatim>\<open>args['epsilon']\<close> is the int 1: it is a fixed
  numeric value, \<^verbatim>\<open>isinstance(1, float)\<close> is false, and the attack is called without
  \<^verbatim>\<open>epsilon\<close>, not with 1.
\<close>

theorem C4_int_epsilon_counterexample:
  "(toy_args(''epsilon'' \<mapsto> PyInt 1)) ''epsilon'' = Some (PyInt 1) \<and>
   as_number (PyInt 1) = Inr 1 \<and>
   select_epsilon (toy_args(''epsilon'' \<mapsto> PyInt 1)) toy_rng = Inr (None, toy_rng) \<and>
   select_epsilon (toy_args(''epsilon'' \<mapsto> PyInt 1)) toy_rng \<noteq> Inr (Some 1, toy_rng)"
  by (simp add: select_epsilon_def as_number_def)







lemma toy_partitioned: "partitioned toy_env"
  by (simp add: partitioned_def toy_env_def)

lemma meta_setup_optimizers:
  assumes "meta_setup E a m vl g = Inr (T, nf, st0)"
  shows "\<exists>v mv. a ''lr'' = Some v \<and> a ''meta_lr'' = Some mv \<and>
           optim_inner st0 = Adam E (inner_groups E) v \<and>
           optim_outer st0 = Adam E (outer_groups E) mv"
  using assms by (auto simp: meta_setup_def ebind_eq_Inr getitem_eq_Inr)

lemma toy_inner_step_changes:
  "pdata (fst (step toy_env (Adam toy_env (inner_groups toy_env) v)
      (backward (loss_func toy_env 1 0) toy_model))) 0 = 7 / 8"
  by (simp add: step_def Adam_def inner_groups_def update_param_def backward_def
      toy_env_def toy_model_def)

text \<open>
  On the concrete model, after a backward pass that gives every parameter a gradient: the
  inner scope is 0, 1, 2, 4 and the outer scope is 3, 5; an inner step moves parameter 0 and
  leaves parameter 3, an outer step leaves parameter 0.
\<close>

theorem C2_optimizer_scopes_witness:
  "partitioned toy_env \<and>
   (\<exists>T nf st0. meta_setup toy_env toy_args toy_model toy_val toy_rng = Inr (T, nf, st0) \<and>
      set (concat (param_groups (optim_inner st0))) = {0, 1, 2, 4} \<and>
      set (concat (param_groups (optim_outer st0))) = {3, 5} \<and>
      pdata (fst (step toy_env (optim_inner st0)
        (backward (loss_func toy_env 1 0) toy_model))) 0 = 7 / 8 \<and>
      pdata (fst (step toy_env (optim_inner st0)
        (backward (loss_func toy_env 1 0) toy_model))) 3 = 1 \<and>
      pdata (fst (step toy_env (optim_outer st0)
        (backward (loss_func toy_env 1 0) toy_model))) 0 = 1)"
proof -
  from meta_setup_total [OF toy_meta_config_ok, of toy_env toy_model toy_val toy_rng]
  obtain T nf st0 where s: "meta_setup toy_env toy_args toy_model toy_val toy_rng = Inr (T, nf, st0)"
    by (elim exE)
  note t = C2_optimizer_scopes [OF toy_partitioned s]
  let ?m = "backward (loss_func toy_env 1 0) toy_model"
  have i: "set (concat (param_groups (optim_inner st0))) = {0, 1, 2, 4}"
    using t [THEN conjunct1] by (auto simp: toy_env_def)
  have o: "set (concat (param_groups (optim_outer st0))) = {3, 5}"
    using t [THEN conjunct2, THEN conjunct1] by (auto simp: toy_env_def)
  have m0: "pdata ?m q = 1" for q by (simp add: backward_def toy_model_def)
  have u: "opt\<lparr>ostate := ostate opt\<rparr> = opt" for opt :: "unit optimizer" by simp
  have m3: "3 \<in> set (concat (param_groups (optim_outer st0)))" unfolding o by simp
  have m4: "0 \<in> set (concat (param_groups (optim_inner st0)))" unfolding i by simp
  have "pdata (fst (step toy_env ((optim_inner st0)\<lparr>ostate := ostate (optim_inner st0)\<rparr>) ?m)) 3 =
      pdata ?m 3"
    by (rule t [THEN conjunct2, THEN conjunct2, THEN conjunct2, THEN conjunct1, rule_format])
       (rule m3)
  then have f1: "pdata (fst (step toy_env (optim_inner st0) ?m)) 3 = 1" by (simp only: m0 u)
  have "pdata (fst (step toy_env ((optim_outer st0)\<lparr>ostate := ostate (optim_outer st0)\<rparr>) ?m)) 0 =
      pdata ?m 0"
    by (rule t [THEN conjunct2, THEN conjunct2, THEN conjunct2, THEN conjunct2, rule_format])
       (rule m4)
  then have f2: "pdata (fst (step toy_env (optim_outer st0) ?m)) 0 = 1" by (simp only: m0 u)
  from meta_setup_optimizers [OF s] obtain v where "optim_inner st0 = Adam toy_env (inner_groups toy_env) v"
    by (elim exE conjE)
  then have c: "pdata (fst (step toy_env (optim_inner st0) ?m)) 0 = 7 / 8"
    by (simp only: toy_inner_step_changes)
  from toy_partitioned s i o c f1 f2 show ?thesis by blast
qed


subsection \<open>Completed runs\<close>

lemma train_epochs_best_path:
  assumes "train_epochs E a T nf trl tel e (Suc k) st = Inr st'"
  shows "\<exists>bp. output_file a ''models'' ''ckpt_best.pt'' = Inr bp"
proof -
  from assms obtain s1 s2 where "train_batches E a T nf st trl = Inr s1"
    and c: "checkpoint a e (record_accuracy E nf trl tel s1) = Inr s2"
    by (auto simp: ebind_eq_Inr train_epoch_def)
  from checkpoint_spec [OF c] obtain cp where "output_file a ''models'' ''ckpt.pt'' = Inr cp"
    by (elim exE conjE)
  then show ?thesis by (rule output_file_any_name)
qed

lemma meta_epochs_best_path:
  assumes "meta_epochs E a T nf trl vl tel e (Suc k) st = Inr st'"
  shows "\<exists>bp. output_file a ''models'' ''ckpt_best.pt'' = Inr bp"
proof -
  from assms obtain s1 s2 where "meta_batches E a T nf vl st trl = Inr s1"
    and c: "checkpoint a e (record_snapshots E (record_accuracy E nf trl tel s1)) = Inr s2"
    by (auto simp: ebind_eq_Inr meta_epoch_def)
  from checkpoint_spec [OF c] obtain cp where "output_file a ''models'' ''ckpt.pt'' = Inr cp"
    by (elim exE conjE)
  then show ?thesis by (rule output_file_any_name)
qed

lemma train_epochs_none:
  "train_epochs E a T nf trl tel e 0 st = Inr st' \<longleftrightarrow> st' = st"
  by auto

lemma meta_epochs_none:
  "meta_epochs E a T nf trl vl tel e 0 st = Inr st' \<longleftrightarrow> st' = st"
  by auto

lemma train_loop_run:
  assumes s: "train_setup E a m g = Inr (T, nf, st0)"
    and l: "train_epochs E a T nf trl tel 0 k st0 = Inr sl"
  shows "length (train_accuracy sl) = k \<and> length (test_accuracy sl) = k \<and>
         (\<forall>x \<in> set (test_accuracy sl). \<exists>m2. x = fst (accuracy E m2 tel nf)) \<and>
         best_test_acc sl = fold max (test_accuracy sl) (- 1) \<and>
         (\<forall>bp i. output_file a ''models'' ''ckpt_best.pt'' = Inr bp \<longrightarrow>
            ((\<exists>sd. TorchSave i bp sd \<in> set (effects sl)) \<longleftrightarrow>
             i < k \<and> fold max (take i (test_accuracy sl)) (- 1) < test_accuracy sl ! i))"
proof (cases k)
  case 0
  with l have "sl = st0" by simp
  with 0 train_setup_init [OF s] show ?thesis by simp
next
  case (Suc k')
  with l obtain bp where bp: "output_file a ''models'' ''ckpt_best.pt'' = Inr bp"
    using train_epochs_best_path by blast
  note i = train_setup_init [OF s]
  from train_epochs_spec [OF bp l] obtain trs tes where
    e: "length trs = k" "length tes = k"
       "train_accuracy sl = train_accuracy st0 @ trs"
       "test_accuracy sl = test_accuracy st0 @ tes"
       "best_test_acc sl = fold max tes (best_test_acc st0)"
    and p: "\<forall>x \<in> set tes. \<exists>m2. x = fst (accuracy E m2 tel nf)"
    and w: "\<And>i. (\<exists>sd. TorchSave i bp sd \<in> set (effects sl)) \<longleftrightarrow>
              (\<exists>sd. TorchSave i bp sd \<in> set (effects st0)) \<or>
              (0 \<le> i \<and> i < 0 + k \<and>
               fold max (take (i - 0) tes) (best_test_acc st0) < tes ! (i - 0))"
    by (elim exE conjE) (rule that; blast)
  have tr: "train_accuracy sl = trs" and te: "test_accuracy sl = tes"
    and b: "best_test_acc sl = fold max tes (- 1)"
    using e i by simp_all
  have w': "(\<exists>sd. TorchSave j bp sd \<in> set (effects sl)) \<longleftrightarrow>
        j < k \<and> fold max (take j tes) (- 1) < tes ! j" for j
    using w [of j] i by simp
  show ?thesis
    unfolding tr te b using e(1,2) p w' bp by auto
qed

lemma meta_loop_run:
  assumes s: "meta_setup E a m vl g = Inr (T, nf, st0)"
    and l: "meta_epochs E a T nf trl vl tel 0 k st0 = Inr sl"
  shows "length (train_accuracy sl) = k \<and> length (test_accuracy sl) = k \<and>
         length (b_hist sl) = k \<and> length (reg_term_hist sl) = k \<and>
         (\<forall>x \<in> set (test_accuracy sl). \<exists>m2. x = fst (accuracy E m2 tel nf)) \<and>
         best_test_acc sl = fold max (test_accuracy sl) (- 1) \<and>
         (\<forall>bp i. output_file a ''models'' ''ckpt_best.pt'' = Inr bp \<longrightarrow>
            ((\<exists>sd. TorchSave i bp sd \<in> set (effects sl)) \<longleftrightarrow>
             i < k \<and> fold max (take i (test_accuracy sl)) (- 1) < test_accuracy sl ! i))"
proof (cases k)
  case 0
  with l have "sl = st0" by simp
  with 0 meta_setup_init [OF s] show ?thesis by simp
next
  case (Suc k')
  with l obtain bp where bp: "output_file a ''models'' ''ckpt_best.pt'' = Inr bp"
    using meta_epochs_best_path by blast
  note i = meta_setup_init [OF s]
  from meta_epochs_spec [OF bp l] obtain trs tes bvs rs where
    e: "length trs = k" "length tes = k" "length bvs = k" "length rs = k"
       "train_accuracy sl = train_accuracy st0 @ trs"
       "test_accuracy sl = test_accuracy st0 @ tes"
       "b_hist sl = b_hist st0 @ bvs"
       "reg_term_hist sl = reg_term_hist st0 @ rs"
       "best_test_acc sl = fold max tes (best_test_acc st0)"
    and p: "\<forall>x \<in> set tes. \<exists>m2. x = fst (accuracy E m2 tel nf)"
    and w: "\<And>i. (\<exists>sd. TorchSave i bp sd \<in> set (effects sl)) \<longleftrightarrow>
              (\<exists>sd. TorchSave i bp sd \<in> set (effects st0)) \<or>
              (0 \<le> i \<and> i < 0 + k \<and>
               fold max (take (i - 0) tes) (best_test_acc st0) < tes ! (i - 0))"
    by (elim exE conjE) (rule that; blast)
  have tr: "train_accuracy sl = trs" and te: "test_accuracy sl = tes"
    and bh: "b_hist sl = bvs" and rh: "reg_term_hist sl = rs"
    and b: "best_test_acc sl = fold max tes (- 1)"
    using e i by simp_all
  have w': "(\<exists>sd. TorchSave j bp sd \<in> set (effects sl)) \<longleftrightarrow>
        j < k \<and> fold max (take j tes) (- 1) < tes ! j" for j
    using w [of j] i by simp
  show ?thesis
    unfolding tr te bh rh b using e(1-4) p w' bp by auto
qed


lemma set_take_nth: "i \<le> length xs \<Longrightarrow> set (take i xs) = {xs ! j | j. j < i}"
proof (intro set_eqI iffI)
  fix x assume i: "i \<le> length xs" and "x \<in> set (take i xs)"
  then obtain j where "j < length (take i xs)" and "take i xs ! j = x"
    unfolding in_set_conv_nth by (elim exE conjE)
  then have "j < i" and "x = xs ! j" using i by simp_all
  then show "x \<in> {xs ! j | j. j < i}" by blast
next
  fix x assume i: "i \<le> length xs" and "x \<in> {xs ! j | j. j < i}"
  then obtain j where j: "j < i" and x: "x = xs ! j" by blast
  from j i have "j < length (take i xs)" and "take i xs ! j = x" by (simp_all add: x)
  then show "x \<in> set (take i xs)" unfolding in_set_conv_nth by blast
qed

lemma new_max_iff:
  fixes xs :: "real list"
  assumes "i < length xs" and "\<forall>x \<in> set xs. - 1 < x"
  shows "fold max (take i xs) (- 1) < xs ! i \<longleftrightarrow> (\<forall>j < i. xs ! j < xs ! i)"
proof -
  from assms have "- 1 < xs ! i" by simp
  moreover have "set (take i xs) = {xs ! j | j. j < i}"
    using assms(1) by (intro set_take_nth) simp
  ultimately show ?thesis by (auto simp: fold_max_less)
qed

lemma best_written_chars:
  fixes xs :: "real list"
  assumes key: "\<And>i. W i \<longleftrightarrow> i < length xs \<and> fold max (take i xs) (- 1) < xs ! i"
  shows "(\<forall>e. W e \<longrightarrow> e < length xs) \<and>
         (\<forall>e < length xs. W e \<longleftrightarrow> fold max (take e xs) (- 1) < xs ! e) \<and>
         ((\<forall>x \<in> set xs. - 1 < x) \<longrightarrow>
            (\<forall>e < length xs. W e \<longleftrightarrow> (\<forall>j < e. xs ! j < xs ! e)))"
proof (intro conjI allI impI)
  fix e assume "W e"
  then show "e < length xs" by (simp add: key)
next
  fix e assume "e < length xs"
  then show "W e \<longleftrightarrow> fold max (take e xs) (- 1) < xs ! e" by (simp add: key)
next
  fix e assume c: "\<forall>x \<in> set xs. - 1 < x" and e: "e < length xs"
  from new_max_iff [OF e c] e show "W e \<longleftrightarrow> (\<forall>j < e. xs ! j < xs ! e)" by (simp add: key)
qed

lemma train_adv_run:
  assumes "train_adv E m trl tel a g = Inr st"
  obtains T nf st0 n sl p1 p2 where "train_setup E a m g = Inr (T, nf, st0)"
    and "a ''num_epochs'' = Some (PyInt n)"
    and "train_epochs E a T nf trl tel 0 (nat n) st0 = Inr sl"
    and "output_file a ''stats'' ''train_acc.npy'' = Inr p1"
    and "output_file a ''stats'' ''test_acc.npy'' = Inr p2"
    and "st = sl\<lparr>effects := effects sl @
        [NpSave p1 (Arr1 (train_accuracy sl)), NpSave p2 (Arr1 (test_accuracy sl))]\<rparr>"
proof -
  from assms obtain T nf st0 n sl where s: "train_setup E a m g = Inr (T, nf, st0)"
    and n: "a ''num_epochs'' = Some (PyInt n)"
    and l: "train_epochs E a T nf trl tel 0 (nat n) st0 = Inr sl"
    and f: "train_save a sl = Inr st"
    unfolding train_adv_eq_Inr by (elim exE conjE)
  from train_save_spec [OF f] obtain p1 p2 where
    "output_file a ''stats'' ''train_acc.npy'' = Inr p1"
    "output_file a ''stats'' ''test_acc.npy'' = Inr p2"
    "st = sl\<lparr>effects := effects sl @
        [NpSave p1 (Arr1 (train_accuracy sl)), NpSave p2 (Arr1 (test_accuracy sl))]\<rparr>"
    by (elim exE conjE)
  with s n l show ?thesis by (rule that)
qed

lemma meta_train_adv_run:
  assumes "meta_train_adv E m trl vl tel a g = Inr st"
  obtains T nf st0 n sl p1 p2 p3 p4 where "meta_setup E a m vl g = Inr (T, nf, st0)"
    and "a ''num_epochs'' = Some (PyInt n)"
    and "meta_epochs E a T nf trl vl tel 0 (nat n) st0 = Inr sl"
    and "output_file a ''stats'' ''train_acc.npy'' = Inr p1"
    and "output_file a ''stats'' ''test_acc.npy'' = Inr p2"
    and "output_file a ''stats'' ''b_hist.npy'' = Inr p3"
    and "output_file a ''stats'' ''reg_term_hist.npy'' = Inr p4"
    and "st = sl\<lparr>effects := effects sl @
        [NpSave p1 (Arr1 (train_accuracy sl)), NpSave p2 (Arr1 (test_accuracy sl)),
         NpSave p3 (Arr2 (b_hist sl)), NpSave p4 (Arr1 (reg_term_hist sl))]\<rparr>"
proof -
  from assms obtain T nf st0 n sl where s: "meta_setup E a m vl g = Inr (T, nf, st0)"
    and n: "a ''num_epochs'' = Some (PyInt n)"
    and l: "meta_epochs E a T nf trl vl tel 0 (nat n) st0 = Inr sl"
    and f: "meta_save a sl = Inr st"
    unfolding meta_train_adv_eq_Inr by (elim exE conjE)
  from meta_save_spec [OF f] obtain p1 p2 p3 p4 where
    "output_file a ''stats'' ''train_acc.npy'' = Inr p1"
    "output_file a ''stats'' ''test_acc.npy'' = Inr p2"
    "output_file a ''stats'' ''b_hist.npy'' = Inr p3"
    "output_file a ''stats'' ''reg_term_hist.npy'' = Inr p4"
    "st = sl\<lparr>effects := effects sl @
        [NpSave p1 (Arr1 (train_accuracy sl)), NpSave p2 (Arr1 (test_accuracy sl)),
         NpSave p3 (Arr2 (b_hist sl)), NpSave p4 (Arr1 (reg_term_hist sl))]\<rparr>"
    by (elim exE conjE)
  with s n l show ?thesis by (rule that)
qed

lemma train_adv_histories:
  assumes "train_adv E m trl tel a g = Inr st"
  shows "\<exists>n p1 p2. a ''num_epochs'' = Some (PyInt n) \<and>
           length (train_accuracy st) = nat n \<and> length (test_accuracy st) = nat n \<and>
           output_file a ''stats'' ''train_acc.npy'' = Inr p1 \<and>
           output_file a ''stats'' ''test_acc.npy'' = Inr p2 \<and>
           NpSave p1 (Arr1 (train_accuracy st)) \<in> set (effects st) \<and>
           NpSave p2 (Arr1 (test_accuracy st)) \<in> set (effects st)"
proof -
  from assms obtain T nf st0 n sl p1 p2 where s: "train_setup E a m g = Inr (T, nf, st0)"
    and n: "a ''num_epochs'' = Some (PyInt n)"
    and l: "train_epochs E a T nf trl tel 0 (nat n) st0 = Inr sl"
    and p: "output_file a ''stats'' ''train_acc.npy'' = Inr p1"
           "output_file a ''stats'' ''test_acc.npy'' = Inr p2"
    and st: "st = sl\<lparr>effects := effects sl @
        [NpSave p1 (Arr1 (train_accuracy sl)), NpSave p2 (Arr1 (test_accuracy sl))]\<rparr>"
    by (rule train_adv_run)
  from train_loop_run [OF s l]
  have len: "length (train_accuracy sl) = nat n" "length (test_accuracy sl) = nat n"
    by simp_all
  show ?thesis
    using n len p by (intro exI [of _ n] exI [of _ p1] exI [of _ p2]) (simp add: st)
qed

lemma meta_train_adv_histories:
  assumes "meta_train_adv E m trl vl tel a g = Inr st"
  shows "\<exists>n p1 p2 p3 p4. a ''num_epochs'' = Some (PyInt n) \<and>
           length (train_accuracy st) = nat n \<and> length (test_accuracy st) = nat n \<and>
           length (b_hist st) = nat n \<and> length (reg_term_hist st) = nat n \<and>
           output_file a ''stats'' ''train_acc.npy'' = Inr p1 \<and>
           output_file a ''stats'' ''test_acc.npy'' = Inr p2 \<and>
           output_file a ''stats'' ''b_hist.npy'' = Inr p3 \<and>
           output_file a ''stats'' ''reg_term_hist.npy'' = Inr p4 \<and>
           NpSave p1 (Arr1 (train_accuracy st)) \<in> set (effects st) \<and>
           NpSave p2 (Arr1 (test_accuracy st)) \<in> set (effects st) \<and>
           NpSave p3 (Arr2 (b_hist st)) \<in> set (effects st) \<and>
           NpSave p4 (Arr1 (reg_term_hist st)) \<in> set (effects st)"
proof -
  from assms obtain T nf st0 n sl p1 p2 p3 p4 where s: "meta_setup E a m vl g = Inr (T, nf, st0)"
    and n: "a ''num_epochs'' = Some (PyInt n)"
    and l: "meta_epochs E a T nf trl vl tel 0 (nat n) st0 = Inr sl"
    and p: "output_file a ''stats'' ''train_acc.npy'' = Inr p1"
           "output_file a ''stats'' ''test_acc.npy'' = Inr p2"
           "output_file a ''stats'' ''b_hist.npy'' = Inr p3"
           "output_file a ''stats'' ''reg_term_hist.npy'' = Inr p4"
    and st: "st = sl\<lparr>effects := effects sl @
        [NpSave p1 (Arr1 (train_accuracy sl)), NpSave p2 (Arr1 (test_accuracy sl)),
         NpSave p3 (Arr2 (b_hist sl)), NpSave p4 (Arr1 (reg_term_hist sl))]\<rparr>"
    by (rule meta_train_adv_run)
  from meta_loop_run [OF s l]
  have len: "length (train_accuracy sl) = nat n" "length (test_accuracy sl) = nat n"
    "length (b_hist sl) = nat n" "length (reg_term_hist sl) = nat n"
    by simp_all
  show ?thesis
    using n len p
    by (intro exI [of _ n] exI [of _ p1] exI [of _ p2] exI [of _ p3] exI [of _ p4])
       (simp add: st)
qed

text \<open>
  Claim C7. When the standard trainer returns, \<^verbatim>\<open>args['num_epochs']\<close> is an int \<open>n\<close>, the
  histories of the train and of the test accuracy each have \<open>n\<close> entries (none when \<open>n\<close> is
  negative), and they are the arrays saved to \<^verbatim>\<open>train_acc.npy\<close> and \<^verbatim>\<open>test_acc.npy\<close>. When the
  meta trainer returns, the same holds, and the histories of the bias-head snapshots and of
  the regularization-term snapshots also each have \<open>n\<close> entries and are the arrays saved to
  \<^verbatim>\<open>b_hist.npy\<close> and \<^verbatim>\<open>reg_term_hist.npy\<close>.
\<close>

theorem C7_history_lengths:
  "(train_adv E m trl tel a g = Inr st \<longrightarrow>
      (\<exists>n p1 p2. a ''num_epochs'' = Some (PyInt n) \<and>
         length (train_accuracy st) = nat n \<and> length (test_accuracy st) = nat n \<and>
         output_file a ''stats'' ''train_acc.npy'' = Inr p1 \<and>
         output_file a ''stats'' ''test_acc.npy'' = Inr p2 \<and>
         NpSave p1 (Arr1 (train_accuracy st)) \<in> set (effects st) \<and>
         NpSave p2 (Arr1 (test_accuracy st)) \<in> set (effects st))) \<and>
   (meta_train_adv E m trl vl tel a g = Inr mst \<longrightarrow>
      (\<exists>n p1 p2 p3 p4. a ''num_epochs'' = Some (PyInt n) \<and>
         length (train_accuracy mst) = nat n \<and> length (test_accuracy mst) = nat n \<and>
         length (b_hist mst) = nat n \<and> length (reg_term_hist mst) = nat n \<and>
         output_file a ''stats'' ''train_acc.npy'' = Inr p1 \<and>
         output_file a ''stats'' ''test_acc.npy'' = Inr p2 \<and>
         output_file a ''stats'' ''b_hist.npy'' = Inr p3 \<and>
         output_file a ''stats'' ''reg_term_hist.npy'' = Inr p4 \<and>
         NpSave p1 (Arr1 (train_accuracy mst)) \<in> set (effects mst) \<and>
         NpSave p2 (Arr1 (test_accuracy mst)) \<in> set (effects mst) \<and>
         NpSave p3 (Arr2 (b_hist mst)) \<in> set (effects mst) \<and>
         NpSave p4 (Arr1 (reg_term_hist mst)) \<in> set (effects mst)))"
  by (intro conjI impI train_adv_histories meta_train_adv_histories)



subsection \<open>The best checkpoint\<close>

lemma train_adv_best:
  assumes r: "train_adv E m trl tel a g = Inr st"
    and bp: "output_file a ''models'' ''ckpt_best.pt'' = Inr bp"
  shows "best_test_acc st = fold max (test_accuracy st) (- 1) \<and>
         (\<forall>e. (\<exists>sd. TorchSave e bp sd \<in> set (effects st)) \<longrightarrow> e < length (test_accuracy st)) \<and>
         (\<forall>e < length (test_accuracy st).
            (\<exists>sd. TorchSave e bp sd \<in> set (effects st)) \<longleftrightarrow>
            fold max (take e (test_accuracy st)) (- 1) < test_accuracy st ! e) \<and>
         ((\<forall>m2 nf. - 1 < fst (accuracy E m2 tel nf)) \<longrightarrow>
            (\<forall>e < length (test_accuracy st).
               (\<exists>sd. TorchSave e bp sd \<in> set (effects st)) \<longleftrightarrow>
               (\<forall>j < e. test_accuracy st ! j < test_accuracy st ! e)))"
proof -
  from r obtain T nf st0 n sl p1 p2 where s: "train_setup E a m g = Inr (T, nf, st0)"
    and l: "train_epochs E a T nf trl tel 0 (nat n) st0 = Inr sl"
    and st: "st = sl\<lparr>effects := effects sl @
        [NpSave p1 (Arr1 (train_accuracy sl)), NpSave p2 (Arr1 (test_accuracy sl))]\<rparr>"
    by (rule train_adv_run)
  note run = train_loop_run [OF s l]
  have len: "length (test_accuracy sl) = nat n" using run by simp
  have b: "best_test_acc sl = fold max (test_accuracy sl) (- 1)" using run by simp
  have rng: "\<forall>x \<in> set (test_accuracy sl). \<exists>m2. x = fst (accuracy E m2 tel nf)"
    using run by simp
  have w: "(\<exists>sd. TorchSave i bp sd \<in> set (effects sl)) \<longleftrightarrow>
           i < nat n \<and> fold max (take i (test_accuracy sl)) (- 1) < test_accuracy sl ! i" for i
    using run bp by simp
  have key: "(\<exists>sd. TorchSave i bp sd \<in> set (effects st)) \<longleftrightarrow>
        i < length (test_accuracy st) \<and>
        fold max (take i (test_accuracy st)) (- 1) < test_accuracy st ! i" for i
    using w [of i] by (simp add: st len)
  note ch = best_written_chars [of "\<lambda>i. \<exists>sd. TorchSave i bp sd \<in> set (effects st)"
      "test_accuracy st", OF key]
  have c: "\<forall>x \<in> set (test_accuracy st). - 1 < x" if "\<forall>m2 nf. - 1 < fst (accuracy E m2 tel nf)"
  proof
    fix x assume "x \<in> set (test_accuracy st)"
    then have "x \<in> set (test_accuracy sl)" by (simp add: st)
    with rng obtain m2 where "x = fst (accuracy E m2 tel nf)" by blast
    with that show "- 1 < x" by simp
  qed
  show ?thesis
  proof (intro conjI)
    show "best_test_acc st = fold max (test_accuracy st) (- 1)" using b by (simp add: st)
    show "\<forall>e. (\<exists>sd. TorchSave e bp sd \<in> set (effects st)) \<longrightarrow> e < length (test_accuracy st)"
      by (rule ch [THEN conjunct1])
    show "\<forall>e < length (test_accuracy st).
            (\<exists>sd. TorchSave e bp sd \<in> set (effects st)) \<longleftrightarrow>
            fold max (take e (test_accuracy st)) (- 1) < test_accuracy st ! e"
      by (rule ch [THEN conjunct2, THEN conjunct1])
    show "(\<forall>m2 nf. - 1 < fst (accuracy E m2 tel nf)) \<longrightarrow>
            (\<forall>e < length (test_accuracy st).
               (\<exists>sd. TorchSave e bp sd \<in> set (effects st)) \<longleftrightarrow>
               (\<forall>j < e. test_accuracy st ! j < test_accuracy st ! e))"
    proof
      assume "\<forall>m2 nf. - 1 < fst (accuracy E m2 tel nf)"
      then have "\<forall>x \<in> set (test_accuracy st). - 1 < x" by (rule c)
      with ch [THEN conjunct2, THEN conjunct2]
      show "\<forall>e < length (test_accuracy st).
               (\<exists>sd. TorchSave e bp sd \<in> set (effects st)) \<longleftrightarrow>
               (\<forall>j < e. test_accuracy st ! j < test_accuracy st ! e)"
        by (rule mp)
    qed
  qed
qed

lemma meta_train_adv_best:
  assumes r: "meta_train_adv E m trl vl tel a g = Inr st"
    and bp: "output_file a ''models'' ''ckpt_best.pt'' = Inr bp"
  shows "best_test_acc st = fold max (test_accuracy st) (- 1) \<and>
         (\<forall>e. (\<exists>sd. TorchSave e bp sd \<in> set (effects st)) \<longrightarrow> e < length (test_accuracy st)) \<and>
         (\<forall>e < length (test_accuracy st).
            (\<exists>sd. TorchSave e bp sd \<in> set (effects st)) \<longleftrightarrow>
            fold max (take e (test_accuracy st)) (- 1) < test_accuracy st ! e) \<and>
         ((\<forall>m2 nf. - 1 < fst (accuracy E m2 tel nf)) \<longrightarrow>
            (\<forall>e < length (test_accuracy st).
               (\<exists>sd. TorchSave e bp sd \<in> set (effects st)) \<longleftrightarrow>
               (\<forall>j < e. test_accuracy st ! j < test_accuracy st ! e)))"
proof -
  from r obtain T nf st0 n sl p1 p2 p3 p4 where s: "meta_setup E a m vl g = Inr (T, nf, st0)"
    and l: "meta_epochs E a T nf trl vl tel 0 (nat n) st0 = Inr sl"
    and st: "st = sl\<lparr>effects := effects sl @
        [NpSave p1 (Arr1 (train_accuracy sl)), NpSave p2 (Arr1 (test_accuracy sl)),
         NpSave p3 (Arr2 (b_hist sl)), NpSave p4 (Arr1 (reg_term_hist sl))]\<rparr>"
    by (rule meta_train_adv_run)
  note run = meta_loop_run [OF s l]
  have len: "length (test_accuracy sl) = nat n" using run by simp
  have b: "best_test_acc sl = fold max (test_accuracy sl) (- 1)" using run by simp
  have rng: "\<forall>x \<in> set (test_accuracy sl). \<exists>m2. x = fst (accuracy E m2 tel nf)"
    using run by simp
  have w: "(\<exists>sd. TorchSave i bp sd \<in> set (effects sl)) \<longleftrightarrow>
           i < nat n \<and> fold max (take i (test_accuracy sl)) (- 1) < test_accuracy sl ! i" for i
    using run bp by simp
  have key: "(\<exists>sd. TorchSave i bp sd \<in> set (effects st)) \<longleftrightarrow>
        i < length (test_accuracy st) \<and>
        fold max (take i (test_accuracy st)) (- 1) < test_accuracy st ! i" for i
    using w [of i] by (simp add: st len)
  note ch = best_written_chars [of "\<lambda>i. \<exists>sd. TorchSave i bp sd \<in> set (effects st)"
      "test_accuracy st", OF key]
  have c: "\<forall>x \<in> set (test_accuracy st). - 1 < x" if "\<forall>m2 nf. - 1 < fst (accuracy E m2 tel nf)"
  proof
    fix x assume "x \<in> set (test_accuracy st)"
    then have "x \<in> set (test_accuracy sl)" by (simp add: st)
    with rng obtain m2 where "x = fst (accuracy E m2 tel nf)" by blast
    with that show "- 1 < x" by simp
  qed
  show ?thesis
  proof (intro conjI)
    show "best_test_acc st = fold max (test_accuracy st) (- 1)" using b by (simp add: st)
    show "\<forall>e. (\<exists>sd. TorchSave e bp sd \<in> set (effects st)) \<longrightarrow> e < length (test_accuracy st)"
      by (rule ch [THEN conjunct1])
    show "\<forall>e < length (test_accuracy st).
            (\<exists>sd. TorchSave e bp sd \<in> set (effects st)) \<longleftrightarrow>
            fold max (take e (test_accuracy st)) (- 1) < test_accuracy st ! e"
      by (rule ch [THEN conjunct2, THEN conjunct1])
    show "(\<forall>m2 nf. - 1 < fst (accuracy E m2 tel nf)) \<longrightarrow>
            (\<forall>e < length (test_accuracy st).
               (\<exists>sd. TorchSave e bp sd \<in> set (effects st)) \<longleftrightarrow>
               (\<forall>j < e. test_accuracy st ! j < test_accuracy st ! e))"
    proof
      assume "\<forall>m2 nf. - 1 < fst (accuracy E m2 tel nf)"
      then have "\<forall>x \<in> set (test_accuracy st). - 1 < x" by (rule c)
      with ch [THEN conjunct2, THEN conjunct2]
      show "\<forall>e < length (test_accuracy st).
               (\<exists>sd. TorchSave e bp sd \<in> set (effects st)) \<longleftrightarrow>
               (\<forall>j < e. test_accuracy st ! j < test_accuracy st ! e)"
        by (rule mp)
    qed
  qed
qed

lemma train_epochs_best_mono:
  assumes "train_epochs E a T nf trl tel e k st = Inr st'"
  shows "best_test_acc st \<le> best_test_acc st'"
proof (cases k)
  case 0
  with assms show ?thesis by simp
next
  case (Suc k')
  with assms train_epochs_best_path obtain bp
    where bp: "output_file a ''models'' ''ckpt_best.pt'' = Inr bp" by blast
  from train_epochs_spec [OF bp assms] obtain tes
    where "best_test_acc st' = fold max tes (best_test_acc st)" by (elim exE conjE)
  then show ?thesis by (simp add: fold_max_ge)
qed

lemma meta_epochs_best_mono:
  assumes "meta_epochs E a T nf trl vl tel e k st = Inr st'"
  shows "best_test_acc st \<le> best_test_acc st'"
proof (cases k)
  case 0
  with assms show ?thesis by simp
next
  case (Suc k')
  with assms meta_epochs_best_path obtain bp
    where bp: "output_file a ''models'' ''ckpt_best.pt'' = Inr bp" by blast
  from meta_epochs_spec [OF bp assms] obtain tes
    where "best_test_acc st' = fold max tes (best_test_acc st)" by (elim exE conjE)
  then show ?thesis by (simp add: fold_max_ge)
qed

lemma train_marker_mono:
  assumes "i \<le> j" and "train_epochs E a T nf trl tel e i st = Inr si"
    and "train_epochs E a T nf trl tel e j st = Inr sj"
  shows "best_test_acc si \<le> best_test_acc sj"
proof -
  from assms(1) obtain d where j: "j = i + d" by (auto simp: le_iff_add)
  from assms(3) have "train_epochs E a T nf trl tel (e + i) d si = Inr sj"
    unfolding j train_epochs_add by (simp add: assms(2))
  then show ?thesis by (rule train_epochs_best_mono)
qed

lemma meta_marker_mono:
  assumes "i \<le> j" and "meta_epochs E a T nf trl vl tel e i st = Inr si"
    and "meta_epochs E a T nf trl vl tel e j st = Inr sj"
  shows "best_test_acc si \<le> best_test_acc sj"
proof -
  from assms(1) obtain d where j: "j = i + d" by (auto simp: le_iff_add)
  from assms(3) have "meta_epochs E a T nf trl vl tel (e + i) d si = Inr sj"
    unfolding j meta_epochs_add by (simp add: assms(2))
  then show ?thesis by (rule meta_epochs_best_mono)
qed

text \<open>
  Claim C6. Let \<^verbatim>\<open>ckpt_best.pt\<close> have the path \<open>bp\<close>. After a run of either trainer that
  returns, the marker is the maximum of -1 and the recorded test accuracies; the best
  checkpoint is written only in epochs of the run; it is written in epoch \<open>e\<close> exactly when
  the test accuracy of epoch \<open>e\<close> exceeds the maximum of -1 and the test accuracies of the
  epochs before; and, for an evaluator whose results exceed -1 (as accuracies do), exactly
  when it strictly exceeds the test accuracy of every epoch before. The marker is
  non-decreasing over a run: of two prefixes of the loop over the epochs from the same state,
  the longer one ends with a marker at least as large.
\<close>

theorem C6_best_checkpoint:
  assumes "output_file a ''models'' ''ckpt_best.pt'' = Inr bp"
  shows
  "(train_adv E m trl tel a g = Inr st \<longrightarrow>
      best_test_acc st = fold max (test_accuracy st) (- 1) \<and>
      (\<forall>e. (\<exists>sd. TorchSave e bp sd \<in> set (effects st)) \<longrightarrow> e < length (test_accuracy st)) \<and>
      (\<forall>e < length (test_accuracy st).
         (\<exists>sd. TorchSave e bp sd \<in> set (effects st)) \<longleftrightarrow>
         fold max (take e (test_accuracy st)) (- 1) < test_accuracy st ! e) \<and>
      ((\<forall>m2 nf. - 1 < fst (accuracy E m2 tel nf)) \<longrightarrow>
         (\<forall>e < length (test_accuracy st).
            (\<exists>sd. TorchSave e bp sd \<in> set (effects st)) \<longleftrightarrow>
            (\<forall>j < e. test_accuracy st ! j < test_accuracy st ! e)))) \<and>
   (meta_train_adv E m trl vl tel a g = Inr mst \<longrightarrow>
      best_test_acc mst = fold max (test_accuracy mst) (- 1) \<and>
      (\<forall>e. (\<exists>sd. TorchSave e bp sd \<in> set (effects mst)) \<longrightarrow> e < length (test_accuracy mst)) \<and>
      (\<forall>e < length (test_accuracy mst).
         (\<exists>sd. TorchSave e bp sd \<in> set (effects mst)) \<longleftrightarrow>
         fold max (take e (test_accuracy mst)) (- 1) < test_accuracy mst ! e) \<and>
      ((\<forall>m2 nf. - 1 < fst (accuracy E m2 tel nf)) \<longrightarrow>
         (\<forall>e < length (test_accuracy mst).
            (\<exists>sd. TorchSave e bp sd \<in> set (effects mst)) \<longleftrightarrow>
            (\<forall>j < e. test_accuracy mst ! j < test_accuracy mst ! e)))) \<and>
   (\<forall>T nf e i j s si sj. i \<le> j \<longrightarrow>
      train_epochs E a T nf trl tel e i s = Inr si \<longrightarrow>
      train_epochs E a T nf trl tel e j s = Inr sj \<longrightarrow>
      best_test_acc si \<le> best_test_acc sj) \<and>
   (\<forall>T nf e i j s si sj. i \<le> j \<longrightarrow>
      meta_epochs E a T nf trl vl tel e i s = Inr si \<longrightarrow>
      meta_epochs E a T nf trl vl tel e j s = Inr sj \<longrightarrow>
      best_test_acc si \<le> best_test_acc sj)"
proof (intro conjI)
  show "train_adv E m trl tel a g = Inr st \<longrightarrow>
      best_test_acc st = fold max (test_accuracy st) (- 1) \<and>
      (\<forall>e. (\<exists>sd. TorchSave e bp sd \<in> set (effects st)) \<longrightarrow> e < length (test_accuracy st)) \<and>
      (\<forall>e < length (test_accuracy st).
         (\<exists>sd. TorchSave e bp sd \<in> set (effects st)) \<longleftrightarrow>
         fold max (take e (test_accuracy st)) (- 1) < test_accuracy st ! e) \<and>
      ((\<forall>m2 nf. - 1 < fst (accuracy E m2 tel nf)) \<longrightarrow>
         (\<forall>e < length (test_accuracy st).
            (\<exists>sd. TorchSave e bp sd \<in> set (effects st)) \<longleftrightarrow>
            (\<forall>j < e. test_accuracy st ! j < test_accuracy st ! e)))"
    using assms by (intro impI) (rule train_adv_best)
  show "meta_train_adv E m trl vl tel a g = Inr mst \<longrightarrow>
      best_test_acc mst = fold max (test_accuracy mst) (- 1) \<and>
      (\<forall>e. (\<exists>sd. TorchSave e bp sd \<in> set (effects mst)) \<longrightarrow> e < length (test_accuracy mst)) \<and>
      (\<forall>e < length (test_accuracy mst).
         (\<exists>sd. TorchSave e bp sd \<in> set (effects mst)) \<longleftrightarrow>
         fold max (take e (test_accuracy mst)) (- 1) < test_accuracy mst ! e) \<and>
      ((\<forall>m2 nf. - 1 < fst (accuracy E m2 tel nf)) \<longrightarrow>
         (\<forall>e < length (test_accuracy mst).
            (\<exists>sd. TorchSave e bp sd \<in> set (effects mst)) \<longleftrightarrow>
            (\<forall>j < e. test_accuracy mst ! j < test_accuracy mst ! e)))"
    using assms by (intro impI) (rule meta_train_adv_best)
  show "\<forall>T nf e i j s si sj. i \<le> j \<longrightarrow>
      train_epochs E a T nf trl tel e i s = Inr si \<longrightarrow>
      train_epochs E a T nf trl tel e j s = Inr sj \<longrightarrow>
      best_test_acc si \<le> best_test_acc sj"
    by (intro allI impI) (rule train_marker_mono)
  show "\<forall>T nf e i j s si sj. i \<le> j \<longrightarrow>
      meta_epochs E a T nf trl vl tel e i s = Inr si \<longrightarrow>
      meta_epochs E a T nf trl vl tel e j s = Inr sj \<longrightarrow>
      best_test_acc si \<le> best_test_acc sj"
    by (intro allI impI) (rule meta_marker_mono)
qed


subsection \<open>The first epoch\<close>

lemma train_first_epoch:
  assumes c: "\<forall>m2 nf. - 1 < fst (accuracy E m2 tel nf)"
    and s: "train_setup E a m g = Inr (T, nf, st0)"
    and e: "train_epoch E a T nf trl tel 0 st0 = Inr s1"
  shows "\<exists>bp sd. output_file a ''models'' ''ckpt_best.pt'' = Inr bp \<and>
           TorchSave 0 bp sd \<in> set (effects s1)"
proof -
  from e have l: "train_epochs E a T nf trl tel 0 (Suc 0) st0 = Inr s1" by simp
  from train_epochs_best_path [OF l] obtain bp
    where bp: "output_file a ''models'' ''ckpt_best.pt'' = Inr bp" by (elim exE)
  note run = train_loop_run [OF s l]
  have len: "length (test_accuracy s1) = Suc 0" using run by simp
  then have "test_accuracy s1 ! 0 \<in> set (test_accuracy s1)" by simp
  moreover have "\<forall>x \<in> set (test_accuracy s1). \<exists>m2. x = fst (accuracy E m2 tel nf)"
    using run by simp
  ultimately obtain m2 where "test_accuracy s1 ! 0 = fst (accuracy E m2 tel nf)" by blast
  with c have "- 1 < test_accuracy s1 ! 0" by simp
  moreover have "(\<exists>sd. TorchSave 0 bp sd \<in> set (effects s1)) \<longleftrightarrow>
      0 < Suc 0 \<and> fold max (take 0 (test_accuracy s1)) (- 1) < test_accuracy s1 ! 0"
    using run bp by blast
  ultimately have "\<exists>sd. TorchSave 0 bp sd \<in> set (effects s1)" by simp
  with bp show ?thesis by blast
qed

lemma meta_first_epoch:
  assumes c: "\<forall>m2 nf. - 1 < fst (accuracy E m2 tel nf)"
    and s: "meta_setup E a m vl g = Inr (T, nf, st0)"
    and e: "meta_epoch E a T nf trl vl tel 0 st0 = Inr s1"
  shows "\<exists>bp sd. output_file a ''models'' ''ckpt_best.pt'' = Inr bp \<and>
           TorchSave 0 bp sd \<in> set (effects s1)"
proof -
  from e have l: "meta_epochs E a T nf trl vl tel 0 (Suc 0) st0 = Inr s1" by simp
  from meta_epochs_best_path [OF l] obtain bp
    where bp: "output_file a ''models'' ''ckpt_best.pt'' = Inr bp" by (elim exE)
  note run = meta_loop_run [OF s l]
  have len: "length (test_accuracy s1) = Suc 0" using run by simp
  then have "test_accuracy s1 ! 0 \<in> set (test_accuracy s1)" by simp
  moreover have "\<forall>x \<in> set (test_accuracy s1). \<exists>m2. x = fst (accuracy E m2 tel nf)"
    using run by simp
  ultimately obtain m2 where "test_accuracy s1 ! 0 = fst (accuracy E m2 tel nf)" by blast
  with c have "- 1 < test_accuracy s1 ! 0" by simp
  moreover have "(\<exists>sd. TorchSave 0 bp sd \<in> set (effects s1)) \<longleftrightarrow>
      0 < Suc 0 \<and> fold max (take 0 (test_accuracy s1)) (- 1) < test_accuracy s1 ! 0"
    using run bp by blast
  ultimately have "\<exists>sd. TorchSave 0 bp sd \<in> set (effects s1)" by simp
  with bp show ?thesis by blast
qed

lemma train_adv_first_best:
  assumes c: "\<forall>m2 nf. - 1 < fst (accuracy E m2 tel nf)"
    and r: "train_adv E m trl tel a g = Inr st"
    and n: "a ''num_epochs'' = Some (PyInt n)" and n1: "1 \<le> n"
  shows "\<exists>bp sd. output_file a ''models'' ''ckpt_best.pt'' = Inr bp \<and>
           TorchSave 0 bp sd \<in> set (effects st)"
proof -
  from r obtain T nf st0 n' sl where "a ''num_epochs'' = Some (PyInt n')"
    and "train_epochs E a T nf trl tel 0 (nat n') st0 = Inr sl"
    by (rule train_adv_run)
  with n have l: "train_epochs E a T nf trl tel 0 (nat n) st0 = Inr sl" by simp
  from n1 obtain k where k: "nat n = Suc k" by (cases "nat n") simp_all
  from l [unfolded k] obtain bp where bp: "output_file a ''models'' ''ckpt_best.pt'' = Inr bp"
    using train_epochs_best_path by blast
  from train_adv_histories [OF r] n have len: "length (test_accuracy st) = nat n" by auto
  with k have pos: "0 < length (test_accuracy st)" by simp
  from train_adv_best [OF r bp, THEN conjunct2, THEN conjunct2, THEN conjunct2, THEN mp, OF c]
  have "\<forall>e < length (test_accuracy st).
          (\<exists>sd. TorchSave e bp sd \<in> set (effects st)) \<longleftrightarrow>
          (\<forall>j < e. test_accuracy st ! j < test_accuracy st ! e)" .
  from this [THEN spec, THEN mp, OF pos] have "\<exists>sd. TorchSave 0 bp sd \<in> set (effects st)" by simp
  with bp show ?thesis by blast
qed

lemma meta_train_adv_first_best:
  assumes c: "\<forall>m2 nf. - 1 < fst (accuracy E m2 tel nf)"
    and r: "meta_train_adv E m trl vl tel a g = Inr st"
    and n: "a ''num_epochs'' = Some (PyInt n)" and n1: "1 \<le> n"
  shows "\<exists>bp sd. output_file a ''models'' ''ckpt_best.pt'' = Inr bp \<and>
           TorchSave 0 bp sd \<in> set (effects st)"
proof -
  from r obtain T nf st0 n' sl where "a ''num_epochs'' = Some (PyInt n')"
    and "meta_epochs E a T nf trl vl tel 0 (nat n') st0 = Inr sl"
    by (rule meta_train_adv_run)
  with n have l: "meta_epochs E a T nf trl vl tel 0 (nat n) st0 = Inr sl" by simp
  from n1 obtain k where k: "nat n = Suc k" by (cases "nat n") simp_all
  from l [unfolded k] obtain bp where bp: "output_file a ''models'' ''ckpt_best.pt'' = Inr bp"
    using meta_epochs_best_path by blast
  from meta_train_adv_histories [OF r] n have len: "length (test_accuracy st) = nat n" by auto
  with k have pos: "0 < length (test_accuracy st)" by simp
  from meta_train_adv_best [OF r bp, THEN conjunct2, THEN conjunct2, THEN conjunct2, THEN mp, OF c]
  have "\<forall>e < length (test_accuracy st).
          (\<exists>sd. TorchSave e bp sd \<in> set (effects st)) \<longleftrightarrow>
          (\<forall>j < e. test_accuracy st ! j < test_accuracy st ! e)" .
  from this [THEN spec, THEN mp, OF pos] have "\<exists>sd. TorchSave 0 bp sd \<in> set (effects st)" by simp
  with bp show ?thesis by blast
qed

text \<open>
  Claim C10. For an evaluator with results in [0, 1]: when the first epoch of either trainer,
  started from what the trainer sets up, completes, the best checkpoint has been written in
  it (epoch index 0); and a run of either trainer that returns with
  \<^verbatim>\<open>num_epochs\<close> at least 1 has written the best checkpoint in its first epoch.
\<close>

theorem C10_first_epoch_best:
  assumes "\<forall>m2 l nf. 0 \<le> fst (accuracy E m2 l nf) \<and> fst (accuracy E m2 l nf) \<le> 1"
  shows
  "(\<forall>T nf st0 s1. train_setup E a m g = Inr (T, nf, st0) \<longrightarrow>
      train_epoch E a T nf trl tel 0 st0 = Inr s1 \<longrightarrow>
      (\<exists>bp sd. output_file a ''models'' ''ckpt_best.pt'' = Inr bp \<and>
         TorchSave 0 bp sd \<in> set (effects s1))) \<and>
   (\<forall>T nf st0 s1. meta_setup E a m vl g = Inr (T, nf, st0) \<longrightarrow>
      meta_epoch E a T nf trl vl tel 0 st0 = Inr s1 \<longrightarrow>
      (\<exists>bp sd. output_file a ''models'' ''ckpt_best.pt'' = Inr bp \<and>
         TorchSave 0 bp sd \<in> set (effects s1))) \<and>
   (\<forall>n. train_adv E m trl tel a g = Inr st \<longrightarrow> a ''num_epochs'' = Some (PyInt n) \<longrightarrow> 1 \<le> n \<longrightarrow>
      (\<exists>bp sd. output_file a ''models'' ''ckpt_best.pt'' = Inr bp \<and>
         TorchSave 0 bp sd \<in> set (effects st))) \<and>
   (\<forall>n. meta_train_adv E m trl vl tel a g = Inr mst \<longrightarrow> a ''num_epochs'' = Some (PyInt n) \<longrightarrow>
      1 \<le> n \<longrightarrow>
      (\<exists>bp sd. output_file a ''models'' ''ckpt_best.pt'' = Inr bp \<and>
         TorchSave 0 bp sd \<in> set (effects mst)))"
proof -
  have c: "\<forall>m2 nf. - 1 < fst (accuracy E m2 tel nf)"
  proof (intro allI)
    fix m2 nf
    from assms have "0 \<le> fst (accuracy E m2 tel nf)" by blast
    then show "- 1 < fst (accuracy E m2 tel nf)" by simp
  qed
  show ?thesis
  proof (intro conjI allI impI)
    fix T nf st0 s1
    assume "train_setup E a m g = Inr (T, nf, st0)" "train_epoch E a T nf trl tel 0 st0 = Inr s1"
    with c show "\<exists>bp sd. output_file a ''models'' ''ckpt_best.pt'' = Inr bp \<and>
         TorchSave 0 bp sd \<in> set (effects s1)" by (rule train_first_epoch)
  next
    fix T nf st0 s1
    assume "meta_setup E a m vl g = Inr (T, nf, st0)"
      "meta_epoch E a T nf trl vl tel 0 st0 = Inr s1"
    with c show "\<exists>bp sd. output_file a ''models'' ''ckpt_best.pt'' = Inr bp \<and>
         TorchSave 0 bp sd \<in> set (effects s1)" by (rule meta_first_epoch)
  next
    fix n
    assume "train_adv E m trl tel a g = Inr st" "a ''num_epochs'' = Some (PyInt n)" "1 \<le> n"
    with c show "\<exists>bp sd. output_file a ''models'' ''ckpt_best.pt'' = Inr bp \<and>
         TorchSave 0 bp sd \<in> set (effects st)" by (rule train_adv_first_best)
  next
    fix n
    assume "meta_train_adv E m trl vl tel a g = Inr mst" "a ''num_epochs'' = Some (PyInt n)"
      "1 \<le> n"
    with c show "\<exists>bp sd. output_file a ''models'' ''ckpt_best.pt'' = Inr bp \<and>
         TorchSave 0 bp sd \<in> set (effects mst)" by (rule meta_train_adv_first_best)
  qed
qed


subsection \<open>The validation batch of every outer step\<close>

lemma next_val_batch_exhausted:
  "vl \<noteq> [] \<Longrightarrow> next_val_batch vl [] = Inr (hd vl, tl vl)"
  by (cases vl) (simp_all add: next_val_batch_def next_iter_def)

text \<open>
  Claim C1. For a non-empty validation source: the meta trainer never raises
  \<^verbatim>\<open>StopIteration\<close>; the draw of a validation batch succeeds whatever the iterator has left;
  with \<open>p\<close> batches consumed it returns batch \<open>p mod length vl\<close> of the source, which on
  exhaustion (\<open>p = length vl\<close>) is the first batch of a fresh pass; and in a run the outer
  sub-step of batch \<open>i\<close> of epoch \<open>k\<close> (both counted from 0) works on validation batch
  \<open>(k * length trl + i) mod length vl\<close>, so the cursor goes on across the epochs and wraps
  around, whatever the two lengths. On a configuration on which no lookup fails the run
  returns.
\<close>

theorem C1_validation_cursor:
  assumes "vl \<noteq> []"
  shows
  "meta_train_adv E m trl vl tel a g \<noteq> Inl StopIteration \<and>
   (\<forall>it. \<exists>r. next_val_batch vl it = Inr r) \<and>
   (\<forall>p \<le> length vl. next_val_batch vl (drop p vl) =
      Inr (vl ! (p mod length vl), drop (Suc (p mod length vl)) vl)) \<and>
   next_val_batch vl [] = Inr (hd vl, tl vl) \<and>
   (\<forall>T nf st0 k sk i st.
      meta_setup E a m vl g = Inr (T, nf, st0) \<longrightarrow>
      meta_epochs E a T nf trl vl tel 0 k st0 = Inr sk \<longrightarrow>
      meta_batches E a T nf vl sk (take i trl) = Inr st \<longrightarrow> i < length trl \<longrightarrow>
      (k * length trl + i) mod length vl < length vl \<and>
      meta_step E a T nf vl st (trl ! i) =
        ebind (inner_step E a T nf st (trl ! i)) (\<lambda>s1.
          outer_step E a T nf
            (s1\<lparr>val_iter := drop (Suc ((k * length trl + i) mod length vl)) vl\<rparr>)
            (vl ! ((k * length trl + i) mod length vl)))) \<and>
   (meta_config_ok a \<longrightarrow> (\<exists>st. meta_train_adv E m trl vl tel a g = Inr st))"
proof (intro conjI allI impI)
  show "meta_train_adv E m trl vl tel a g \<noteq> Inl StopIteration"
    using assms by (rule meta_train_adv_no_stop)
  show "\<exists>r. next_val_batch vl it = Inr r" for it
    using assms by (rule next_val_batch_total)
  show "next_val_batch vl (drop p vl) =
      Inr (vl ! (p mod length vl), drop (Suc (p mod length vl)) vl)" if "p \<le> length vl" for p
    using assms that by (rule next_val_batch_drop)
  show "next_val_batch vl [] = Inr (hd vl, tl vl)"
    using assms by (rule next_val_batch_exhausted)
  show "(k * length trl + i) mod length vl < length vl" for k i
    using assms by simp
  show "meta_step E a T nf vl st (trl ! i) =
        ebind (inner_step E a T nf st (trl ! i)) (\<lambda>s1.
          outer_step E a T nf
            (s1\<lparr>val_iter := drop (Suc ((k * length trl + i) mod length vl)) vl\<rparr>)
            (vl ! ((k * length trl + i) mod length vl)))"
    if "meta_setup E a m vl g = Inr (T, nf, st0)"
      and "meta_epochs E a T nf trl vl tel 0 k st0 = Inr sk"
      and "meta_batches E a T nf vl sk (take i trl) = Inr st" and "i < length trl"
    for T nf st0 k sk i st
    using assms that by (rule meta_schedule)
  show "\<exists>st. meta_train_adv E m trl vl tel a g = Inr st" if "meta_config_ok a"
    using that assms by (rule meta_train_adv_total)
qed


subsection \<open>An empty validation source\<close>

lemma meta_step_empty:
  assumes "val_iter st = []" and "inner_step E a T nf st b = Inr s1"
  shows "meta_step E a T nf [] st b = Inl StopIteration"
proof -
  from inner_step_frame [OF assms(2)] assms(1) have "val_iter s1 = []" by simp
  then show ?thesis
    by (simp add: meta_step_def assms(2) next_val_batch_def next_iter_def)
qed

lemma meta_train_adv_empty:
  assumes c: "meta_config_ok a" and t: "trl \<noteq> []"
    and n: "a ''num_epochs'' = Some (PyInt n)" and n1: "1 \<le> n"
  shows "meta_train_adv E m trl [] tel a g = Inl StopIteration"
proof -
  from c have cc: "common_config_ok a" by (simp add: meta_config_ok_def)
  from meta_setup_total [OF c] obtain T nf st0
    where s: "meta_setup E a m [] g = Inr (T, nf, st0)" by blast
  from meta_setup_val_iter [OF s] have v: "val_iter st0 = []" .
  from t obtain b bs where trl: "trl = b # bs" by (cases trl) simp_all
  from inner_step_total [OF cc] obtain s1 where "inner_step E a T nf st0 b = Inr s1" by blast
  with v have "meta_step E a T nf [] st0 b = Inl StopIteration" by (rule meta_step_empty)
  then have "meta_epoch E a T nf trl [] tel 0 st0 = Inl StopIteration"
    by (simp add: meta_epoch_def trl)
  moreover from n1 obtain k where k: "nat n = Suc k" by (cases "nat n") simp_all
  ultimately have "meta_epochs E a T nf trl [] tel 0 (nat n) st0 = Inl StopIteration"
    by simp
  then show ?thesis by (simp add: meta_train_adv_def s n py_range_def)
qed

text \<open>
  Claim C9. On an exhausted iterator the draw of a validation batch is one draw from a fresh
  pass over the source, whose \<^verbatim>\<open>StopIteration\<close> is not caught: the draw raises
  \<^verbatim>\<open>StopIteration\<close> exactly when the source is empty and the iterator exhausted. With an
  empty source the first batch of the first epoch raises it as soon as its inner sub-step
  has succeeded, and on a configuration on which no lookup fails, with a non-empty training
  source and at least one epoch, the run ends with \<^verbatim>\<open>StopIteration\<close>. With a non-empty
  source the run never does.
\<close>

theorem C9_empty_validation:
  "next_val_batch vl [] = next_iter vl \<and>
   next_iter ([] :: 'b list) = Inl StopIteration \<and>
   (next_val_batch vl it = Inl StopIteration \<longleftrightarrow> vl = [] \<and> it = []) \<and>
   (\<forall>T nf st0 b s1. meta_setup E a m [] g = Inr (T, nf, st0) \<longrightarrow>
      inner_step E a T nf st0 b = Inr s1 \<longrightarrow>
      meta_step E a T nf [] st0 b = Inl StopIteration) \<and>
   (\<forall>n. meta_config_ok a \<longrightarrow> trl \<noteq> [] \<longrightarrow> a ''num_epochs'' = Some (PyInt n) \<longrightarrow> 1 \<le> n \<longrightarrow>
      meta_train_adv E m trl [] tel a g = Inl StopIteration) \<and>
   (vl' \<noteq> [] \<longrightarrow> meta_train_adv E m trl vl' tel a g \<noteq> Inl StopIteration)"
proof (intro conjI allI impI)
  show "next_val_batch vl [] = next_iter vl" by (rule next_val_batch_empty_iter)
  show "next_iter ([] :: 'b list) = Inl StopIteration" by (simp add: next_iter_def)
  show "next_val_batch vl it = Inl StopIteration \<longleftrightarrow> vl = [] \<and> it = []"
    by (rule next_val_batch_stop)
  show "meta_step E a T nf [] st0 b = Inl StopIteration"
    if "meta_setup E a m [] g = Inr (T, nf, st0)" and "inner_step E a T nf st0 b = Inr s1"
    for T nf st0 b s1
    using meta_setup_val_iter [OF that(1)] that(2) by (rule meta_step_empty)
  show "meta_train_adv E m trl [] tel a g = Inl StopIteration"
    if "meta_config_ok a" and "trl \<noteq> []" and "a ''num_epochs'' = Some (PyInt n)" and "1 \<le> n"
    for n
    using that by (rule meta_train_adv_empty)
  show "meta_train_adv E m trl vl' tel a g \<noteq> Inl StopIteration" if "vl' \<noteq> []"
    using that by (rule meta_train_adv_no_stop)
qed


subsection \<open>The concrete runs, epoch by epoch\<close>

lemma hidden_update_param: "hidden (fst (update_param E v p ms)) = hidden (fst ms)"
  by (simp add: update_param_def split: prod.splits option.splits)

lemma hidden_fold_update_param:
  "hidden (fst (fold (update_param E v) ps ms)) = hidden (fst ms)"
  by (induction ps arbitrary: ms) (simp_all add: hidden_update_param)

lemma hidden_step: "hidden (fst (step E opt m)) = hidden m"
  using hidden_fold_update_param [of E "lr opt" "concat (param_groups opt)" "(m, ostate opt)"]
  by (simp add: step_def case_prod_beta)

lemma hidden_backward: "hidden (backward l m) = hidden m"
  by (simp add: backward_def)

lemma hidden_zero_grad: "hidden (zero_grad opt m) = hidden m"
  by (simp add: zero_grad_def)

lemma toy_env_sel:
  "attack toy_env m x y eps = (x + 1, m)"
  "train_mode toy_env m = m"
  "forward toy_env m x = (x, m)"
  "accuracy toy_env m l nf =
     (if hidden m = 3 then 1 / 4 else if hidden m = 5 then 3 / 4 else 1 / 2,
      m\<lparr>hidden := hidden m + 1\<rparr>)"
  by (simp_all add: toy_env_def)

lemma toy_train_step_hidden:
  assumes "train_step toy_env a T nf st b = Inr st'"
  shows "hidden (model st') = hidden (model st)"
  using assms
  by (auto simp: train_step_def perturb_def ebind_eq_Inr Let_def case_prod_beta toy_env_sel
      hidden_step hidden_backward hidden_zero_grad)

lemma toy_train_batches_hidden:
  "train_batches toy_env a T nf st bs = Inr st' \<Longrightarrow> hidden (model st') = hidden (model st)"
proof (induction bs arbitrary: st)
  case Nil
  then show ?case by simp
next
  case (Cons b bs)
  from Cons.prems obtain s1 where s1: "train_step toy_env a T nf st b = Inr s1"
    and rest: "train_batches toy_env a T nf s1 bs = Inr st'"
    by (auto simp: ebind_eq_Inr)
  from toy_train_step_hidden [OF s1] Cons.IH [OF rest] show ?case by simp
qed

lemma toy_inner_step_hidden:
  assumes "inner_step toy_env a T nf st b = Inr st'"
  shows "hidden (model st') = hidden (model st)"
  using assms
  by (auto simp: inner_step_def perturb_def ebind_eq_Inr Let_def case_prod_beta toy_env_sel
      hidden_step hidden_backward hidden_zero_grad)

lemma toy_outer_step_hidden:
  assumes "outer_step toy_env a T nf st b = Inr st'"
  shows "hidden (model st') = hidden (model st)"
  using assms
  by (auto simp: outer_step_def perturb_def ebind_eq_Inr Let_def case_prod_beta toy_env_sel
      hidden_step hidden_backward hidden_zero_grad)

lemma toy_meta_step_hidden:
  assumes "meta_step toy_env a T nf vl st b = Inr st'"
  shows "hidden (model st') = hidden (model st)"
proof -
  from assms obtain s1 r where i: "inner_step toy_env a T nf st b = Inr s1"
    and o: "outer_step toy_env a T nf (s1\<lparr>val_iter := snd r\<rparr>) (fst r) = Inr st'"
    by (auto simp: meta_step_def ebind_eq_Inr case_prod_beta)
  from toy_inner_step_hidden [OF i] toy_outer_step_hidden [OF o] show ?thesis by simp
qed

lemma toy_meta_batches_hidden:
  "meta_batches toy_env a T nf vl st bs = Inr st' \<Longrightarrow> hidden (model st') = hidden (model st)"
proof (induction bs arbitrary: st)
  case Nil
  then show ?case by simp
next
  case (Cons b bs)
  from Cons.prems obtain s1 where s1: "meta_step toy_env a T nf vl st b = Inr s1"
    and rest: "meta_batches toy_env a T nf vl s1 bs = Inr st'"
    by (auto simp: ebind_eq_Inr)
  from toy_meta_step_hidden [OF s1] Cons.IH [OF rest] show ?case by simp
qed

lemma toy_record_accuracy:
  "hidden (model (record_accuracy toy_env nf trl tel st)) = hidden (model st) + 2 \<and>
   test_accuracy (record_accuracy toy_env nf trl tel st) =
     test_accuracy st @ [fst (accuracy toy_env (model st\<lparr>hidden := hidden (model st) + 1\<rparr>) tel nf)]"
  by (simp add: record_accuracy_def toy_env_sel)

lemma toy_train_epoch:
  assumes "train_epoch toy_env a T nf trl tel e st = Inr st'"
  shows "hidden (model st') = hidden (model st) + 2 \<and>
         (\<exists>m2. hidden m2 = hidden (model st) + 1 \<and>
            test_accuracy st' = test_accuracy st @ [fst (accuracy toy_env m2 tel nf)])"
proof -
  from assms obtain s1 where b: "train_batches toy_env a T nf st trl = Inr s1"
    and c: "checkpoint a e (record_accuracy toy_env nf trl tel s1) = Inr st'"
    by (auto simp: train_epoch_def ebind_eq_Inr)
  note h = toy_train_batches_hidden [OF b]
  have t: "test_accuracy s1 = test_accuracy st" using train_batches_frame [OF b] by simp
  note r = toy_record_accuracy [of nf trl tel s1]
  note f = checkpoint_fields [OF c]
  have "hidden (model st') = hidden (model st) + 2" using f r h by simp
  moreover have "test_accuracy st' = test_accuracy st @
      [fst (accuracy toy_env (model s1\<lparr>hidden := hidden (model s1) + 1\<rparr>) tel nf)]"
    using f r t by simp
  moreover have "hidden (model s1\<lparr>hidden := hidden (model s1) + 1\<rparr>) = hidden (model st) + 1"
    using h by simp
  ultimately show ?thesis by blast
qed

lemma toy_meta_epoch:
  assumes "meta_epoch toy_env a T nf trl vl tel e st = Inr st'"
  shows "hidden (model st') = hidden (model st) + 2 \<and>
         (\<exists>m2. hidden m2 = hidden (model st) + 1 \<and>
            test_accuracy st' = test_accuracy st @ [fst (accuracy toy_env m2 tel nf)])"
proof -
  from assms obtain s1 where b: "meta_batches toy_env a T nf vl st trl = Inr s1"
    and c: "checkpoint a e (record_snapshots toy_env (record_accuracy toy_env nf trl tel s1)) =
            Inr st'"
    by (auto simp: meta_epoch_def ebind_eq_Inr)
  note h = toy_meta_batches_hidden [OF b]
  have t: "test_accuracy s1 = test_accuracy st" using meta_batches_frame [OF b] by simp
  note r = toy_record_accuracy [of nf trl tel s1]
  note f = checkpoint_fields [OF c]
  have "hidden (model st') = hidden (model st) + 2"
    using f r h by (simp add: record_snapshots_fields)
  moreover have "test_accuracy st' = test_accuracy st @
      [fst (accuracy toy_env (model s1\<lparr>hidden := hidden (model s1) + 1\<rparr>) tel nf)]"
    using f r t by (simp add: record_snapshots_fields)
  moreover have "hidden (model s1\<lparr>hidden := hidden (model s1) + 1\<rparr>) = hidden (model st) + 1"
    using h by simp
  ultimately show ?thesis by blast
qed

lemma toy_train_three_epochs:
  assumes "train_epochs toy_env a T nf trl tel 0 3 st = Inr st'"
    and "hidden (model st) = 0" and "test_accuracy st = []"
  shows "test_accuracy st' = [1 / 2, 1 / 4, 3 / 4]"
proof -
  from assms(1) obtain s1 s2 where e1: "train_epoch toy_env a T nf trl tel 0 st = Inr s1"
    and e2: "train_epoch toy_env a T nf trl tel 1 s1 = Inr s2"
    and e3: "train_epoch toy_env a T nf trl tel 2 s2 = Inr st'"
    by (auto simp: eval_nat_numeral ebind_eq_Inr)
  from toy_train_epoch [OF e1] assms(2,3)
  have h1: "hidden (model s1) = 2" and t1: "test_accuracy s1 = [1 / 2]"
    by (auto simp: toy_env_sel)
  from toy_train_epoch [OF e2] h1 t1
  have h2: "hidden (model s2) = 4" and t2: "test_accuracy s2 = [1 / 2, 1 / 4]"
    by (auto simp: toy_env_sel)
  from toy_train_epoch [OF e3] h2 t2 show ?thesis
    by (auto simp: toy_env_sel)
qed

lemma toy_meta_three_epochs:
  assumes "meta_epochs toy_env a T nf trl vl tel 0 3 st = Inr st'"
    and "hidden (model st) = 0" and "test_accuracy st = []"
  shows "test_accuracy st' = [1 / 2, 1 / 4, 3 / 4]"
proof -
  from assms(1) obtain s1 s2 where e1: "meta_epoch toy_env a T nf trl vl tel 0 st = Inr s1"
    and e2: "meta_epoch toy_env a T nf trl vl tel 1 s1 = Inr s2"
    and e3: "meta_epoch toy_env a T nf trl vl tel 2 s2 = Inr st'"
    by (auto simp: eval_nat_numeral ebind_eq_Inr)
  from toy_meta_epoch [OF e1] assms(2,3)
  have h1: "hidden (model s1) = 2" and t1: "test_accuracy s1 = [1 / 2]"
    by (auto simp: toy_env_sel)
  from toy_meta_epoch [OF e2] h1 t1
  have h2: "hidden (model s2) = 4" and t2: "test_accuracy s2 = [1 / 2, 1 / 4]"
    by (auto simp: toy_env_sel)
  from toy_meta_epoch [OF e3] h2 t2 show ?thesis
    by (auto simp: toy_env_sel)
qed

lemma toy_num_epochs: "toy_args ''num_epochs'' = Some (PyInt 3)"
  by (simp add: toy_args_def)

lemma toy_best_path: "output_file toy_args ''models'' ''ckpt_best.pt'' = Inr ''out/models/ckpt_best.pt''"
  by (simp add: output_file_def toy_args_def getitem_def subscript_def os_path_join_def)

lemma toy_train_run:
  assumes "train_adv toy_env toy_model trl tel toy_args g = Inr st"
  shows "test_accuracy st = [1 / 2, 1 / 4, 3 / 4]"
proof -
  from assms obtain T nf st0 n sl p1 p2 where s: "train_setup toy_env toy_args toy_model g = Inr (T, nf, st0)"
    and n: "toy_args ''num_epochs'' = Some (PyInt n)"
    and l: "train_epochs toy_env toy_args T nf trl tel 0 (nat n) st0 = Inr sl"
    and st: "st = sl\<lparr>effects := effects sl @
        [NpSave p1 (Arr1 (train_accuracy sl)), NpSave p2 (Arr1 (test_accuracy sl))]\<rparr>"
    by (rule train_adv_run)
  from n have "nat n = 3" by (simp add: toy_num_epochs)
  with l have l3: "train_epochs toy_env toy_args T nf trl tel 0 3 st0 = Inr sl" by simp
  from train_setup_init [OF s] have "hidden (model st0) = 0" "test_accuracy st0 = []"
    by (simp_all add: toy_model_def)
  with l3 have "test_accuracy sl = [1 / 2, 1 / 4, 3 / 4]" by (rule toy_train_three_epochs)
  then show ?thesis by (simp add: st)
qed

lemma toy_meta_run:
  assumes "meta_train_adv toy_env toy_model trl vl tel toy_args g = Inr st"
  shows "test_accuracy st = [1 / 2, 1 / 4, 3 / 4]"
proof -
  from assms obtain T nf st0 n sl p1 p2 p3 p4
    where s: "meta_setup toy_env toy_args toy_model vl g = Inr (T, nf, st0)"
    and n: "toy_args ''num_epochs'' = Some (PyInt n)"
    and l: "meta_epochs toy_env toy_args T nf trl vl tel 0 (nat n) st0 = Inr sl"
    and st: "st = sl\<lparr>effects := effects sl @
        [NpSave p1 (Arr1 (train_accuracy sl)), NpSave p2 (Arr1 (test_accuracy sl)),
         NpSave p3 (Arr2 (b_hist sl)), NpSave p4 (Arr1 (reg_term_hist sl))]\<rparr>"
    by (rule meta_train_adv_run)
  from n have "nat n = 3" by (simp add: toy_num_epochs)
  with l have l3: "meta_epochs toy_env toy_args T nf trl vl tel 0 3 st0 = Inr sl" by simp
  from meta_setup_init [OF s] have "hidden (model st0) = 0" "test_accuracy st0 = []"
    by (simp_all add: toy_model_def)
  with l3 have "test_accuracy sl = [1 / 2, 1 / 4, 3 / 4]" by (rule toy_meta_three_epochs)
  then show ?thesis by (simp add: st)
qed

lemma toy_accuracy_range:
  "\<forall>m2 l nf. 0 \<le> fst (accuracy toy_env m2 l nf) \<and> fst (accuracy toy_env m2 l nf) \<le> 1"
  by (simp add: toy_env_sel)

lemma toy_val_nonempty: "toy_val \<noteq> []"
  by (simp add: toy_val_def)

lemma toy_train_nonempty: "toy_train \<noteq> []"
  by (simp add: toy_train_def)


text \<open>
  Both trainers return on the concrete configuration of three epochs, and every history has
  three entries.
\<close>

theorem C7_history_lengths_witness:
  "\<exists>st mst. train_adv toy_env toy_model toy_train toy_test toy_args toy_rng = Inr st \<and>
     meta_train_adv toy_env toy_model toy_train toy_val toy_test toy_args toy_rng = Inr mst \<and>
     length (train_accuracy st) = 3 \<and> length (test_accuracy st) = 3 \<and>
     length (train_accuracy mst) = 3 \<and> length (test_accuracy mst) = 3 \<and>
     length (b_hist mst) = 3 \<and> length (reg_term_hist mst) = 3"
proof -
  from train_adv_total [OF toy_train_config_ok, where E = toy_env and m = toy_model
      and trl = toy_train and tel = toy_test and g = toy_rng] obtain st
    where st: "train_adv toy_env toy_model toy_train toy_test toy_args toy_rng = Inr st"
    by (elim exE)
  from meta_train_adv_total [OF toy_meta_config_ok toy_val_nonempty, where E = toy_env
      and m = toy_model and trl = toy_train and tel = toy_test and g = toy_rng] obtain mst
    where mst: "meta_train_adv toy_env toy_model toy_train toy_val toy_test toy_args toy_rng =
                Inr mst"
    by (elim exE)
  from C7_history_lengths [THEN conjunct1, THEN mp, OF st]
  have a: "length (train_accuracy st) = 3 \<and> length (test_accuracy st) = 3"
    by (auto simp: toy_num_epochs)
  from C7_history_lengths [THEN conjunct2, THEN mp, OF mst]
  have b: "length (train_accuracy mst) = 3 \<and> length (test_accuracy mst) = 3 \<and>
           length (b_hist mst) = 3 \<and> length (reg_term_hist mst) = 3"
    by (auto simp: toy_num_epochs)
  from st mst a b show ?thesis by blast
qed

text \<open>
  On the concrete runs the test accuracies are 1/2, 1/4 and 3/4: the best checkpoint is
  written in the first and in the third epoch, not in the second, and the marker ends at 3/4.
\<close>

theorem C6_best_checkpoint_witness:
  "\<exists>st mst. train_adv toy_env toy_model toy_train toy_test toy_args toy_rng = Inr st \<and>
     meta_train_adv toy_env toy_model toy_train toy_val toy_test toy_args toy_rng = Inr mst \<and>
     test_accuracy st = [1 / 2, 1 / 4, 3 / 4] \<and>
     (\<exists>sd. TorchSave 0 ''out/models/ckpt_best.pt'' sd \<in> set (effects st)) \<and>
     (\<nexists>sd. TorchSave 1 ''out/models/ckpt_best.pt'' sd \<in> set (effects st)) \<and>
     (\<exists>sd. TorchSave 2 ''out/models/ckpt_best.pt'' sd \<in> set (effects st)) \<and>
     best_test_acc st = 3 / 4 \<and>
     test_accuracy mst = [1 / 2, 1 / 4, 3 / 4] \<and>
     (\<exists>sd. TorchSave 0 ''out/models/ckpt_best.pt'' sd \<in> set (effects mst)) \<and>
     (\<nexists>sd. TorchSave 1 ''out/models/ckpt_best.pt'' sd \<in> set (effects mst)) \<and>
     (\<exists>sd. TorchSave 2 ''out/models/ckpt_best.pt'' sd \<in> set (effects mst)) \<and>
     best_test_acc mst = 3 / 4"
proof -
  from train_adv_total [OF toy_train_config_ok, where E = toy_env and m = toy_model
      and trl = toy_train and tel = toy_test and g = toy_rng] obtain st
    where st: "train_adv toy_env toy_model toy_train toy_test toy_args toy_rng = Inr st"
    by (elim exE)
  from meta_train_adv_total [OF toy_meta_config_ok toy_val_nonempty, where E = toy_env
      and m = toy_model and trl = toy_train and tel = toy_test and g = toy_rng] obtain mst
    where mst: "meta_train_adv toy_env toy_model toy_train toy_val toy_test toy_args toy_rng =
                Inr mst"
    by (elim exE)
  have c: "\<forall>m2 nf. - 1 < fst (accuracy toy_env m2 toy_test nf)" by (simp add: toy_env_sel)
  note ta = toy_train_run [OF st]
  note tm = toy_meta_run [OF mst]
  note t = C6_best_checkpoint [OF toy_best_path, THEN conjunct1, THEN mp, OF st]
  note u = C6_best_checkpoint [OF toy_best_path, THEN conjunct2, THEN conjunct1, THEN mp, OF mst]
  have t1: "best_test_acc st = 3 / 4" using t [THEN conjunct1] by (simp add: ta)
  have u1: "best_test_acc mst = 3 / 4" using u [THEN conjunct1] by (simp add: tm)
  note tw = t [THEN conjunct2, THEN conjunct2, THEN conjunct2, THEN mp, OF c, unfolded ta]
  note uw = u [THEN conjunct2, THEN conjunct2, THEN conjunct2, THEN mp, OF c, unfolded tm]
  have t2: "\<exists>sd. TorchSave 0 ''out/models/ckpt_best.pt'' sd \<in> set (effects st)"
    using tw [THEN spec, of 0] by simp
  have t3: "\<nexists>sd. TorchSave 1 ''out/models/ckpt_best.pt'' sd \<in> set (effects st)"
    using tw [THEN spec, of 1] by simp
  have t4: "\<exists>sd. TorchSave 2 ''out/models/ckpt_best.pt'' sd \<in> set (effects st)"
    using tw [THEN spec, of 2] by (simp add: eval_nat_numeral All_less_Suc)
  have u2: "\<exists>sd. TorchSave 0 ''out/models/ckpt_best.pt'' sd \<in> set (effects mst)"
    using uw [THEN spec, of 0] by simp
  have u3: "\<nexists>sd. TorchSave 1 ''out/models/ckpt_best.pt'' sd \<in> set (effects mst)"
    using uw [THEN spec, of 1] by simp
  have u4: "\<exists>sd. TorchSave 2 ''out/models/ckpt_best.pt'' sd \<in> set (effects mst)"
    using uw [THEN spec, of 2] by (simp add: eval_nat_numeral All_less_Suc)
  show ?thesis
    by (intro exI [of _ st] exI [of _ mst] conjI st mst ta tm t1 t2 t3 t4 u1 u2 u3 u4)
qed

text \<open>
  Both concrete runs return, and both have written \<^verbatim>\<open>ckpt_best.pt\<close> in epoch 0.
\<close>

theorem C10_first_epoch_best_witness:
  "\<exists>st mst. train_adv toy_env toy_model toy_train toy_test toy_args toy_rng = Inr st \<and>
     meta_train_adv toy_env toy_model toy_train toy_val toy_test toy_args toy_rng = Inr mst \<and>
     (\<exists>sd. TorchSave 0 ''out/models/ckpt_best.pt'' sd \<in> set (effects st)) \<and>
     (\<exists>sd. TorchSave 0 ''out/models/ckpt_best.pt'' sd \<in> set (effects mst))"
proof -
  from train_adv_total [OF toy_train_config_ok, where E = toy_env and m = toy_model
      and trl = toy_train and tel = toy_test and g = toy_rng] obtain st
    where st: "train_adv toy_env toy_model toy_train toy_test toy_args toy_rng = Inr st"
    by (elim exE)
  from meta_train_adv_total [OF toy_meta_config_ok toy_val_nonempty, where E = toy_env
      and m = toy_model and trl = toy_train and tel = toy_test and g = toy_rng] obtain mst
    where mst: "meta_train_adv toy_env toy_model toy_train toy_val toy_test toy_args toy_rng =
                Inr mst"
    by (elim exE)
  have n: "(1::int) \<le> 3" by simp
  from C10_first_epoch_best [OF toy_accuracy_range, THEN conjunct2, THEN conjunct2,
      THEN conjunct1, THEN spec, THEN mp, THEN mp, THEN mp, OF st toy_num_epochs n]
  have a: "\<exists>sd. TorchSave 0 ''out/models/ckpt_best.pt'' sd \<in> set (effects st)"
    by (simp add: toy_best_path)
  from C10_first_epoch_best [OF toy_accuracy_range, THEN conjunct2, THEN conjunct2,
      THEN conjunct2, THEN spec, THEN mp, THEN mp, THEN mp, OF mst toy_num_epochs n]
  have b: "\<exists>sd. TorchSave 0 ''out/models/ckpt_best.pt'' sd \<in> set (effects mst)"
    by (simp add: toy_best_path)
  show ?thesis by (intro exI [of _ st] exI [of _ mst] conjI st mst a b)
qed

text \<open>
  The concrete validation source has one batch and the training source two: the run
  returns, and the draw gives the batch both from a fresh and from an exhausted iterator.
\<close>

theorem C1_validation_cursor_witness:
  "meta_train_adv toy_env toy_model toy_train toy_val toy_test toy_args toy_rng \<noteq>
     Inl StopIteration \<and>
   (\<exists>st. meta_train_adv toy_env toy_model toy_train toy_val toy_test toy_args toy_rng = Inr st) \<and>
   next_val_batch toy_val [] = Inr ((20, 1), []) \<and>
   next_val_batch toy_val toy_val = Inr ((20, 1), []) \<and>
   length toy_val < length toy_train"
proof -
  note t = C1_validation_cursor [OF toy_val_nonempty]
  have a: "meta_train_adv toy_env toy_model toy_train toy_val toy_test toy_args toy_rng \<noteq>
     Inl StopIteration"
    by (rule t [THEN conjunct1])
  have b: "\<exists>st. meta_train_adv toy_env toy_model toy_train toy_val toy_test toy_args toy_rng =
            Inr st"
    using toy_meta_config_ok
    by (rule t [THEN conjunct2, THEN conjunct2, THEN conjunct2, THEN conjunct2, THEN conjunct2,
          THEN mp])
  have c: "next_val_batch toy_val [] = Inr ((20, 1), [])"
    using t [THEN conjunct2, THEN conjunct2, THEN conjunct2, THEN conjunct1]
    by (simp add: toy_val_def)
  have d: "next_val_batch toy_val toy_val = Inr ((20, 1), [])"
    using t [THEN conjunct2, THEN conjunct2, THEN conjunct1, THEN spec, of 0]
    by (simp add: toy_val_def)
  have e: "length toy_val < length toy_train" by (simp add: toy_val_def toy_train_def)
  show ?thesis by (intro conjI a b c d e)
qed

text \<open>
  The concrete run with an empty validation source ends with \<^verbatim>\<open>StopIteration\<close>.
\<close>

theorem C9_empty_validation_witness:
  "meta_train_adv toy_env toy_model toy_train [] toy_test toy_args toy_rng = Inl StopIteration \<and>
   next_val_batch ([] :: (nat \<times> nat) list) [] = Inl StopIteration"
proof -
  have n: "(1::int) \<le> 3" by simp
  have a: "meta_train_adv toy_env toy_model toy_train [] toy_test toy_args toy_rng =
           Inl StopIteration"
    using toy_meta_config_ok toy_train_nonempty toy_num_epochs n
    by (rule C9_empty_validation [THEN conjunct2, THEN conjunct2, THEN conjunct2, THEN conjunct2,
          THEN conjunct1, THEN spec, THEN mp, THEN mp, THEN mp, THEN mp])
  have b: "next_val_batch ([] :: (nat \<times> nat) list) [] = Inl StopIteration"
    using C9_empty_validation [where vl = "[] :: (nat \<times> nat) list" and it = "[]",
        THEN conjunct2, THEN conjunct2, THEN conjunct1]
    by simp
  show ?thesis by (intro conjI a b)
qed

end
